theory Spec2Isabelle
  imports Main "HOL-Library.Word" "HOL-Library.Monad_Syntax"
begin

unbundle bit_operations_syntax

section \<open>The platform: driver calls, answers and the observable trace\<close>

text \<open>
  The programs of the repository are sequences of calls to the GPIO driver library, to
  \<open>nanosleep\<close> and to the C runtime. The library is not part of the repository: it is
  the environment. A run is modelled against a \<^emph>\<open>script\<close>, the list of the answers
  the environment gives to the calls that return something, in the order in which the calls
  are made. Every call is appended to the \<^emph>\<open>trace\<close>, with the answer it got. A
  function that needs an answer when the script is exhausted, or that gets an answer of the
  wrong kind, has no result (\<open>None\<close>): the script does not describe a run of it.

  Two programs are modelled. The functions of \<open>src/gpio2.c\<close> keep their names. The
  second program (first file of \<open>src/unnamed/part_001\<close>) tracks its line handles in a
  resource structure and registers \<open>reset_gpio\<close> with \<open>atexit\<close>; its functions whose
  names clash with those of \<open>src/gpio2.c\<close> carry the suffix \<open>_res\<close>.
\<close>

text \<open>A pointer (\<open>struct gpiod_chip *\<close>, \<open>struct gpiod_line *\<close>): \<open>None\<close> is \<open>NULL\<close>.\<close>

type_synonym ptr = "nat option"

record timespec =
  tv_sec :: int
  tv_nsec :: int

text \<open>The three \<open>struct timespec\<close> locals of the issuer, which \<open>d\<close> and \<open>r\<close> point to.\<close>

datatype tsvar = Duration | Remaining | Remaining_again

datatype thread_fn = Issuer_thread | Receiver_thread

datatype handler = Reset_gpio

text \<open>
  What the environment answers: a pointer, an \<open>int\<close> return code, or the return of
  \<open>nanosleep\<close> with the remaining time it reports, each with the value \<open>errno\<close> holds
  after the call; or the text \<open>strerror\<close> returns.
\<close>

datatype answer =
    Ptr ptr int
  | Ret int int
  | Slept int int timespec
  | Text string

datatype call =
    Gpiod_chip_open_by_name string
  | Gpiod_chip_get_line ptr int
  | Gpiod_line_request_output ptr string int
  | Gpiod_line_request_input ptr string
  | Gpiod_line_request_both_edges_events ptr string
  | Gpiod_line_set_value ptr int
  | Gpiod_line_event_wait ptr
  | Gpiod_line_event_read ptr
  | Gpiod_line_release ptr
  | Gpiod_chip_close ptr
  | Nanosleep timespec
  | Strerror int
  | Pthread_create thread_fn
  | Pthread_join thread_fn
  | Atexit handler
  | Stdout string
  | Stderr string
  | Exit int

datatype event = Call call answer | Do call

text \<open>
  The state of the process: what the environment will answer, what has been called, the
  value of \<open>errno\<close>, the global \<open>CHIP\<close> of the second program, the functions registered
  with \<open>atexit\<close> (latest first) and the memory of the issuer's \<open>struct timespec\<close> locals
  (\<open>None\<close>: not initialised).
\<close>

record world =
  script :: "answer list"
  trace :: "event list"
  errno :: int
  CHIP :: ptr
  atexit_fns :: "handler list"
  mem :: "tsvar \<Rightarrow> timespec option"

text \<open>A function either returns to its caller or has ended the process with a status.\<close>

datatype 'a outcome = Returned 'a | Exited int

definition ask :: "call \<Rightarrow> world \<Rightarrow> (answer \<times> world) option" where
  "ask c w =
     (case script w of
        [] \<Rightarrow> None
      | a # rest \<Rightarrow> Some (a, w\<lparr>script := rest, trace := trace w @ [Call c a]\<rparr>))"

definition tell :: "call \<Rightarrow> world \<Rightarrow> world" where
  "tell c w = w\<lparr>trace := trace w @ [Do c]\<rparr>"

definition ask_ptr :: "call \<Rightarrow> world \<Rightarrow> (ptr \<times> world) option" where
  "ask_ptr c w =
     (case ask c w of
        Some (Ptr p e, w') \<Rightarrow> Some (p, w'\<lparr>errno := e\<rparr>)
      | _ \<Rightarrow> None)"

definition ask_int :: "call \<Rightarrow> world \<Rightarrow> (int \<times> world) option" where
  "ask_int c w =
     (case ask c w of
        Some (Ret rc e, w') \<Rightarrow> Some (rc, w'\<lparr>errno := e\<rparr>)
      | _ \<Rightarrow> None)"

subsection \<open>The library calls the programs make\<close>

definition gpiod_chip_open_by_name :: "string \<Rightarrow> world \<Rightarrow> (ptr \<times> world) option" where
  "gpiod_chip_open_by_name nm w = ask_ptr (Gpiod_chip_open_by_name nm) w"

definition gpiod_chip_get_line :: "ptr \<Rightarrow> int \<Rightarrow> world \<Rightarrow> (ptr \<times> world) option" where
  "gpiod_chip_get_line c offset w = ask_ptr (Gpiod_chip_get_line c offset) w"

definition gpiod_line_request_output ::
  "ptr \<Rightarrow> string \<Rightarrow> int \<Rightarrow> world \<Rightarrow> (int \<times> world) option" where
  "gpiod_line_request_output l consumer default_val w =
     ask_int (Gpiod_line_request_output l consumer default_val) w"

definition gpiod_line_request_input :: "ptr \<Rightarrow> string \<Rightarrow> world \<Rightarrow> (int \<times> world) option" where
  "gpiod_line_request_input l consumer w = ask_int (Gpiod_line_request_input l consumer) w"

definition gpiod_line_request_both_edges_events ::
  "ptr \<Rightarrow> string \<Rightarrow> world \<Rightarrow> (int \<times> world) option" where
  "gpiod_line_request_both_edges_events l consumer w =
     ask_int (Gpiod_line_request_both_edges_events l consumer) w"

definition gpiod_line_set_value :: "ptr \<Rightarrow> int \<Rightarrow> world \<Rightarrow> (int \<times> world) option" where
  "gpiod_line_set_value l v w = ask_int (Gpiod_line_set_value l v) w"

text \<open>The programs always wait with a \<open>NULL\<close> timeout.\<close>

definition gpiod_line_event_wait :: "ptr \<Rightarrow> world \<Rightarrow> (int \<times> world) option" where
  "gpiod_line_event_wait l w = ask_int (Gpiod_line_event_wait l) w"

definition gpiod_line_event_read :: "ptr \<Rightarrow> world \<Rightarrow> (int \<times> world) option" where
  "gpiod_line_event_read l w = ask_int (Gpiod_line_event_read l) w"

definition gpiod_line_release :: "ptr \<Rightarrow> world \<Rightarrow> world" where
  "gpiod_line_release l w = tell (Gpiod_line_release l) w"

definition gpiod_chip_close :: "ptr \<Rightarrow> world \<Rightarrow> world" where
  "gpiod_chip_close c w = tell (Gpiod_chip_close c) w"

definition printf :: "string \<Rightarrow> world \<Rightarrow> world" where
  "printf s w = tell (Stdout s) w"

definition fprintf_stderr :: "string \<Rightarrow> world \<Rightarrow> world" where
  "fprintf_stderr s w = tell (Stderr s) w"

definition strerror :: "int \<Rightarrow> world \<Rightarrow> (string \<times> world) option" where
  "strerror e w =
     (case ask (Strerror e) w of
        Some (Text s, w') \<Rightarrow> Some (s, w')
      | _ \<Rightarrow> None)"

definition pthread_create :: "thread_fn \<Rightarrow> world \<Rightarrow> (int \<times> world) option" where
  "pthread_create f w = ask_int (Pthread_create f) w"

text \<open>The values of \<open>errno.h\<close> on Linux, the platform of the repository.\<close>

definition EINTR :: int where "EINTR = 4"
definition EFAULT :: int where "EFAULT = 14"
definition EINVAL :: int where "EINVAL = 22"

text \<open>
  \<open>nanosleep(d, r)\<close> reads the request from \<open>*d\<close>. When it returns \<open>-1\<close> with
  \<open>errno = EINTR\<close> it has written the remaining time to \<open>*r\<close>; otherwise \<open>*r\<close> is
  left as it was. Reading a \<open>struct timespec\<close> that was never written has no result.
\<close>

definition nanosleep :: "tsvar \<Rightarrow> tsvar \<Rightarrow> world \<Rightarrow> (int \<times> world) option" where
  "nanosleep d r w =
     (case mem w d of
        None \<Rightarrow> None
      | Some req \<Rightarrow>
          (case ask (Nanosleep req) w of
             Some (Slept rc e rem, w') \<Rightarrow>
               Some (rc, w'\<lparr>errno := e,
                             mem := (if rc = - 1 \<and> e = EINTR then (mem w')(r \<mapsto> rem)
                                     else mem w')\<rparr>)
           | _ \<Rightarrow> None))"

subsection \<open>Formatting of numbers (\<open>%d\<close>, \<open>%4ld\<close>)\<close>

fun dec_nat :: "nat \<Rightarrow> string" where
  "dec_nat n =
     (if n < 10 then [''0123456789'' ! n]
      else dec_nat (n div 10) @ [''0123456789'' ! (n mod 10)])"

declare dec_nat.simps [simp del]

definition dec :: "int \<Rightarrow> string" where
  "dec i = (if i < 0 then CHR ''-'' # dec_nat (nat (- i)) else dec_nat (nat i))"

definition pad :: "nat \<Rightarrow> string \<Rightarrow> string" where
  "pad n s = replicate (n - length s) CHR '' '' @ s"

section \<open>The constants of the programs\<close>

definition CHIP_NAME :: string where "CHIP_NAME = ''gpiochip0''"
definition GPIO_16 :: int where "GPIO_16 = 16"
definition GPIO_17 :: int where "GPIO_17 = 17"
definition GPIO_21 :: int where "GPIO_21 = 21"

section \<open>Process exit and the cleanup callback\<close>

text \<open>
  One pass of the loop of \<open>reset_gpio\<close> over \<open>pins\<close>: get the line, request it as input,
  release it; a failure of one of the first two prints a warning and goes on with the
  next line (\<open>continue\<close>).
\<close>

fun reset_gpio_loop :: "int list \<Rightarrow> world \<Rightarrow> world option" where
  "reset_gpio_loop [] w = Some w"
| "reset_gpio_loop (pin # pins) w = do {
     (l, w) \<leftarrow> gpiod_chip_get_line (CHIP w) pin w;
     if l = None then
       reset_gpio_loop pins
         (fprintf_stderr (''Warning: error while resetting line #'' @ dec pin
            @ '' (gpiod_chip_get_line() - errno: '' @ dec (errno w) @ '')\<newline>'') w)
     else do {
       (rc, w) \<leftarrow> gpiod_line_request_input l ''line'' w;
       if rc = - 1 then
         reset_gpio_loop pins
           (fprintf_stderr (''Warning: error while resetting line #'' @ dec pin
              @ '' (gpiod_line_request_input() - errno: '' @ dec (errno w) @ '')\<newline>'') w)
       else reset_gpio_loop pins (gpiod_line_release l w)
     }
   }"

definition reset_gpio :: "world \<Rightarrow> world option" where
  "reset_gpio w = do {
     w \<leftarrow> reset_gpio_loop [GPIO_16, GPIO_17, GPIO_21] (printf ''Reset GPIO\<newline>'' w);
     Some (gpiod_chip_close (CHIP w) w)
   }"

text \<open>
  \<open>atexit\<close> registers a function; \<open>exit\<close> calls the registered functions, the latest
  first, and ends the process. The only function the programs register is \<open>reset_gpio\<close>.
  (POSIX guarantees room for 32 registrations, so the single registration succeeds.)
\<close>

definition atexit :: "handler \<Rightarrow> world \<Rightarrow> world" where
  "atexit f w = (tell (Atexit f) w)\<lparr>atexit_fns := f # atexit_fns w\<rparr>"

fun run_handler :: "handler \<Rightarrow> world \<Rightarrow> world option" where
  "run_handler Reset_gpio w = reset_gpio w"

fun run_atexit :: "handler list \<Rightarrow> world \<Rightarrow> world option" where
  "run_atexit [] w = Some w"
| "run_atexit (f # fs) w = do { w \<leftarrow> run_handler f w; run_atexit fs w }"

definition exit :: "int \<Rightarrow> world \<Rightarrow> ('a outcome \<times> world) option" where
  "exit status w = do {
     w \<leftarrow> run_atexit (atexit_fns w) w;
     Some (Exited status, tell (Exit status) w)
   }"

text \<open>\<open>error\<close> is the same function in both programs.\<close>

definition error :: "string \<Rightarrow> world \<Rightarrow> ('a outcome \<times> world) option" where
  "error message w = exit 1 (fprintf_stderr (''ERROR: '' @ message @ ''\<newline>'') w)"

section \<open>The first program: \<open>src/gpio2.c\<close>\<close>

text \<open>
  \<open>long\<close> is a machine integer of some width \<open>'l\<close> (32 bits on the Raspberry Pi the
  repository targets); the loop counters are compared as signed values. \<open>time_t\<close> and the
  nanoseconds are only handed to \<open>nanosleep\<close> and are kept as integers.

  The fields \<open>duration_sec\<close>, \<open>duration_nano_sec\<close>, \<open>count\<close> and \<open>line_id\<close> of
  \<open>struct issuer_args\<close> are common to both programs; \<open>src/gpio2.c\<close> adds \<open>name\<close> and
  \<open>chip\<close>. The same holds of \<open>struct receiver_args\<close>.
\<close>

record (overloaded) 'l issuer_args_res =
  duration_sec :: int
  duration_nano_sec :: int
  count :: "'l word"
  line_id :: int

record (overloaded) 'l issuer_args = "'l issuer_args_res" +
  name :: string
  chip :: ptr

record (overloaded) 'l receiver_args_res =
  count :: "'l word"
  receiver_line_id :: int
  controller_line_id :: int

record (overloaded) 'l receiver_args = "'l receiver_args_res" +
  receiver_name :: string
  controller_name :: string
  chip :: ptr

lemma bind_fundef_cong [fundef_cong]:
  "x = y \<Longrightarrow> (\<And>a. y = Some a \<Longrightarrow> f a = g a) \<Longrightarrow> Option.bind x f = Option.bind y g"
  by (cases x) auto

lemma ask_script: "ask c w = Some (a, w') \<Longrightarrow> script w = a # script w'"
  by (auto simp: ask_def split: list.splits)

lemma nanosleep_script: "nanosleep d r w = Some (rc, w') \<Longrightarrow> length (script w') < length (script w)"
  by (auto simp: nanosleep_def split: option.splits answer.splits dest!: ask_script)

lemma sint_succ: "cycle <s (n::'l::len word) \<Longrightarrow> sint (cycle + 1) = sint cycle + 1"
proof -
  assume a: "cycle <s n"
  have "sint cycle < sint n" using a by (simp add: word_sless_alt)
  moreover have "sint n < 2 ^ (LENGTH('l) - Suc 0)" by (rule sint_less)
  moreover have "- (2 ^ (LENGTH('l) - Suc 0)) \<le> sint cycle" by (rule sint_greater_eq)
  ultimately have "signed_take_bit (LENGTH('l) - 1) (sint cycle + 1) = sint cycle + 1"
    by (simp add: signed_take_bit_int_eq_self_iff)
  moreover have "cycle + 1 = word_succ cycle" by (simp add: word_succ_p1)
  ultimately show ?thesis by (simp add: sint_word_succ)
qed

subsection \<open>The issuer\<close>

text \<open>
  The \<open>do ... while (! done)\<close> loop around \<open>nanosleep(d, r)\<close>. On \<open>EINTR\<close> the next
  request is what the interrupted call left in \<open>*r\<close> (\<open>d = r\<close>), and the next remainder
  goes to \<open>remaining_again\<close>. \<open>error\<close> does not return, so the cases of the
  \<open>switch\<close> do not fall through.
\<close>

function issuer_sleep :: "tsvar \<Rightarrow> tsvar \<Rightarrow> world \<Rightarrow> (unit outcome \<times> world) option" where
  "issuer_sleep d r w = do {
     (rc, w) \<leftarrow> nanosleep d r w;
     if rc = - 1 then
       (if errno w = EINTR then issuer_sleep r Remaining_again w
        else if errno w = EFAULT then
          error ''issuer: problem with copying information from user space'' w
        else if errno w = EINVAL then error ''issuer: unexpected period duration'' w
        else error ''issuer: unexpected errno value'' w)
     else Some (Returned (), w)
   }"
  by pat_completeness auto
termination
  by (relation "measure (\<lambda>(d, r, w). length (script w))") (auto dest: nanosleep_script)

declare issuer_sleep.simps [simp del]

function issuer_loop ::
  "'l::len issuer_args \<Rightarrow> ptr \<Rightarrow> 'l word \<Rightarrow> world \<Rightarrow> (unit outcome \<times> world) option" where
  "issuer_loop args issuer cycle w =
     (if cycle <s issuer_args_res.count args then
        let state = (if cycle AND 1 \<noteq> 0 then 1 else 0) in do {
          (rc, w) \<leftarrow> gpiod_line_set_value issuer state
            (printf (''I ['' @ pad 4 (dec (sint cycle)) @ ''] Set ''
               @ (if state \<noteq> 0 then ''up'' else ''down'') @ ''\<newline>'') w);
          if rc = - 1 then error ''issuer: cannot change the value of the output'' w
          else do {
            (out, w) \<leftarrow> issuer_sleep Duration Remaining w;
            case out of
              Exited status \<Rightarrow> Some (Exited status, w)
            | Returned _ \<Rightarrow> issuer_loop args issuer (cycle + 1) w
          }
        }
      else Some (Returned (), w))"
  by pat_completeness auto
termination
  by (relation "measure (\<lambda>(args, issuer, cycle, w). nat (sint (issuer_args_res.count args) - sint cycle))")
    (auto simp: sint_succ word_sless_alt)

declare issuer_loop.simps [simp del]

text \<open>The locals of the issuer at entry: only \<open>duration\<close> is initialised.\<close>

definition issuer_locals :: "('l, 'm) issuer_args_res_scheme \<Rightarrow> world \<Rightarrow> world" where
  "issuer_locals args w =
     w\<lparr>mem := (\<lambda>_. None)(Duration \<mapsto>
          \<lparr>tv_sec = duration_sec args, tv_nsec = duration_nano_sec args\<rparr>)\<rparr>"

definition issuer_thread :: "'l::len issuer_args \<Rightarrow> world \<Rightarrow> (unit outcome \<times> world) option" where
  "issuer_thread args w = do {
     (issuer, w) \<leftarrow> gpiod_chip_get_line (issuer_args.chip args) (line_id args)
       (issuer_locals args w);
     if issuer = None then error ''issuer: cannot get the line'' w
     else do {
       (rc, w) \<leftarrow> gpiod_line_request_output issuer (name args) 0 w;
       if rc = - 1 then
         error ''issuer: cannot set the line's mode to output'' (gpiod_line_release issuer w)
       else do {
         (out, w) \<leftarrow> issuer_loop args issuer 0 w;
         case out of
           Exited status \<Rightarrow> Some (Exited status, w)
         | Returned _ \<Rightarrow> do {
             (rc, w) \<leftarrow> gpiod_line_set_value issuer 0 w;
             if rc = - 1 then error ''issuer: cannot change the value of the output'' w
             else do {
               (issuer, w) \<leftarrow> gpiod_chip_get_line (issuer_args.chip args) (line_id args)
                 (gpiod_line_release issuer w);
               if issuer = None then error ''issuer: cannot get the line'' w
               else do {
                 (rc, w) \<leftarrow> gpiod_line_request_input issuer (name args) w;
                 if rc = - 1 then do {
                   (s, w) \<leftarrow> strerror (errno w)
                     (printf (''errno: '' @ dec (errno w) @ ''\<newline>'')
                        (gpiod_line_release issuer w));
                   error ''issuer: cannot set the line's mode to input''
                     (printf (''=> '' @ s @ ''\<newline>'') w)
                 }
                 else Some (Returned (), gpiod_line_release issuer w)
               }
             }
           }
       }
     }
   }"

subsection \<open>The receiver\<close>

text \<open>
  \<open>state\<close> is an automatic variable that the source never initialises: its content at
  entry is a parameter. \<open>state = !state\<close> gives 1 when it holds 0, and 0 otherwise.
\<close>

function receiver_loop ::
  "'l::len receiver_args \<Rightarrow> ptr \<Rightarrow> ptr \<Rightarrow> 'l word \<Rightarrow> int \<Rightarrow> world
     \<Rightarrow> (unit outcome \<times> world) option" where
  "receiver_loop args receiver controller cycle state w =
     (if cycle <s receiver_args_res.count args then do {
        (rc, w) \<leftarrow> gpiod_line_event_wait receiver w;
        if rc = - 1 then
          error ''receiver: error while waiting for an event''
            (gpiod_line_release controller (gpiod_line_release receiver w))
        else do {
          (rc, w) \<leftarrow> gpiod_line_event_read receiver w;
          if rc = - 1 then
            error ''receiver: error while reading the event''
              (gpiod_line_release controller (gpiod_line_release receiver w))
          else
            let state = (if state = 0 then 1 else 0) in do {
              (rc, w) \<leftarrow> gpiod_line_set_value controller state
                (printf ''Get an event!\<newline>'' w);
              if rc = - 1 then
                error ''contoller: cannot change the value of the output''
                  (gpiod_line_release controller (gpiod_line_release receiver w))
              else receiver_loop args receiver controller (cycle + 1) state w
            }
        }
      }
      else Some (Returned (), w))"
  by pat_completeness auto
termination
  by (relation "measure (\<lambda>(args, receiver, controller, cycle, state, w).
        nat (sint (receiver_args_res.count args) - sint cycle))")
    (auto simp: sint_succ word_sless_alt)

declare receiver_loop.simps [simp del]

definition receiver_thread ::
  "'l::len receiver_args \<Rightarrow> int \<Rightarrow> world \<Rightarrow> (unit outcome \<times> world) option" where
  "receiver_thread args state w = do {
     (receiver, w) \<leftarrow> gpiod_chip_get_line (receiver_args.chip args) (receiver_line_id args) w;
     if receiver = None then
       error ''receiver: cannot get the line used to receive messages from the issuer'' w
     else do {
       (controller, w) \<leftarrow>
         gpiod_chip_get_line (receiver_args.chip args) (controller_line_id args) w;
       if receiver = None then
         error ''receiver: cannot get the line used to control the LED'' w
       else do {
         (rc, w) \<leftarrow> gpiod_line_request_output controller (controller_name args) 0 w;
         if rc = - 1 then
           error ''receiver: cannot set the line's mode to input''
             (gpiod_line_release controller (gpiod_line_release receiver w))
         else do {
           (rc, w) \<leftarrow> gpiod_line_request_both_edges_events receiver (receiver_name args) w;
           if rc = - 1 then do {
             (s, w) \<leftarrow> strerror (errno w)
               (printf (''errno: '' @ dec (errno w) @ ''\<newline>'') w);
             error ''receiver: cannot set the line's callbacks''
               (gpiod_line_release controller
                  (gpiod_line_release receiver (printf (''=> '' @ s @ ''\<newline>'') w)))
           }
           else do {
             (out, w) \<leftarrow> receiver_loop args receiver controller 0 state w;
             case out of
               Exited status \<Rightarrow> Some (Exited status, w)
             | Returned _ \<Rightarrow> do {
                 (rc, w) \<leftarrow> gpiod_line_set_value controller 0 w;
                 if rc = - 1 then
                   error (''receiver: cannot change the value of the output for the line ''
                            @ ''that controls the LED'') w
                 else do {
                   (controller, w) \<leftarrow>
                     gpiod_chip_get_line (receiver_args.chip args) (controller_line_id args)
                       (gpiod_line_release controller (gpiod_line_release receiver w));
                   if receiver = None then
                     error ''receiver: cannot get the line used to control the LED'' w
                   else do {
                     (rc, w) \<leftarrow> gpiod_line_request_input controller (controller_name args) w;
                     if rc = - 1 then
                       error ''receiver: cannot set the line's mode to input''
                         (gpiod_line_release controller w)
                     else Some (Returned (), gpiod_line_release controller w)
                   }
                 }
               }
           }
         }
       }
     }
   }"

subsection \<open>\<open>main\<close>\<close>

text \<open>
  The two threads run concurrently in the source. The model fixes one schedule that the
  platform admits: both threads are created, and each one runs, from its first call to its
  last, when \<open>main\<close> joins it. A thread that calls \<open>error\<close> ends the process.
  \<open>return 0\<close> in \<open>main\<close> is \<open>exit(0)\<close>. \<open>long\<close> has 32 bits here, as on the
  Raspberry Pi of the repository. The parameter is the content of the receiver's
  uninitialised \<open>state\<close>.
\<close>

definition main :: "int \<Rightarrow> world \<Rightarrow> (unit outcome \<times> world) option" where
  "main state w = do {
     (chip, w) \<leftarrow> gpiod_chip_open_by_name CHIP_NAME w;
     if chip = None then error ''cannot open the chip'' w
     else
       let issuer_arg = \<lparr>duration_sec = 1, duration_nano_sec = 0,
             issuer_args_res.count = (20 :: 32 word), line_id = GPIO_16,
             name = ''issuer'', issuer_args.chip = chip\<rparr>;
           receiver_arg = \<lparr>receiver_args_res.count = (10 :: 32 word),
             receiver_line_id = GPIO_21, controller_line_id = GPIO_17,
             receiver_name = ''receiver'', controller_name = ''controller'',
             receiver_args.chip = chip\<rparr>
       in do {
         (rc, w) \<leftarrow> pthread_create Issuer_thread w;
         if rc \<noteq> 0 then error ''cannot create the thread for the issuer'' w
         else do {
           (rc, w) \<leftarrow> pthread_create Receiver_thread w;
           if rc \<noteq> 0 then error ''cannot create the thread for the receiver'' w
           else do {
             (out, w) \<leftarrow> issuer_thread issuer_arg w;
             case out of
               Exited status \<Rightarrow> Some (Exited status, w)
             | Returned _ \<Rightarrow> do {
                 (out, w) \<leftarrow> receiver_thread receiver_arg state (tell (Pthread_join Issuer_thread) w);
                 case out of
                   Exited status \<Rightarrow> Some (Exited status, w)
                 | Returned _ \<Rightarrow>
                     exit 0 (gpiod_chip_close chip (tell (Pthread_join Receiver_thread) w))
               }
           }
         }
       }
   }"

section \<open>The second program: line handles tracked in a resource structure\<close>

subsection \<open>The issuer\<close>

record issuer_thread_resource =
  issuer :: ptr

definition issuer_thread_init :: "issuer_thread_resource \<Rightarrow> issuer_thread_resource" where
  "issuer_thread_init resource = resource\<lparr>issuer := None\<rparr>"

definition issuer_thread_terminate :: "issuer_thread_resource \<Rightarrow> world \<Rightarrow> world" where
  "issuer_thread_terminate resource w =
     (if issuer resource \<noteq> None then gpiod_line_release (issuer resource) w else w)"

function issuer_sleep_res ::
  "issuer_thread_resource \<Rightarrow> tsvar \<Rightarrow> tsvar \<Rightarrow> world \<Rightarrow> (unit outcome \<times> world) option" where
  "issuer_sleep_res resource d r w = do {
     (rc, w) \<leftarrow> nanosleep d r w;
     if rc = - 1 then
       (if errno w = EINTR then issuer_sleep_res resource r Remaining_again w
        else if errno w = EFAULT then
          error ''issuer: problem with copying information from user space''
            (issuer_thread_terminate resource w)
        else if errno w = EINVAL then
          error ''issuer: unexpected period duration'' (issuer_thread_terminate resource w)
        else error ''issuer: unexpected errno value'' (issuer_thread_terminate resource w))
     else Some (Returned (), w)
   }"
  by pat_completeness auto
termination
  by (relation "measure (\<lambda>(resource, d, r, w). length (script w))")
    (auto dest: nanosleep_script)

declare issuer_sleep_res.simps [simp del]

function issuer_loop_res ::
  "'l::len issuer_args_res \<Rightarrow> issuer_thread_resource \<Rightarrow> 'l word \<Rightarrow> world
     \<Rightarrow> (unit outcome \<times> world) option" where
  "issuer_loop_res args resource cycle w =
     (if cycle <s issuer_args_res.count args then
        let val = (if cycle AND 1 \<noteq> 0 then 1 else 0) in do {
          (rc, w) \<leftarrow> gpiod_line_set_value (issuer resource) val
            (printf (''I ['' @ pad 4 (dec (sint cycle)) @ ''] Set ''
               @ (if val \<noteq> 0 then ''up'' else ''down'') @ ''\<newline>'') w);
          if rc = - 1 then
            error ''issuer: cannot change the value of the output''
              (issuer_thread_terminate resource w)
          else do {
            (out, w) \<leftarrow> issuer_sleep_res resource Duration Remaining w;
            case out of
              Exited status \<Rightarrow> Some (Exited status, w)
            | Returned _ \<Rightarrow> issuer_loop_res args resource (cycle + 1) w
          }
        }
      else Some (Returned (), w))"
  by pat_completeness auto
termination
  by (relation "measure (\<lambda>(args, resource, cycle, w).
        nat (sint (issuer_args_res.count args) - sint cycle))")
    (auto simp: sint_succ word_sless_alt)

declare issuer_loop_res.simps [simp del]

text \<open>
  The structure is a local that \<open>issuer_thread_init\<close> fills in completely, so the content
  it had before does not matter.
\<close>

definition issuer_thread_res ::
  "'l::len issuer_args_res \<Rightarrow> world \<Rightarrow> (unit outcome \<times> world) option" where
  "issuer_thread_res args w = do {
     (l, w) \<leftarrow> gpiod_chip_get_line (CHIP w) (line_id args) (issuer_locals args w);
     let resource = (issuer_thread_init \<lparr>issuer = None\<rparr>)\<lparr>issuer := l\<rparr> in
     if issuer resource = None then
       error ''issuer: cannot get the line'' (issuer_thread_terminate resource w)
     else do {
       (rc, w) \<leftarrow> gpiod_line_request_output (issuer resource) ''issuer'' 0 w;
       if rc = - 1 then
         error ''issuer: cannot set the line's mode to output''
           (issuer_thread_terminate resource w)
       else do {
         (out, w) \<leftarrow> issuer_loop_res args resource 0 w;
         case out of
           Exited status \<Rightarrow> Some (Exited status, w)
         | Returned _ \<Rightarrow> Some (Returned (), issuer_thread_terminate resource w)
       }
     }
   }"

subsection \<open>The receiver\<close>

record receiver_thread_resource =
  receiver :: ptr
  controller :: ptr

definition receiver_thread_init :: "receiver_thread_resource \<Rightarrow> receiver_thread_resource" where
  "receiver_thread_init resource = resource\<lparr>receiver := None, controller := None\<rparr>"

definition receiver_thread_terminate :: "receiver_thread_resource \<Rightarrow> world \<Rightarrow> world" where
  "receiver_thread_terminate resource w =
     (let w = (if receiver resource \<noteq> None then gpiod_line_release (receiver resource) w
               else w)
      in if controller resource \<noteq> None then gpiod_line_release (controller resource) w
         else w)"

function receiver_loop_res ::
  "'l::len receiver_args_res \<Rightarrow> receiver_thread_resource \<Rightarrow> 'l word \<Rightarrow> int \<Rightarrow> world
     \<Rightarrow> (unit outcome \<times> world) option" where
  "receiver_loop_res args resource cycle state w =
     (if cycle <s receiver_args_res.count args then do {
        (rc, w) \<leftarrow> gpiod_line_event_wait (receiver resource) w;
        if rc = - 1 then
          error ''receiver: error while waiting for an event''
            (receiver_thread_terminate resource w)
        else do {
          (rc, w) \<leftarrow> gpiod_line_event_read (receiver resource) w;
          if rc = - 1 then
            error ''receiver: error while reading the event''
              (receiver_thread_terminate resource w)
          else
            let state = (if state = 0 then 1 else 0) in do {
              (rc, w) \<leftarrow> gpiod_line_set_value (controller resource) state
                (printf ''Get an event!\<newline>'' w);
              if rc = - 1 then
                error ''contoller: cannot change the value of the output''
                  (receiver_thread_terminate resource w)
              else receiver_loop_res args resource (cycle + 1) state w
            }
        }
      }
      else Some (Returned (), w))"
  by pat_completeness auto
termination
  by (relation "measure (\<lambda>(args, resource, cycle, state, w).
        nat (sint (receiver_args_res.count args) - sint cycle))")
    (auto simp: sint_succ word_sless_alt)

declare receiver_loop_res.simps [simp del]

definition receiver_thread_res ::
  "'l::len receiver_args_res \<Rightarrow> int \<Rightarrow> world \<Rightarrow> (unit outcome \<times> world) option" where
  "receiver_thread_res args state w = do {
     (l, w) \<leftarrow> gpiod_chip_get_line (CHIP w) (receiver_line_id args) w;
     let resource = (receiver_thread_init \<lparr>receiver = None, controller = None\<rparr>)
                      \<lparr>receiver := l\<rparr> in
     if receiver resource = None then
       error ''receiver: cannot get the line used to receive messages from the issuer''
         (receiver_thread_terminate resource w)
     else do {
       (l, w) \<leftarrow> gpiod_chip_get_line (CHIP w) (controller_line_id args) w;
       let resource = resource\<lparr>controller := l\<rparr> in
       if receiver resource = None then
         error ''receiver: cannot get the line used to control the LED''
           (receiver_thread_terminate resource w)
       else do {
         (rc, w) \<leftarrow> gpiod_line_request_output (controller resource) ''controller'' 0 w;
         if rc = - 1 then
           error ''receiver: cannot set the line's mode to input''
             (receiver_thread_terminate resource w)
         else do {
           (rc, w) \<leftarrow> gpiod_line_request_both_edges_events (receiver resource) ''receiver'' w;
           if rc = - 1 then
             error ''receiver: cannot set the line's callbacks''
               (receiver_thread_terminate resource w)
           else do {
             (out, w) \<leftarrow> receiver_loop_res args resource 0 state w;
             case out of
               Exited status \<Rightarrow> Some (Exited status, w)
             | Returned _ \<Rightarrow> Some (Returned (), receiver_thread_terminate resource w)
           }
         }
       }
     }
   }"

subsection \<open>\<open>main\<close>\<close>

text \<open>The schedule is the one of \<open>main\<close> above.\<close>

definition main_res :: "int \<Rightarrow> world \<Rightarrow> (unit outcome \<times> world) option" where
  "main_res state w = do {
     (c, w) \<leftarrow> gpiod_chip_open_by_name CHIP_NAME w;
     let w = w\<lparr>CHIP := c\<rparr> in
     if CHIP w = None then error ''cannot open the chip'' w
     else
       let w = atexit Reset_gpio w;
           issuer_arg = \<lparr>duration_sec = 1, duration_nano_sec = 0,
             issuer_args_res.count = (5 :: 32 word), line_id = GPIO_16\<rparr>;
           receiver_arg = \<lparr>receiver_args_res.count = (3 :: 32 word),
             receiver_line_id = GPIO_21, controller_line_id = GPIO_17\<rparr>
       in do {
         (rc, w) \<leftarrow> pthread_create Issuer_thread w;
         if rc \<noteq> 0 then error ''cannot create the thread for the issuer'' w
         else do {
           (rc, w) \<leftarrow> pthread_create Receiver_thread w;
           if rc \<noteq> 0 then error ''cannot create the thread for the receiver'' w
           else do {
             (out, w) \<leftarrow> issuer_thread_res issuer_arg w;
             case out of
               Exited status \<Rightarrow> Some (Exited status, w)
             | Returned _ \<Rightarrow> do {
                 (out, w) \<leftarrow> receiver_thread_res receiver_arg state
                   (tell (Pthread_join Issuer_thread) w);
                 case out of
                   Exited status \<Rightarrow> Some (Exited status, w)
                 | Returned _ \<Rightarrow> exit 0 (tell (Pthread_join Receiver_thread) w)
               }
           }
         }
       }
   }"

section \<open>Reading the trace\<close>

text \<open>
  Each of the following reads one kind of call off a trace, event by event, in the order
  of the calls.
\<close>

text \<open>The levels passed to \<open>gpiod_line_set_value\<close>.\<close>

fun set_value_of :: "event \<Rightarrow> int list" where
  "set_value_of (Call (Gpiod_line_set_value l v) a) = [v]"
| "set_value_of _ = []"

definition set_values :: "event list \<Rightarrow> int list" where
  "set_values es = concat (map set_value_of es)"

text \<open>The lines passed to \<open>gpiod_line_release\<close>.\<close>

fun release_of :: "event \<Rightarrow> ptr list" where
  "release_of (Do (Gpiod_line_release l)) = [l]"
| "release_of _ = []"

definition releases :: "event list \<Rightarrow> ptr list" where
  "releases es = concat (map release_of es)"

text \<open>The chip handles passed to \<open>gpiod_chip_close\<close>.\<close>

fun close_of :: "event \<Rightarrow> ptr list" where
  "close_of (Do (Gpiod_chip_close c)) = [c]"
| "close_of _ = []"

definition closes :: "event list \<Rightarrow> ptr list" where
  "closes es = concat (map close_of es)"

text \<open>
  The cleanup as the trace shows it: \<open>reset_gpio\<close> announcing itself on the output
  stream (\<open>Inl\<close>) and the calls of \<open>gpiod_chip_close\<close> (\<open>Inr\<close>).
\<close>

fun cleanup_of :: "event \<Rightarrow> (unit + ptr) list" where
  "cleanup_of (Do (Stdout s)) = (if s = ''Reset GPIO\<newline>'' then [Inl ()] else [])"
| "cleanup_of (Do (Gpiod_chip_close c)) = [Inr c]"
| "cleanup_of _ = []"

definition cleanup_log :: "event list \<Rightarrow> (unit + ptr) list" where
  "cleanup_log es = concat (map cleanup_of es)"

text \<open>The threads \<open>main\<close> has joined: a join is recorded when the thread has returned.\<close>

fun join_of :: "event \<Rightarrow> thread_fn list" where
  "join_of (Do (Pthread_join f)) = [f]"
| "join_of _ = []"

definition joins :: "event list \<Rightarrow> thread_fn list" where
  "joins es = concat (map join_of es)"

text \<open>The lines an edge event was read from with \<open>gpiod_line_event_read\<close>.\<close>

fun event_read_of :: "event \<Rightarrow> ptr list" where
  "event_read_of (Call (Gpiod_line_event_read l) a) = [l]"
| "event_read_of _ = []"

definition events_read :: "event list \<Rightarrow> ptr list" where
  "events_read es = concat (map event_read_of es)"

text \<open>The lines waited on with \<open>gpiod_line_event_wait\<close>.\<close>

fun event_wait_of :: "event \<Rightarrow> ptr list" where
  "event_wait_of (Call (Gpiod_line_event_wait l) a) = [l]"
| "event_wait_of _ = []"

definition events_waited :: "event list \<Rightarrow> ptr list" where
  "events_waited es = concat (map event_wait_of es)"

text \<open>
  The fatal events: the lines written to the error stream that start with \<open>ERROR: \<close>
  (\<open>Inl\<close>), and the calls of \<open>exit\<close> with their status (\<open>Inr\<close>).
\<close>

fun fatal_of :: "event \<Rightarrow> (string + int) list" where
  "fatal_of (Do (Stderr s)) = (if take 7 s = ''ERROR: '' then [Inl s] else [])"
| "fatal_of (Do (Exit status)) = [Inr status]"
| "fatal_of _ = []"

definition fatal_log :: "event list \<Rightarrow> (string + int) list" where
  "fatal_log es = concat (map fatal_of es)"

text \<open>
  The time a trace spent in \<open>nanosleep\<close>, in nanoseconds, as the platform reports it: a
  call that completed slept its whole request, an interrupted call slept its request less
  the remaining time it wrote, a call that failed otherwise did not sleep.
\<close>

definition ns :: "timespec \<Rightarrow> int" where
  "ns t = tv_sec t * 1000000000 + tv_nsec t"

fun slept_of :: "event \<Rightarrow> int" where
  "slept_of (Call (Nanosleep req) (Slept rc e rem)) =
     (if rc = - 1 then (if e = EINTR then ns req - ns rem else 0) else ns req)"
| "slept_of _ = 0"

definition slept_ns :: "event list \<Rightarrow> int" where
  "slept_ns es = sum_list (map slept_of es)"

text \<open>
  The calls of a sleep of \<open>req\<close> that is interrupted once for each element of \<open>rems\<close>,
  the remaining times the platform reports, and then gets the answer \<open>fin\<close>: every call
  after an interruption asks for the time the interruption left.
\<close>

fun sleeps :: "timespec \<Rightarrow> timespec list \<Rightarrow> answer \<Rightarrow> event list" where
  "sleeps req [] fin = [Call (Nanosleep req) fin]"
| "sleeps req (rem # rems) fin =
     Call (Nanosleep req) (Slept (- 1) EINTR rem) # sleeps rem rems fin"

text \<open>The state of a process that has called nothing yet, facing the script \<open>scr\<close>.\<close>

definition world0 :: "answer list \<Rightarrow> world" where
  "world0 scr =
     \<lparr>script = scr, trace = [], errno = 0, CHIP = None, atexit_fns = [], mem = (\<lambda>_. None)\<rparr>"

section \<open>How a run ends\<close>

text \<open>
  \<open>quiet w w'\<close>: the process has gone from \<open>w\<close> to \<open>w'\<close> by calls that print no
  \<open>ERROR: \<close> line, do not exit, do not enter \<open>reset_gpio\<close>, close no chip and join no
  thread. \<open>fate w out w'\<close>: a function started in \<open>w\<close> has either returned after such
  calls, or ended the process with status 1 after printing exactly one \<open>ERROR: \<close> line,
  the handlers registered with \<open>atexit\<close> having run in between. \<open>ends w r\<close>: the result
  \<open>r\<close>, when there is one, is such an end.
\<close>

definition quiet :: "world \<Rightarrow> world \<Rightarrow> bool" where
  "quiet w w' \<longleftrightarrow> atexit_fns w' = atexit_fns w \<and> CHIP w' = CHIP w \<and>
     (\<exists>evs. trace w' = trace w @ evs \<and> fatal_log evs = [] \<and> cleanup_log evs = [] \<and> joins evs = [])"

definition fate :: "world \<Rightarrow> unit outcome \<Rightarrow> world \<Rightarrow> bool" where
  "fate w out w' \<longleftrightarrow> atexit_fns w' = atexit_fns w \<and> CHIP w' = CHIP w \<and>
     (\<exists>evs. trace w' = trace w @ evs \<and> joins evs = [] \<and>
        (case out of
           Returned _ \<Rightarrow> fatal_log evs = [] \<and> cleanup_log evs = []
         | Exited s \<Rightarrow> s = 1 \<and>
             (\<exists>msg. fatal_log evs = [Inl (''ERROR: '' @ msg @ ''\<newline>''), Inr 1]) \<and>
             cleanup_log evs = concat (map (\<lambda>_. [Inl (), Inr (CHIP w)]) (atexit_fns w))))"

definition ends :: "world \<Rightarrow> (unit outcome \<times> world) option \<Rightarrow> bool" where
  "ends w0 r = (case r of None \<Rightarrow> True | Some (out, w') \<Rightarrow> fate w0 out w')"

definition ts :: "int \<Rightarrow> int \<Rightarrow> timespec" where
  "ts sec nsec = \<lparr>tv_sec = sec, tv_nsec = nsec\<rparr>"

text \<open>What a run of main looks like, relative to the events \<open>evs\<close> it adds.\<close>

definition main_end :: "world \<Rightarrow> unit outcome \<Rightarrow> (unit + ptr) list \<Rightarrow> event list \<Rightarrow> bool" where
  "main_end w out cl evs \<longleftrightarrow>
     (out = Exited 0 \<and> fatal_log evs = [Inr 0] \<and> joins evs = [Issuer_thread, Receiver_thread] \<and>
        cleanup_log evs = cl @ concat (map (\<lambda>_. [Inl (), Inr (CHIP w)]) (atexit_fns w))) \<or>
     (out = Exited 1 \<and>
        (\<exists>msg. fatal_log evs = [Inl (''ERROR: '' @ msg @ ''\<newline>''), Inr 1]) \<and>
        (joins evs = [] \<or> joins evs = [Issuer_thread]) \<and>
        cleanup_log evs = concat (map (\<lambda>_. [Inl (), Inr (CHIP w)]) (atexit_fns w)))"

definition task_end :: "unit outcome \<Rightarrow> event list \<Rightarrow> bool" where
  "task_end out evs \<longleftrightarrow>
     (case out of
        Returned _ \<Rightarrow> fatal_log evs = []
      | Exited status \<Rightarrow> status = 1 \<and>
          (\<exists>msg. fatal_log evs = [Inl (''ERROR: '' @ msg @ ''\<newline>''), Inr 1]))"

definition process_end :: "unit outcome \<Rightarrow> event list \<Rightarrow> bool" where
  "process_end out evs \<longleftrightarrow>
     (out = Exited 0 \<and> fatal_log evs = [Inr 0] \<and> joins evs = [Issuer_thread, Receiver_thread]) \<or>
     (out = Exited 1 \<and>
        (\<exists>msg. fatal_log evs = [Inl (''ERROR: '' @ msg @ ''\<newline>''), Inr 1]) \<and>
        (joins evs = [] \<or> joins evs = [Issuer_thread]))"

text \<open>The script of a run of the second program in which every call succeeds.\<close>

definition script_res_ok :: "answer list" where
  "script_res_ok =
     [Ptr (Some 1) 0, Ret 0 0, Ret 0 0, Ptr (Some 16) 0, Ret 0 0]
     @ concat (replicate 5 [Ret 0 0, Slept 0 0 (ts 0 0)])
     @ [Ptr (Some 21) 0, Ptr (Some 17) 0, Ret 0 0, Ret 0 0]
     @ concat (replicate 3 [Ret 1 0, Ret 0 0, Ret 0 0])
     @ [Ptr (Some 16) 0, Ret 0 0, Ptr (Some 17) 0, Ret 0 0, Ptr (Some 21) 0, Ret 0 0]"

text \<open>
  What is done to the lines: the calls of \<open>gpiod_line_set_value\<close> with the line and the
  level (\<open>Inl\<close>) and the calls of \<open>gpiod_line_release\<close> with the line (\<open>Inr\<close>).
\<close>

fun line_op_of :: "event \<Rightarrow> (ptr \<times> int + ptr) list" where
  "line_op_of (Call (Gpiod_line_set_value l v) a) = [Inl (l, v)]"
| "line_op_of (Do (Gpiod_line_release l)) = [Inr l]"
| "line_op_of _ = []"

definition line_log :: "event list \<Rightarrow> (ptr \<times> int + ptr) list" where
  "line_log es = concat (map line_op_of es)"



definition toggler_args :: "32 word \<Rightarrow> 32 issuer_args" where
  "toggler_args n =
     \<lparr>duration_sec = 1, duration_nano_sec = 0, issuer_args_res.count = n, line_id = GPIO_16,
      name = ''issuer'', issuer_args.chip = Some 1\<rparr>"

definition relay_args_res :: "32 word \<Rightarrow> 32 receiver_args_res" where
  "relay_args_res n =
     \<lparr>receiver_args_res.count = n, receiver_line_id = GPIO_21, controller_line_id = GPIO_17\<rparr>"

definition relay_args :: "32 word \<Rightarrow> 32 receiver_args" where
  "relay_args n =
     \<lparr>receiver_args_res.count = n, receiver_line_id = GPIO_21, controller_line_id = GPIO_17,
      receiver_name = ''receiver'', controller_name = ''controller'',
      receiver_args.chip = Some 1\<rparr>"

text \<open>The state of the second program once \<open>main\<close> has opened the chip and registered the cleanup.\<close>

definition world_res :: "answer list \<Rightarrow> world" where
  "world_res scr = (world0 scr)\<lparr>CHIP := Some 1, atexit_fns := [Reset_gpio]\<rparr>"

text \<open>
  The warning that \<open>reset_gpio\<close> prints for line \<open>pin\<close> when the call \<open>fn\<close> has failed
  with \<open>errno\<close> \<open>e\<close>.
\<close>

definition reset_warning :: "int \<Rightarrow> string \<Rightarrow> int \<Rightarrow> event" where
  "reset_warning pin fn e =
     Do (Stderr (''Warning: error while resetting line #'' @ dec pin
                 @ '' ('' @ fn @ ''() - errno: '' @ dec e @ '')\<newline>''))"

text \<open>
  \<open>reset_attempt ch pin evs\<close>: the events \<open>evs\<close> are one attempt to reset line \<open>pin\<close>
  of the chip \<open>ch\<close>. The line is asked for; when it is not obtained, a warning follows and the
  attempt is over; otherwise it is requested as input, and either the request fails and
  a warning follows, or the line is released at once.
\<close>

definition reset_attempt :: "ptr \<Rightarrow> int \<Rightarrow> event list \<Rightarrow> bool" where
  "reset_attempt ch pin evs =
     (case evs of
        Call c (Ptr l e) # evs' \<Rightarrow>
          c = Gpiod_chip_get_line ch pin \<and>
          (case l of
             None \<Rightarrow> evs' = [reset_warning pin ''gpiod_chip_get_line'' e]
           | Some _ \<Rightarrow>
               (case evs' of
                  [Call c' (Ret rc e'), ev] \<Rightarrow>
                    c' = Gpiod_line_request_input l ''line'' \<and>
                    ev = (if rc = - 1 then reset_warning pin ''gpiod_line_request_input'' e'
                          else Do (Gpiod_line_release l))
                | _ \<Rightarrow> False))
      | _ \<Rightarrow> False)"

text \<open>
  \<open>reset_answers pins scr\<close>: the script \<open>scr\<close> holds an answer to every call that the
  loop of \<open>reset_gpio\<close> makes for \<open>pins\<close>.
\<close>

fun reset_answers :: "int list \<Rightarrow> answer list \<Rightarrow> bool" where
  "reset_answers [] scr = True"
| "reset_answers (pin # pins) (Ptr None e # scr) = reset_answers pins scr"
| "reset_answers (pin # pins) (Ptr (Some l) e # Ret rc e' # scr) = reset_answers pins scr"
| "reset_answers (pin # pins) scr = False"

text \<open>The script of a run of \<open>src/gpio2.c\<close> in which every call succeeds.\<close>

definition script_ok :: "answer list" where
  "script_ok =
     [Ptr (Some 1) 0, Ret 0 0, Ret 0 0, Ptr (Some 16) 0, Ret 0 0]
     @ concat (replicate 20 [Ret 0 0, Slept 0 0 (ts 0 0)])
     @ [Ret 0 0, Ptr (Some 16) 0, Ret 0 0]
     @ [Ptr (Some 21) 0, Ptr (Some 17) 0, Ret 0 0, Ret 0 0]
     @ concat (replicate 10 [Ret 1 0, Ret 0 0, Ret 0 0])
     @ [Ret 0 0, Ptr (Some 17) 0, Ret 0 0]"

text \<open>
  The levels written by \<open>n\<close> executions of \<open>state = !state\<close> followed by a write of
  \<open>state\<close>, from a variable that holds \<open>state\<close>.
\<close>

fun flips :: "int \<Rightarrow> nat \<Rightarrow> int list" where
  "flips state 0 = []"
| "flips state (Suc n) = (if state = 0 then 1 else 0) # flips (if state = 0 then 1 else 0) n"

text \<open>
  The lines that the loop of \<open>reset_gpio\<close> over \<open>pins\<close> releases, read from the answers
  of the platform: a line is released when it has been obtained and granted as input.
\<close>

fun reset_released :: "int list \<Rightarrow> answer list \<Rightarrow> ptr list" where
  "reset_released [] scr = []"
| "reset_released (pin # pins) (Ptr None e # scr) = reset_released pins scr"
| "reset_released (pin # pins) (Ptr (Some l) e # Ret rc e' # scr) =
     (if rc = - 1 then [] else [Some l]) @ reset_released pins scr"
| "reset_released (pin # pins) scr = []"

section \<open>Basic facts\<close>

lemma set_values_simps [simp]:
  "set_values [] = []"
  "set_values (e # es) = set_value_of e @ set_values es"
  "set_values (xs @ ys) = set_values xs @ set_values ys"
  by (simp_all add: set_values_def)

lemma releases_simps [simp]:
  "releases [] = []"
  "releases (e # es) = release_of e @ releases es"
  "releases (xs @ ys) = releases xs @ releases ys"
  by (simp_all add: releases_def)

lemma closes_simps [simp]:
  "closes [] = []"
  "closes (e # es) = close_of e @ closes es"
  "closes (xs @ ys) = closes xs @ closes ys"
  by (simp_all add: closes_def)

lemma cleanup_log_simps [simp]:
  "cleanup_log [] = []"
  "cleanup_log (e # es) = cleanup_of e @ cleanup_log es"
  "cleanup_log (xs @ ys) = cleanup_log xs @ cleanup_log ys"
  by (simp_all add: cleanup_log_def)

lemma joins_simps [simp]:
  "joins [] = []"
  "joins (e # es) = join_of e @ joins es"
  "joins (xs @ ys) = joins xs @ joins ys"
  by (simp_all add: joins_def)

lemma events_read_simps [simp]:
  "events_read [] = []"
  "events_read (e # es) = event_read_of e @ events_read es"
  "events_read (xs @ ys) = events_read xs @ events_read ys"
  by (simp_all add: events_read_def)

lemma events_waited_simps [simp]:
  "events_waited [] = []"
  "events_waited (e # es) = event_wait_of e @ events_waited es"
  "events_waited (xs @ ys) = events_waited xs @ events_waited ys"
  by (simp_all add: events_waited_def)

lemma fatal_log_simps [simp]:
  "fatal_log [] = []"
  "fatal_log (e # es) = fatal_of e @ fatal_log es"
  "fatal_log (xs @ ys) = fatal_log xs @ fatal_log ys"
  by (simp_all add: fatal_log_def)

lemma slept_ns_simps [simp]:
  "slept_ns [] = 0"
  "slept_ns (e # es) = slept_of e + slept_ns es"
  "slept_ns (xs @ ys) = slept_ns xs + slept_ns ys"
  by (simp_all add: slept_ns_def)

lemma ask_int_Some:
  "ask_int c w = Some (rc, w') \<longleftrightarrow>
     (\<exists>e rest. script w = Ret rc e # rest \<and>
        w' = w\<lparr>script := rest, trace := trace w @ [Call c (Ret rc e)], errno := e\<rparr>)"
  by (auto simp: ask_int_def ask_def split: list.splits answer.splits)

lemma ask_ptr_Some:
  "ask_ptr c w = Some (p, w') \<longleftrightarrow>
     (\<exists>e rest. script w = Ptr p e # rest \<and>
        w' = w\<lparr>script := rest, trace := trace w @ [Call c (Ptr p e)], errno := e\<rparr>)"
  by (auto simp: ask_ptr_def ask_def split: list.splits answer.splits)

lemma strerror_Some:
  "strerror n w = Some (s, w') \<longleftrightarrow>
     (\<exists>rest. script w = Text s # rest \<and>
        w' = w\<lparr>script := rest, trace := trace w @ [Call (Strerror n) (Text s)]\<rparr>)"
  by (auto simp: strerror_def ask_def split: list.splits answer.splits)

lemma nanosleep_Some:
  "nanosleep d r w = Some (rc, w') \<longleftrightarrow>
     (\<exists>req e rem rest. mem w d = Some req \<and> script w = Slept rc e rem # rest \<and>
        w' = w\<lparr>script := rest, trace := trace w @ [Call (Nanosleep req) (Slept rc e rem)],
               errno := e,
               mem := (if rc = - 1 \<and> e = EINTR then (mem w)(r \<mapsto> rem) else mem w)\<rparr>)"
  by (auto simp: nanosleep_def ask_def split: list.splits answer.splits option.splits)

lemmas call_defs = gpiod_chip_open_by_name_def gpiod_chip_get_line_def
  gpiod_line_request_output_def gpiod_line_request_input_def
  gpiod_line_request_both_edges_events_def gpiod_line_set_value_def
  gpiod_line_event_wait_def gpiod_line_event_read_def gpiod_line_release_def
  gpiod_chip_close_def printf_def fprintf_stderr_def pthread_create_def tell_def

lemmas call_Some = ask_int_Some ask_ptr_Some strerror_Some nanosleep_Some

section \<open>The interrupted sleep\<close>

lemma slept_ns_sleeps: "rc \<noteq> - 1 \<Longrightarrow> slept_ns (sleeps T rems (Slept rc e rem)) = ns T"
  by (induction rems arbitrary: T) auto

lemma issuer_sleep_interrupted:
  "mem w d = Some T \<Longrightarrow> r \<noteq> Duration \<Longrightarrow> rc \<noteq> - 1 \<Longrightarrow>
   script w = map (Slept (- 1) EINTR) rems @ Slept rc e rem # rest \<Longrightarrow>
   \<exists>w'. issuer_sleep d r w = Some (Returned (), w') \<and>
        trace w' = trace w @ sleeps T rems (Slept rc e rem) \<and> script w' = rest \<and>
        mem w' Duration = mem w Duration"
proof (induction rems arbitrary: w d r T)
  case Nil
  then show ?case
    by (subst issuer_sleep.simps) (simp add: nanosleep_def ask_def)
next
  case (Cons x rems)
  let ?w1 = "w\<lparr>script := map (Slept (- 1) EINTR) rems @ Slept rc e rem # rest,
               trace := trace w @ [Call (Nanosleep T) (Slept (- 1) EINTR x)],
               errno := EINTR, mem := (mem w)(r \<mapsto> x)\<rparr>"
  have n: "nanosleep d r w = Some (- 1, ?w1)"
    using Cons.prems by (simp add: nanosleep_def ask_def)
  have "\<exists>w'. issuer_sleep r Remaining_again ?w1 = Some (Returned (), w') \<and>
        trace w' = trace ?w1 @ sleeps x rems (Slept rc e rem) \<and> script w' = rest \<and>
        mem w' Duration = mem ?w1 Duration"
    by (rule Cons.IH) (use Cons.prems in simp_all)
  then obtain w' where w': "issuer_sleep r Remaining_again ?w1 = Some (Returned (), w')"
    "trace w' = trace ?w1 @ sleeps x rems (Slept rc e rem)" "script w' = rest"
    "mem w' Duration = mem ?w1 Duration"
    by blast
  have "issuer_sleep d r w = Some (Returned (), w')"
    by (subst issuer_sleep.simps) (simp add: n w'(1))
  then show ?case using w' Cons.prems by simp
qed

lemma issuer_sleep_res_interrupted:
  "mem w d = Some T \<Longrightarrow> r \<noteq> Duration \<Longrightarrow> rc \<noteq> - 1 \<Longrightarrow>
   script w = map (Slept (- 1) EINTR) rems @ Slept rc e rem # rest \<Longrightarrow>
   \<exists>w'. issuer_sleep_res resource d r w = Some (Returned (), w') \<and>
        trace w' = trace w @ sleeps T rems (Slept rc e rem) \<and> script w' = rest \<and>
        mem w' Duration = mem w Duration"
proof (induction rems arbitrary: w d r T)
  case Nil
  then show ?case
    by (subst issuer_sleep_res.simps) (simp add: nanosleep_def ask_def)
next
  case (Cons x rems)
  let ?w1 = "w\<lparr>script := map (Slept (- 1) EINTR) rems @ Slept rc e rem # rest,
               trace := trace w @ [Call (Nanosleep T) (Slept (- 1) EINTR x)],
               errno := EINTR, mem := (mem w)(r \<mapsto> x)\<rparr>"
  have n: "nanosleep d r w = Some (- 1, ?w1)"
    using Cons.prems by (simp add: nanosleep_def ask_def)
  have "\<exists>w'. issuer_sleep_res resource r Remaining_again ?w1 = Some (Returned (), w') \<and>
        trace w' = trace ?w1 @ sleeps x rems (Slept rc e rem) \<and> script w' = rest \<and>
        mem w' Duration = mem ?w1 Duration"
    by (rule Cons.IH) (use Cons.prems in simp_all)
  then obtain w' where w': "issuer_sleep_res resource r Remaining_again ?w1 = Some (Returned (), w')"
    "trace w' = trace ?w1 @ sleeps x rems (Slept rc e rem)" "script w' = rest"
    "mem w' Duration = mem ?w1 Duration"
    by blast
  have "issuer_sleep_res resource d r w = Some (Returned (), w')"
    by (subst issuer_sleep_res.simps) (simp add: n w'(1))
  then show ?case using w' Cons.prems by simp
qed

text \<open>
  Claim C5. The sleep of a cycle starts with \<open>d\<close> at \<open>duration\<close> (holding \<open>T\<close>) and
  \<open>r\<close> at \<open>remaining\<close>. Whatever the number of consecutive interruptions and whatever
  remaining times \<open>rems\<close> they report, once a call of \<open>nanosleep\<close> is not cut short the
  loop returns normally, in both programs: it has printed nothing and ended nothing, it
  has called \<open>nanosleep\<close> first for \<open>T\<close> and then, each time, for exactly what the
  interruption before left, the time slept adds up to \<open>T\<close>, and \<open>duration\<close> still
  holds \<open>T\<close> for the next cycle.
\<close>

theorem interrupted_sleep_resumes:
  assumes "mem w Duration = Some T" and "rc \<noteq> - 1"
    and "script w = map (Slept (- 1) EINTR) rems @ Slept rc e rem # rest"
  shows "(\<exists>w'. issuer_sleep Duration Remaining w = Some (Returned (), w') \<and>
            trace w' = trace w @ sleeps T rems (Slept rc e rem) \<and> script w' = rest \<and>
            mem w' Duration = Some T) \<and>
         (\<exists>w'. issuer_sleep_res resource Duration Remaining w = Some (Returned (), w') \<and>
            trace w' = trace w @ sleeps T rems (Slept rc e rem) \<and> script w' = rest \<and>
            mem w' Duration = Some T) \<and>
         slept_ns (sleeps T rems (Slept rc e rem)) = ns T"
proof -
  have "\<exists>w'. issuer_sleep Duration Remaining w = Some (Returned (), w') \<and>
          trace w' = trace w @ sleeps T rems (Slept rc e rem) \<and> script w' = rest \<and>
          mem w' Duration = mem w Duration"
    by (rule issuer_sleep_interrupted) (use assms in simp_all)
  moreover have "\<exists>w'. issuer_sleep_res resource Duration Remaining w = Some (Returned (), w') \<and>
          trace w' = trace w @ sleeps T rems (Slept rc e rem) \<and> script w' = rest \<and>
          mem w' Duration = mem w Duration"
    by (rule issuer_sleep_res_interrupted) (use assms in simp_all)
  ultimately show ?thesis
    using assms(1,2) by (simp add: slept_ns_sleeps)
qed

text \<open>
  A sleep of one second interrupted twice, with 0.6 s and then 0.2 s left: three calls, for
  1 s, 0.6 s and 0.2 s, one full second in all.
\<close>

theorem interrupted_sleep_resumes_witness:
  "(\<exists>w'. issuer_sleep Duration Remaining
           ((world0 [Slept (- 1) 4 (ts 0 600000000), Slept (- 1) 4 (ts 0 200000000),
                     Slept 0 0 (ts 0 0)])
              \<lparr>mem := [Duration \<mapsto> ts 1 0]\<rparr>)
         = Some (Returned (), w') \<and>
         trace w' =
           [Call (Nanosleep (ts 1 0)) (Slept (- 1) 4 (ts 0 600000000)),
            Call (Nanosleep (ts 0 600000000)) (Slept (- 1) 4 (ts 0 200000000)),
            Call (Nanosleep (ts 0 200000000)) (Slept 0 0 (ts 0 0))] \<and>
         script w' = [] \<and> mem w' Duration = Some (ts 1 0)) \<and>
   (\<exists>w'. issuer_sleep_res \<lparr>issuer = Some 7\<rparr> Duration Remaining
           ((world0 [Slept (- 1) 4 (ts 0 600000000), Slept (- 1) 4 (ts 0 200000000),
                     Slept 0 0 (ts 0 0)])
              \<lparr>mem := [Duration \<mapsto> ts 1 0]\<rparr>)
         = Some (Returned (), w') \<and>
         trace w' =
           [Call (Nanosleep (ts 1 0)) (Slept (- 1) 4 (ts 0 600000000)),
            Call (Nanosleep (ts 0 600000000)) (Slept (- 1) 4 (ts 0 200000000)),
            Call (Nanosleep (ts 0 200000000)) (Slept 0 0 (ts 0 0))] \<and>
         script w' = [] \<and> mem w' Duration = Some (ts 1 0)) \<and>
   slept_ns
     [Call (Nanosleep (ts 1 0)) (Slept (- 1) 4 (ts 0 600000000)),
      Call (Nanosleep (ts 0 600000000)) (Slept (- 1) 4 (ts 0 200000000)),
      Call (Nanosleep (ts 0 200000000)) (Slept 0 0 (ts 0 0))] = ns (ts 1 0) \<and>
   ns (ts 1 0) = 1000000000"
proof -
  have "(\<exists>w'. issuer_sleep Duration Remaining
           ((world0 [Slept (- 1) 4 (ts 0 600000000), Slept (- 1) 4 (ts 0 200000000),
                     Slept 0 0 (ts 0 0)])
              \<lparr>mem := [Duration \<mapsto> ts 1 0]\<rparr>)
         = Some (Returned (), w') \<and>
         trace w' = trace ((world0 [Slept (- 1) 4 (ts 0 600000000),
                     Slept (- 1) 4 (ts 0 200000000), Slept 0 0 (ts 0 0)])
              \<lparr>mem := [Duration \<mapsto> ts 1 0]\<rparr>)
           @ sleeps (ts 1 0) [ts 0 600000000, ts 0 200000000] (Slept 0 0 (ts 0 0)) \<and>
         script w' = [] \<and> mem w' Duration = Some (ts 1 0)) \<and>
   (\<exists>w'. issuer_sleep_res \<lparr>issuer = Some 7\<rparr> Duration Remaining
           ((world0 [Slept (- 1) 4 (ts 0 600000000), Slept (- 1) 4 (ts 0 200000000),
                     Slept 0 0 (ts 0 0)])
              \<lparr>mem := [Duration \<mapsto> ts 1 0]\<rparr>)
         = Some (Returned (), w') \<and>
         trace w' = trace ((world0 [Slept (- 1) 4 (ts 0 600000000),
                     Slept (- 1) 4 (ts 0 200000000), Slept 0 0 (ts 0 0)])
              \<lparr>mem := [Duration \<mapsto> ts 1 0]\<rparr>)
           @ sleeps (ts 1 0) [ts 0 600000000, ts 0 200000000] (Slept 0 0 (ts 0 0)) \<and>
         script w' = [] \<and> mem w' Duration = Some (ts 1 0)) \<and>
   slept_ns (sleeps (ts 1 0) [ts 0 600000000, ts 0 200000000] (Slept 0 0 (ts 0 0)))
     = ns (ts 1 0)"
    by (rule interrupted_sleep_resumes) (simp_all add: world0_def EINTR_def)
  then show ?thesis
    by (simp add: world0_def EINTR_def ns_def ts_def)
qed

section \<open>Every run ends quietly or through \<open>error\<close>\<close>

lemma quiet_refl [simp]: "quiet w w"
  by (simp add: quiet_def)

lemma quiet_trans: "quiet w w1 \<Longrightarrow> quiet w1 w2 \<Longrightarrow> quiet w w2"
  by (auto simp: quiet_def)

lemma quiet_tell:
  "quiet w0 w \<Longrightarrow> fatal_log evs = [] \<Longrightarrow> cleanup_log evs = [] \<Longrightarrow> joins evs = [] \<Longrightarrow>
     quiet w0 (w\<lparr>trace := trace w @ evs\<rparr>)"
  by (auto simp: quiet_def)

lemma quiet_mem [simp]: "quiet w0 (w\<lparr>mem := m\<rparr>) = quiet w0 w"
  by (simp add: quiet_def)

lemma fate_trans: "quiet w w1 \<Longrightarrow> fate w1 out w' \<Longrightarrow> fate w out w'"
  by (cases out) (auto simp: fate_def quiet_def)

lemma ends_trans: "quiet w w1 \<Longrightarrow> ends w1 r \<Longrightarrow> ends w r"
  by (auto simp: ends_def intro: fate_trans split: option.splits)

lemma ends_Returned: "quiet w0 w \<Longrightarrow> ends w0 (Some (Returned (), w))"
  by (auto simp: ends_def fate_def quiet_def)

lemma ends_if: "(c \<Longrightarrow> ends w0 a) \<Longrightarrow> (\<not> c \<Longrightarrow> ends w0 b) \<Longrightarrow> ends w0 (if c then a else b)"
  by simp

lemma ask_int_quiet: "ask_int c w = Some (rc, w1) \<Longrightarrow> quiet w w1"
  by (auto simp: ask_int_Some quiet_def)

lemma ask_ptr_quiet: "ask_ptr c w = Some (p, w1) \<Longrightarrow> quiet w w1"
  by (auto simp: ask_ptr_Some quiet_def)

lemma strerror_quiet: "strerror n w = Some (s, w1) \<Longrightarrow> quiet w w1"
  by (auto simp: strerror_Some quiet_def)

lemma nanosleep_quiet: "nanosleep d r w = Some (rc, w1) \<Longrightarrow> quiet w w1"
  by (auto simp: nanosleep_Some quiet_def)

lemma ends_bind:
  assumes "\<And>x w1. m = Some (x, w1) \<Longrightarrow> quiet w w1"
    and "quiet w0 w" and "\<And>x w1. m = Some (x, w1) \<Longrightarrow> quiet w0 w1 \<Longrightarrow> ends w0 (f x w1)"
  shows "ends w0 (m \<bind> (\<lambda>(x, w1). f x w1))"
proof (cases m)
  case None
  then show ?thesis by (simp add: ends_def)
next
  case (Some a)
  obtain x w1 where a: "a = (x, w1)" by (cases a)
  with Some assms(1) have "quiet w w1" by simp
  with assms(2) have "quiet w0 w1" by (rule quiet_trans)
  then show ?thesis using Some a by (simp add: assms(3))
qed

lemma ends_int:
  assumes "quiet w0 w" and "\<And>rc w1. quiet w0 w1 \<Longrightarrow> ends w0 (f rc w1)"
  shows "ends w0 (ask_int c w \<bind> (\<lambda>(rc, w1). f rc w1))"
  by (rule ends_bind[OF ask_int_quiet assms(1)]) (auto intro: assms(2))

lemma ends_ptr:
  assumes "quiet w0 w" and "\<And>p w1. quiet w0 w1 \<Longrightarrow> ends w0 (f p w1)"
  shows "ends w0 (ask_ptr c w \<bind> (\<lambda>(p, w1). f p w1))"
  by (rule ends_bind[OF ask_ptr_quiet assms(1)]) (auto intro: assms(2))

lemma ends_strerror:
  assumes "quiet w0 w" and "\<And>s w1. quiet w0 w1 \<Longrightarrow> ends w0 (f s w1)"
  shows "ends w0 (strerror n w \<bind> (\<lambda>(s, w1). f s w1))"
  by (rule ends_bind[OF strerror_quiet assms(1)]) (auto intro: assms(2))

lemma ends_nanosleep:
  assumes "quiet w0 w"
    and "\<And>rc w1. nanosleep d r w = Some (rc, w1) \<Longrightarrow> quiet w0 w1 \<Longrightarrow> ends w0 (f rc w1)"
  shows "ends w0 (nanosleep d r w \<bind> (\<lambda>(rc, w1). f rc w1))"
  by (rule ends_bind[OF nanosleep_quiet assms(1)]) (auto intro: assms(2))

lemma ends_call:
  assumes "ends w m" and "quiet w0 w" and "\<And>w1. quiet w0 w1 \<Longrightarrow> ends w0 (k w1)"
  shows "ends w0 (m \<bind> (\<lambda>(out, w1). case out of Returned x \<Rightarrow> k w1 | Exited s \<Rightarrow> Some (Exited s, w1)))"
proof (cases m)
  case None
  then show ?thesis by (simp add: ends_def)
next
  case (Some a)
  obtain out w1 where a: "a = (out, w1)" by (cases a)
  with Some assms(1) have f: "fate w out w1" by (simp add: ends_def)
  show ?thesis
  proof (cases out)
    case (Returned x)
    with f have "quiet w w1" by (auto simp: fate_def quiet_def)
    with assms(2) have "quiet w0 w1" by (rule quiet_trans)
    then show ?thesis using Some a Returned by (simp add: assms(3))
  next
    case (Exited s)
    with f assms(2) have "fate w0 (Exited s) w1" by (auto intro: fate_trans)
    then show ?thesis using Some a Exited by (simp add: ends_def)
  qed
qed

lemma reset_gpio_loop_quiet: "quiet w0 w \<Longrightarrow> reset_gpio_loop pins w = Some w' \<Longrightarrow> quiet w0 w'"
proof (induction pins arbitrary: w)
  case Nil
  then show ?case by simp
next
  case (Cons pin pins)
  from Cons.prems(2) obtain l w1 where g: "gpiod_chip_get_line (CHIP w) pin w = Some (l, w1)"
    and rest: "(if l = None then
       reset_gpio_loop pins
         (fprintf_stderr (''Warning: error while resetting line #'' @ dec pin
            @ '' (gpiod_chip_get_line() - errno: '' @ dec (errno w1) @ '')\<newline>'') w1)
     else do {
       (rc, w) \<leftarrow> gpiod_line_request_input l ''line'' w1;
       if rc = - 1 then
         reset_gpio_loop pins
           (fprintf_stderr (''Warning: error while resetting line #'' @ dec pin
              @ '' (gpiod_line_request_input() - errno: '' @ dec (errno w) @ '')\<newline>'') w)
       else reset_gpio_loop pins (gpiod_line_release l w)
     }) = Some w'"
    by (auto simp: bind_eq_Some_conv)
  have q1: "quiet w0 w1"
    using g Cons.prems(1) unfolding call_defs by (blast intro: quiet_trans ask_ptr_quiet)
  show ?case
  proof (cases "l = None")
    case True
    let ?w = "fprintf_stderr (''Warning: error while resetting line #'' @ dec pin
            @ '' (gpiod_chip_get_line() - errno: '' @ dec (errno w1) @ '')\<newline>'') w1"
    from rest True have "reset_gpio_loop pins ?w = Some w'" by simp
    moreover have "quiet w0 ?w" unfolding call_defs using q1 by (rule quiet_tell) simp_all
    ultimately show ?thesis by (rule Cons.IH[rotated])
  next
    case False
    with rest obtain rc w2 where r: "gpiod_line_request_input l ''line'' w1 = Some (rc, w2)"
      and rest2: "(if rc = - 1 then
         reset_gpio_loop pins
           (fprintf_stderr (''Warning: error while resetting line #'' @ dec pin
              @ '' (gpiod_line_request_input() - errno: '' @ dec (errno w2) @ '')\<newline>'') w2)
       else reset_gpio_loop pins (gpiod_line_release l w2)) = Some w'"
      by (auto simp: bind_eq_Some_conv)
    have q2: "quiet w0 w2"
      using r q1 unfolding call_defs by (blast intro: quiet_trans ask_int_quiet)
    show ?thesis
    proof (cases "rc = - 1")
      case True
      let ?w = "fprintf_stderr (''Warning: error while resetting line #'' @ dec pin
              @ '' (gpiod_line_request_input() - errno: '' @ dec (errno w2) @ '')\<newline>'') w2"
      from rest2 True have "reset_gpio_loop pins ?w = Some w'" by simp
      moreover have "quiet w0 ?w" unfolding call_defs using q2 by (rule quiet_tell) simp_all
      ultimately show ?thesis by (rule Cons.IH[rotated])
    next
      case False
      with rest2 have "reset_gpio_loop pins (gpiod_line_release l w2) = Some w'" by simp
      moreover have "quiet w0 (gpiod_line_release l w2)"
        unfolding call_defs using q2 by (rule quiet_tell) simp_all
      ultimately show ?thesis by (rule Cons.IH[rotated])
    qed
  qed
qed

lemma closes_cleanup:
  "closes evs = concat (map (\<lambda>x. case x of Inl _ \<Rightarrow> [] | Inr c \<Rightarrow> [c]) (cleanup_log evs))"
proof (induction evs)
  case Nil
  then show ?case by simp
next
  case (Cons ev evs)
  then show ?case by (cases ev rule: cleanup_of.cases) simp_all
qed

lemma reset_gpio_effect:
  assumes "reset_gpio w = Some w'"
  shows "atexit_fns w' = atexit_fns w \<and> CHIP w' = CHIP w \<and>
     (\<exists>evs. trace w' = trace w @ evs \<and> fatal_log evs = [] \<and> joins evs = [] \<and>
        cleanup_log evs = [Inl (), Inr (CHIP w)])"
proof -
  let ?w0 = "printf ''Reset GPIO\<newline>'' w"
  from assms obtain w1 where l: "reset_gpio_loop [GPIO_16, GPIO_17, GPIO_21] ?w0 = Some w1"
    and w': "w' = gpiod_chip_close (CHIP w1) w1"
    by (auto simp: reset_gpio_def bind_eq_Some_conv simp del: reset_gpio_loop.simps)
  have "quiet ?w0 ?w0" by simp
  from reset_gpio_loop_quiet[OF this l] obtain evs where
    "atexit_fns w1 = atexit_fns w" "CHIP w1 = CHIP w" "trace w1 = trace ?w0 @ evs"
    "fatal_log evs = []" "cleanup_log evs = []" "joins evs = []"
    by (auto simp: quiet_def call_defs)
  then show ?thesis
    by (simp add: w' call_defs)
qed

lemma run_atexit_effect:
  "run_atexit fs w = Some w' \<Longrightarrow>
     atexit_fns w' = atexit_fns w \<and> CHIP w' = CHIP w \<and>
     (\<exists>evs. trace w' = trace w @ evs \<and> fatal_log evs = [] \<and> joins evs = [] \<and>
        cleanup_log evs = concat (map (\<lambda>_. [Inl (), Inr (CHIP w)]) fs))"
proof (induction fs arbitrary: w)
  case Nil
  then show ?case by simp
next
  case (Cons f fs)
  from Cons.prems obtain w1 where h: "run_handler f w = Some w1" and r: "run_atexit fs w1 = Some w'"
    by (auto simp: bind_eq_Some_conv)
  from h have "reset_gpio w = Some w1" by (cases f) simp
  from reset_gpio_effect[OF this] Cons.IH[OF r] show ?case by auto
qed

lemma exit_effect:
  assumes "exit status w = Some (out, w')"
  shows "out = Exited status \<and> atexit_fns w' = atexit_fns w \<and> CHIP w' = CHIP w \<and>
     (\<exists>evs. trace w' = trace w @ evs \<and> fatal_log evs = [Inr status] \<and> joins evs = [] \<and>
        cleanup_log evs = concat (map (\<lambda>_. [Inl (), Inr (CHIP w)]) (atexit_fns w)))"
proof -
  from assms obtain w1 where r: "run_atexit (atexit_fns w) w = Some w1"
    and o: "out = Exited status" "w' = tell (Exit status) w1"
    by (auto simp: exit_def bind_eq_Some_conv)
  from run_atexit_effect[OF r] o show ?thesis
    by (auto simp: tell_def)
qed

lemma error_fate: "error msg w = Some (out, w') \<Longrightarrow> fate w out w'"
  unfolding error_def by (drule exit_effect) (auto simp: fate_def call_defs)

lemma ends_error: "quiet w0 w \<Longrightarrow> ends w0 (error msg w)"
  by (auto simp: ends_def split: option.splits intro: fate_trans error_fate)

lemmas ends_rules = ends_int ends_ptr ends_strerror ends_nanosleep ends_if ends_error ends_Returned

lemma quiet_locals [simp]: "quiet w0 (issuer_locals args w) = quiet w0 w"
  by (simp add: issuer_locals_def)

lemma quiet_issuer_terminate: "quiet w0 w \<Longrightarrow> quiet w0 (issuer_thread_terminate resource w)"
  by (auto simp: issuer_thread_terminate_def call_defs intro: quiet_tell)

lemma quiet_receiver_terminate: "quiet w0 w \<Longrightarrow> quiet w0 (receiver_thread_terminate res2 w)"
  by (auto simp: receiver_thread_terminate_def call_defs Let_def intro!: quiet_tell)

lemmas quiet_rules = quiet_tell quiet_issuer_terminate quiet_receiver_terminate

lemma ends_issuer_sleep: "ends w (issuer_sleep d r w)"
proof (induction d r w rule: issuer_sleep.induct)
  case (1 d r w)
  have "ends w0 (issuer_sleep d r w)" if "quiet w0 w" for w0
    apply (subst issuer_sleep.simps)
    apply (intro ends_rules that)
           apply (rule ends_trans, assumption)
           apply (rule "1.IH")
              apply (assumption | rule refl)+
    done
  then show ?case by simp
qed

lemma ends_issuer_sleep_res: "ends w (issuer_sleep_res resource d r w)"
proof (induction resource d r w rule: issuer_sleep_res.induct)
  case (1 resource d r w)
  have "ends w0 (issuer_sleep_res resource d r w)" if "quiet w0 w" for w0
    apply (subst issuer_sleep_res.simps)
    apply (intro ends_rules that)
           apply (rule ends_trans, assumption)
           apply (rule "1.IH")
              apply (assumption | rule refl | simp | intro quiet_rules)+
    done
  then show ?case by simp
qed


lemma ends_issuer_loop: "ends w (issuer_loop args l cycle w)"
proof (induction n \<equiv> "nat (sint (issuer_args_res.count args) - sint cycle)" arbitrary: cycle w)
  case 0
  from "0.hyps" have "\<not> cycle <s issuer_args_res.count args" by (simp add: word_sless_alt)
  then have "issuer_loop args l cycle w = Some (Returned (), w)"
    by (subst issuer_loop.simps) simp
  then show ?case by (simp add: ends_Returned)
next
  case (Suc n)
  from Suc.hyps(2) have lt: "cycle <s issuer_args_res.count args" by (simp add: word_sless_alt)
  have "n = nat (sint (issuer_args_res.count args) - sint (cycle + 1))"
    using Suc.hyps(2) sint_succ[OF lt] by simp
  note IH = Suc.hyps(1)[OF this]
  have "ends w0 (issuer_loop args l cycle w)" if "quiet w0 w" for w0
    apply (subst issuer_loop.simps)
    apply (simp only: lt if_True Let_def call_defs)
    apply (intro ends_rules ends_call[OF ends_issuer_sleep] that)
       apply (auto intro!: quiet_rules simp: that)
    apply (blast intro: ends_trans IH)+
    done
  then show ?case by simp
qed


lemma ends_issuer_loop_res: "ends w (issuer_loop_res args resource cycle w)"
proof (induction n \<equiv> "nat (sint (issuer_args_res.count args) - sint cycle)" arbitrary: cycle w)
  case 0
  from "0.hyps" have "\<not> cycle <s issuer_args_res.count args" by (simp add: word_sless_alt)
  then have "issuer_loop_res args resource cycle w = Some (Returned (), w)"
    by (subst issuer_loop_res.simps) simp
  then show ?case by (simp add: ends_Returned)
next
  case (Suc n)
  from Suc.hyps(2) have lt: "cycle <s issuer_args_res.count args" by (simp add: word_sless_alt)
  have "n = nat (sint (issuer_args_res.count args) - sint (cycle + 1))"
    using Suc.hyps(2) sint_succ[OF lt] by simp
  note IH = Suc.hyps(1)[OF this]
  have "ends w0 (issuer_loop_res args resource cycle w)" if "quiet w0 w" for w0
    apply (subst issuer_loop_res.simps)
    apply (simp only: lt if_True Let_def call_defs)
    apply (intro ends_rules ends_call[OF ends_issuer_sleep_res] that)
       apply (auto intro!: quiet_rules simp: that)
    apply (blast intro: ends_trans IH)+
    done
  then show ?case by simp
qed

lemma ends_receiver_loop: "ends w (receiver_loop args rl cl cycle state w)"
proof (induction n \<equiv> "nat (sint (receiver_args_res.count args) - sint cycle)" arbitrary: cycle state w)
  case 0
  from "0.hyps" have "\<not> cycle <s receiver_args_res.count args" by (simp add: word_sless_alt)
  then have "receiver_loop args rl cl cycle state w = Some (Returned (), w)"
    by (subst receiver_loop.simps) simp
  then show ?case by (simp add: ends_Returned)
next
  case (Suc n)
  from Suc.hyps(2) have lt: "cycle <s receiver_args_res.count args" by (simp add: word_sless_alt)
  have "n = nat (sint (receiver_args_res.count args) - sint (cycle + 1))"
    using Suc.hyps(2) sint_succ[OF lt] by simp
  note IH = Suc.hyps(1)[OF this]
  have "ends w0 (receiver_loop args rl cl cycle state w)" if "quiet w0 w" for w0
    apply (subst receiver_loop.simps)
    apply (simp only: lt if_True Let_def call_defs)
    apply (intro ends_rules that)
         apply (auto intro!: quiet_rules simp: that)
    apply (blast intro: ends_trans IH)+
    done
  then show ?case by simp
qed

lemma ends_receiver_loop_res: "ends w (receiver_loop_res args resource cycle state w)"
proof (induction n \<equiv> "nat (sint (receiver_args_res.count args) - sint cycle)" arbitrary: cycle state w)
  case 0
  from "0.hyps" have "\<not> cycle <s receiver_args_res.count args" by (simp add: word_sless_alt)
  then have "receiver_loop_res args resource cycle state w = Some (Returned (), w)"
    by (subst receiver_loop_res.simps) simp
  then show ?case by (simp add: ends_Returned)
next
  case (Suc n)
  from Suc.hyps(2) have lt: "cycle <s receiver_args_res.count args" by (simp add: word_sless_alt)
  have "n = nat (sint (receiver_args_res.count args) - sint (cycle + 1))"
    using Suc.hyps(2) sint_succ[OF lt] by simp
  note IH = Suc.hyps(1)[OF this]
  have "ends w0 (receiver_loop_res args resource cycle state w)" if "quiet w0 w" for w0
    apply (subst receiver_loop_res.simps)
    apply (simp only: lt if_True Let_def call_defs)
    apply (intro ends_rules that)
         apply (auto intro!: quiet_rules simp: that)
    apply (blast intro: ends_trans IH)+
    done
  then show ?case by simp
qed

lemma ends_issuer_thread: "ends w (issuer_thread args w)"
  unfolding issuer_thread_def call_defs
  apply (intro ends_rules ends_call[OF ends_issuer_loop])
  apply (auto intro!: quiet_rules)
  done

lemma ends_issuer_thread_res: "ends w (issuer_thread_res args w)"
  unfolding issuer_thread_res_def call_defs Let_def
  apply (intro ends_rules ends_call[OF ends_issuer_loop_res])
  apply (auto intro!: quiet_rules)
  done

lemma ends_receiver_thread: "ends w (receiver_thread args state w)"
  unfolding receiver_thread_def call_defs
  apply (intro ends_rules ends_call[OF ends_receiver_loop])
  apply (auto intro!: quiet_rules)
  done

lemma ends_receiver_thread_res: "ends w (receiver_thread_res args state w)"
  unfolding receiver_thread_res_def call_defs Let_def
  apply (intro ends_rules ends_call[OF ends_receiver_loop_res])
  apply (auto intro!: quiet_rules)
  done

lemma bind_pair_SomeE:
  assumes "Option.bind m (\<lambda>(a, b). f a b) = Some r"
  obtains a b where "m = Some (a, b)" "f a b = Some r"
  using assms by (cases m) auto

lemma error_Exited: "error msg w = Some (out, w') \<Longrightarrow> out = Exited 1"
  by (auto simp: error_def exit_def bind_eq_Some_conv)

lemma fate_of_ends: "ends w r \<Longrightarrow> r = Some (out, w') \<Longrightarrow> fate w out w'"
  by (simp add: ends_def)

lemma main_end_fate:
  assumes "quiet w w1" and "fate w1 (Exited s) w'"
  shows "\<exists>evs. trace w' = trace w @ evs \<and> main_end w (Exited s) cl evs"
  using assms by (auto simp: quiet_def fate_def main_end_def)

lemma main_end_fate_joined:
  assumes "quiet w w1" and "fate (tell (Pthread_join Issuer_thread) w1) (Exited s) w'"
  shows "\<exists>evs. trace w' = trace w @ evs \<and> main_end w (Exited s) cl evs"
  using assms by (auto simp: quiet_def fate_def main_end_def tell_def)

lemma main_fate:
  assumes "main state w = Some (out, w')"
  shows "\<exists>evs c. trace w' = trace w @ evs \<and> main_end w out [Inr c] evs"
proof -
  let ?ia = "\<lambda>chip. \<lparr>duration_sec = 1, duration_nano_sec = 0,
             issuer_args_res.count = (20 :: 32 word), line_id = GPIO_16,
             name = ''issuer'', issuer_args.chip = chip\<rparr>"
  let ?ra = "\<lambda>chip. \<lparr>receiver_args_res.count = (10 :: 32 word),
             receiver_line_id = GPIO_21, controller_line_id = GPIO_17,
             receiver_name = ''receiver'', controller_name = ''controller'',
             receiver_args.chip = chip\<rparr>"
  from assms obtain chip w1 where o: "gpiod_chip_open_by_name CHIP_NAME w = Some (chip, w1)"
    and r1: "(if chip = None then error ''cannot open the chip'' w1
     else do {
         (rc, w) \<leftarrow> pthread_create Issuer_thread w1;
         if rc \<noteq> 0 then error ''cannot create the thread for the issuer'' w
         else do {
           (rc, w) \<leftarrow> pthread_create Receiver_thread w;
           if rc \<noteq> 0 then error ''cannot create the thread for the receiver'' w
           else do {
             (out, w) \<leftarrow> issuer_thread (?ia chip) w;
             case out of
               Exited status \<Rightarrow> Some (Exited status, w)
             | Returned _ \<Rightarrow> do {
                 (out, w) \<leftarrow> receiver_thread (?ra chip) state (tell (Pthread_join Issuer_thread) w);
                 case out of
                   Exited status \<Rightarrow> Some (Exited status, w)
                 | Returned _ \<Rightarrow>
                     exit 0 (gpiod_chip_close chip (tell (Pthread_join Receiver_thread) w))
               }
           }
         }
       }) = Some (out, w')"
    unfolding main_def Let_def by (rule bind_pair_SomeE)
  have q1: "quiet w w1" using o unfolding call_defs by (rule ask_ptr_quiet)
  show ?thesis
  proof (cases "chip = None")
    case True
    with r1 have e: "error ''cannot open the chip'' w1 = Some (out, w')" by simp
    from main_end_fate[OF q1] error_fate[OF e] error_Exited[OF e] show ?thesis by blast
  next
    case False
    with r1 obtain rc w2 where c1: "pthread_create Issuer_thread w1 = Some (rc, w2)"
      and r2: "(if rc \<noteq> 0 then error ''cannot create the thread for the issuer'' w2
         else do {
           (rc, w) \<leftarrow> pthread_create Receiver_thread w2;
           if rc \<noteq> 0 then error ''cannot create the thread for the receiver'' w
           else do {
             (out, w) \<leftarrow> issuer_thread (?ia chip) w;
             case out of
               Exited status \<Rightarrow> Some (Exited status, w)
             | Returned _ \<Rightarrow> do {
                 (out, w) \<leftarrow> receiver_thread (?ra chip) state (tell (Pthread_join Issuer_thread) w);
                 case out of
                   Exited status \<Rightarrow> Some (Exited status, w)
                 | Returned _ \<Rightarrow>
                     exit 0 (gpiod_chip_close chip (tell (Pthread_join Receiver_thread) w))
               }
           }
         }) = Some (out, w')"
      by (simp only: if_False) (rule bind_pair_SomeE)
    have q2: "quiet w w2"
      using c1 q1 unfolding call_defs by (blast intro: quiet_trans ask_int_quiet)
    show ?thesis
    proof (cases "rc \<noteq> 0")
      case True
      with r2 have e: "error ''cannot create the thread for the issuer'' w2 = Some (out, w')" by simp
      from main_end_fate[OF q2] error_fate[OF e] error_Exited[OF e] show ?thesis by blast
    next
      case False
      with r2 obtain rc' w3 where c2: "pthread_create Receiver_thread w2 = Some (rc', w3)"
        and r3: "(if rc' \<noteq> 0 then error ''cannot create the thread for the receiver'' w3
           else do {
             (out, w) \<leftarrow> issuer_thread (?ia chip) w3;
             case out of
               Exited status \<Rightarrow> Some (Exited status, w)
             | Returned _ \<Rightarrow> do {
                 (out, w) \<leftarrow> receiver_thread (?ra chip) state (tell (Pthread_join Issuer_thread) w);
                 case out of
                   Exited status \<Rightarrow> Some (Exited status, w)
                 | Returned _ \<Rightarrow>
                     exit 0 (gpiod_chip_close chip (tell (Pthread_join Receiver_thread) w))
               }
           }) = Some (out, w')"
        by (simp only: if_False) (rule bind_pair_SomeE)
      have q3: "quiet w w3"
        using c2 q2 unfolding call_defs by (blast intro: quiet_trans ask_int_quiet)
      show ?thesis
      proof (cases "rc' \<noteq> 0")
        case True
        with r3 have e: "error ''cannot create the thread for the receiver'' w3 = Some (out, w')" by simp
        from main_end_fate[OF q3] error_fate[OF e] error_Exited[OF e] show ?thesis by blast
      next
        case False
        with r3 obtain out1 w4 where i: "issuer_thread (?ia chip) w3 = Some (out1, w4)"
          and r4: "(case out1 of
               Exited status \<Rightarrow> Some (Exited status, w4)
             | Returned _ \<Rightarrow> do {
                 (out, w) \<leftarrow> receiver_thread (?ra chip) state (tell (Pthread_join Issuer_thread) w4);
                 case out of
                   Exited status \<Rightarrow> Some (Exited status, w)
                 | Returned _ \<Rightarrow>
                     exit 0 (gpiod_chip_close chip (tell (Pthread_join Receiver_thread) w))
               }) = Some (out, w')"
          by (simp only: if_False) (rule bind_pair_SomeE)
        note f4 = fate_of_ends[OF ends_issuer_thread i]
        show ?thesis
        proof (cases out1)
          case (Exited s)
          with r4 have "out = Exited s" "w' = w4" by auto
          with main_end_fate[OF q3] f4 Exited show ?thesis by blast
        next
          case (Returned u)
          with f4 have "quiet w3 w4" by (auto simp: fate_def quiet_def)
          with q3 have q4: "quiet w w4" by (rule quiet_trans)
          from Returned r4 obtain out2 w5 where
            r: "receiver_thread (?ra chip) state (tell (Pthread_join Issuer_thread) w4) = Some (out2, w5)"
            and r5: "(case out2 of
                   Exited status \<Rightarrow> Some (Exited status, w5)
                 | Returned _ \<Rightarrow>
                     exit 0 (gpiod_chip_close chip (tell (Pthread_join Receiver_thread) w5)))
                = Some (out, w')"
            by (simp only: outcome.case) (rule bind_pair_SomeE)
          note f5 = fate_of_ends[OF ends_receiver_thread r]
          show ?thesis
          proof (cases out2)
            case (Exited s)
            with r5 have "out = Exited s" "w' = w5" by auto
            with main_end_fate_joined[OF q4] f5 Exited show ?thesis by blast
          next
            case (Returned u2)
            with r5 have "exit 0 (gpiod_chip_close chip (tell (Pthread_join Receiver_thread) w5)) = Some (out, w')"
              by simp
            from exit_effect[OF this] f5 q4 Returned show ?thesis
              by (auto simp: fate_def quiet_def tell_def call_defs main_end_def)
          qed
        qed
      qed
    qed
  qed
qed

lemma main_res_end_fate:
  assumes "trace w2 = trace w @ pre" "fatal_log pre = []" "joins pre = []" "cleanup_log pre = []"
    and "quiet w2 w3" and "fate w3 (Exited s) w'"
  shows "\<exists>evs. trace w' = trace w @ evs \<and>
           main_end (w\<lparr>CHIP := CHIP w', atexit_fns := atexit_fns w'\<rparr>) (Exited s) cl evs"
  using assms by (auto simp: quiet_def fate_def main_end_def)

lemma main_res_end_fate_joined:
  assumes "trace w2 = trace w @ pre" "fatal_log pre = []" "joins pre = []" "cleanup_log pre = []"
    and "quiet w2 w3" and "fate (tell (Pthread_join Issuer_thread) w3) (Exited s) w'"
  shows "\<exists>evs. trace w' = trace w @ evs \<and>
           main_end (w\<lparr>CHIP := CHIP w', atexit_fns := atexit_fns w'\<rparr>) (Exited s) cl evs"
  using assms by (auto simp: quiet_def fate_def main_end_def tell_def)

lemma main_res_fate:
  assumes "main_res state w = Some (out, w')" and "atexit_fns w = []"
  shows "\<exists>evs. trace w' = trace w @ evs \<and>
           main_end (w\<lparr>CHIP := CHIP w', atexit_fns := atexit_fns w'\<rparr>) out [] evs \<and>
           (atexit_fns w' = [] \<and> CHIP w' = None \<or> atexit_fns w' = [Reset_gpio] \<and> CHIP w' \<noteq> None)"
proof -
  let ?ia = "\<lparr>duration_sec = 1, duration_nano_sec = 0,
             issuer_args_res.count = (5 :: 32 word), line_id = GPIO_16\<rparr>"
  let ?ra = "\<lparr>receiver_args_res.count = (3 :: 32 word),
             receiver_line_id = GPIO_21, controller_line_id = GPIO_17\<rparr>"
  from assms(1) obtain c w1 where o: "gpiod_chip_open_by_name CHIP_NAME w = Some (c, w1)"
    and r1: "(if CHIP (w1\<lparr>CHIP := c\<rparr>) = None then error ''cannot open the chip'' (w1\<lparr>CHIP := c\<rparr>)
     else do {
         (rc, w) \<leftarrow> pthread_create Issuer_thread (atexit Reset_gpio (w1\<lparr>CHIP := c\<rparr>));
         if rc \<noteq> 0 then error ''cannot create the thread for the issuer'' w
         else do {
           (rc, w) \<leftarrow> pthread_create Receiver_thread w;
           if rc \<noteq> 0 then error ''cannot create the thread for the receiver'' w
           else do {
             (out, w) \<leftarrow> issuer_thread_res ?ia w;
             case out of
               Exited status \<Rightarrow> Some (Exited status, w)
             | Returned _ \<Rightarrow> do {
                 (out, w) \<leftarrow> receiver_thread_res ?ra state (tell (Pthread_join Issuer_thread) w);
                 case out of
                   Exited status \<Rightarrow> Some (Exited status, w)
                 | Returned _ \<Rightarrow> exit 0 (tell (Pthread_join Receiver_thread) w)
               }
           }
         }
       }) = Some (out, w')"
    unfolding main_res_def Let_def by (rule bind_pair_SomeE)
  from o obtain e rest where w1: "w1 = w\<lparr>script := rest,
      trace := trace w @ [Call (Gpiod_chip_open_by_name CHIP_NAME) (Ptr c e)], errno := e\<rparr>"
    by (auto simp: call_defs call_Some)
  show ?thesis
  proof (cases "c = None")
    case True
    with r1 have e: "error ''cannot open the chip'' (w1\<lparr>CHIP := c\<rparr>) = Some (out, w')" by simp
    have t: "trace (w1\<lparr>CHIP := c\<rparr>) = trace w @ [Call (Gpiod_chip_open_by_name CHIP_NAME) (Ptr c e)]"
      by (simp add: w1)
    from error_fate[OF e] error_Exited[OF e] have f: "fate (w1\<lparr>CHIP := c\<rparr>) (Exited 1) w'" "out = Exited 1"
      by simp_all
    from f(1) have "atexit_fns w' = []" "CHIP w' = None"
      using assms(2) True by (simp_all add: fate_def w1)
    with main_res_end_fate[OF t _ _ _ quiet_refl f(1)] f(2) show ?thesis by simp
  next
    case False
    let ?w2 = "atexit Reset_gpio (w1\<lparr>CHIP := c\<rparr>)"
    have t: "trace ?w2 = trace w @ [Call (Gpiod_chip_open_by_name CHIP_NAME) (Ptr c e), Do (Atexit Reset_gpio)]"
      by (simp add: w1 atexit_def tell_def)
    have a2: "atexit_fns ?w2 = [Reset_gpio]" "CHIP ?w2 = c"
      using assms(2) by (simp_all add: w1 atexit_def tell_def)
    have keep: "atexit_fns w' = [Reset_gpio] \<and> CHIP w' \<noteq> None"
      if "quiet ?w2 w3" "fate w3 out w'" for w3
      using that a2 False by (auto simp: quiet_def fate_def)
    have cc: "(CHIP (w1\<lparr>CHIP := c\<rparr>) = None) = False" using False by simp
    from r1[unfolded cc if_False]
    obtain rc w3 where c1: "pthread_create Issuer_thread ?w2 = Some (rc, w3)"
      and r2: "(if rc \<noteq> 0 then error ''cannot create the thread for the issuer'' w3
         else do {
           (rc, w) \<leftarrow> pthread_create Receiver_thread w3;
           if rc \<noteq> 0 then error ''cannot create the thread for the receiver'' w
           else do {
             (out, w) \<leftarrow> issuer_thread_res ?ia w;
             case out of
               Exited status \<Rightarrow> Some (Exited status, w)
             | Returned _ \<Rightarrow> do {
                 (out, w) \<leftarrow> receiver_thread_res ?ra state (tell (Pthread_join Issuer_thread) w);
                 case out of
                   Exited status \<Rightarrow> Some (Exited status, w)
                 | Returned _ \<Rightarrow> exit 0 (tell (Pthread_join Receiver_thread) w)
               }
           }
         }) = Some (out, w')"
      by (rule bind_pair_SomeE)
    have q3: "quiet ?w2 w3" using c1 unfolding call_defs by (rule ask_int_quiet)
    show ?thesis
    proof (cases "rc \<noteq> 0")
      case True
      with r2 have e: "error ''cannot create the thread for the issuer'' w3 = Some (out, w')" by simp
      from error_fate[OF e] error_Exited[OF e] have f: "fate w3 (Exited 1) w'" "out = Exited 1"
        by simp_all
      from main_res_end_fate[OF t _ _ _ q3 f(1)] keep[OF q3] f show ?thesis by simp
    next
      case False
      with r2 obtain rc' w4 where c2: "pthread_create Receiver_thread w3 = Some (rc', w4)"
        and r3: "(if rc' \<noteq> 0 then error ''cannot create the thread for the receiver'' w4
           else do {
             (out, w) \<leftarrow> issuer_thread_res ?ia w4;
             case out of
               Exited status \<Rightarrow> Some (Exited status, w)
             | Returned _ \<Rightarrow> do {
                 (out, w) \<leftarrow> receiver_thread_res ?ra state (tell (Pthread_join Issuer_thread) w);
                 case out of
                   Exited status \<Rightarrow> Some (Exited status, w)
                 | Returned _ \<Rightarrow> exit 0 (tell (Pthread_join Receiver_thread) w)
               }
           }) = Some (out, w')"
        by (simp only: if_False) (rule bind_pair_SomeE)
      have q4: "quiet ?w2 w4"
        using c2 q3 unfolding call_defs by (blast intro: quiet_trans ask_int_quiet)
      show ?thesis
      proof (cases "rc' \<noteq> 0")
        case True
        with r3 have e: "error ''cannot create the thread for the receiver'' w4 = Some (out, w')" by simp
        from error_fate[OF e] error_Exited[OF e] have f: "fate w4 (Exited 1) w'" "out = Exited 1"
          by simp_all
        from main_res_end_fate[OF t _ _ _ q4 f(1)] keep[OF q4] f show ?thesis by simp
      next
        case False
        with r3 obtain out1 w5 where i: "issuer_thread_res ?ia w4 = Some (out1, w5)"
          and r4: "(case out1 of
               Exited status \<Rightarrow> Some (Exited status, w5)
             | Returned _ \<Rightarrow> do {
                 (out, w) \<leftarrow> receiver_thread_res ?ra state (tell (Pthread_join Issuer_thread) w5);
                 case out of
                   Exited status \<Rightarrow> Some (Exited status, w)
                 | Returned _ \<Rightarrow> exit 0 (tell (Pthread_join Receiver_thread) w)
               }) = Some (out, w')"
          by (simp only: if_False) (rule bind_pair_SomeE)
        note f5 = fate_of_ends[OF ends_issuer_thread_res i]
        show ?thesis
        proof (cases out1)
          case (Exited s)
          with r4 have ow: "out = Exited s" "w' = w5" by auto
          with f5 Exited have f: "fate w4 (Exited s) w'" "fate w4 out w'" by simp_all
          from main_res_end_fate[OF t _ _ _ q4 f(1)] keep[OF q4 f(2)] ow show ?thesis by simp
        next
          case (Returned u)
          with f5 have "quiet w4 w5" by (auto simp: fate_def quiet_def)
          with q4 have q5: "quiet ?w2 w5" by (rule quiet_trans)
          let ?w5j = "tell (Pthread_join Issuer_thread) w5"
          from Returned r4 obtain out2 w6 where
            r: "receiver_thread_res ?ra state ?w5j = Some (out2, w6)"
            and r5: "(case out2 of
                   Exited status \<Rightarrow> Some (Exited status, w6)
                 | Returned _ \<Rightarrow> exit 0 (tell (Pthread_join Receiver_thread) w6))
                = Some (out, w')"
            by (simp only: outcome.case) (rule bind_pair_SomeE)
          note f6 = fate_of_ends[OF ends_receiver_thread_res r]
          show ?thesis
          proof (cases out2)
            case (Exited s)
            with r5 have ow: "out = Exited s" "w' = w6" by auto
            with f6 Exited have f: "fate ?w5j (Exited s) w'" by simp
            have "atexit_fns w' = [Reset_gpio] \<and> CHIP w' \<noteq> None"
              using f q5 a2 \<open>c \<noteq> None\<close> by (auto simp: quiet_def fate_def tell_def)
            with main_res_end_fate_joined[OF t _ _ _ q5 f] ow show ?thesis by simp
          next
            case (Returned u2)
            with r5 have "exit 0 (tell (Pthread_join Receiver_thread) w6) = Some (out, w')"
              by simp
            from exit_effect[OF this] f6 q5 Returned a2 t \<open>c \<noteq> None\<close> show ?thesis
              by (auto simp: fate_def quiet_def tell_def main_end_def)
          qed
        qed
      qed
    qed
  qed
qed

lemma fate_task_end: "fate w out w' \<Longrightarrow> \<exists>evs. trace w' = trace w @ evs \<and> task_end out evs"
  by (cases out) (auto simp: fate_def task_end_def)

lemma error_plain:
  "atexit_fns w = [] \<Longrightarrow>
     error message w = Some (Exited 1,
       w\<lparr>trace := trace w @ [Do (Stderr (''ERROR: '' @ message @ ''\<newline>'')), Do (Exit 1)]\<rparr>)"
  by (simp add: error_def exit_def call_defs)

text \<open>
  How a run ends, when it ends. \<open>error\<close> prints \<open>ERROR: \<close>, the message and a newline
  on the error stream and exits with status 1. A run of \<open>main\<close>, in either program, ends in one of two
  ways: with status 0, no \<open>ERROR: \<close> line printed and both threads joined, that is, both
  tasks returned; or with status 1, after exactly one \<open>ERROR: \<close> line, printed before
  the exit, and with a task that did not return. Whatever the schedule, a task either
  returns without a fatal event or prints one \<open>ERROR: \<close> line and exits with status 1.
\<close>

theorem exit_status:
  "(atexit_fns w = [] \<longrightarrow>
      error message w = Some (Exited 1,
        w\<lparr>trace := trace w @ [Do (Stderr (''ERROR: '' @ message @ ''\<newline>'')), Do (Exit 1)]\<rparr>)) \<and>
   (main state (world0 scr) = Some (out, w') \<longrightarrow> process_end out (trace w')) \<and>
   (main_res state (world0 scr) = Some (out, w') \<longrightarrow> process_end out (trace w')) \<and>
   (issuer_thread args w = Some (out, w') \<longrightarrow> (\<exists>evs. trace w' = trace w @ evs \<and> task_end out evs)) \<and>
   (receiver_thread rargs state w = Some (out, w') \<longrightarrow>
      (\<exists>evs. trace w' = trace w @ evs \<and> task_end out evs)) \<and>
   (issuer_thread_res args' w = Some (out, w') \<longrightarrow>
      (\<exists>evs. trace w' = trace w @ evs \<and> task_end out evs)) \<and>
   (receiver_thread_res rargs' state w = Some (out, w') \<longrightarrow>
      (\<exists>evs. trace w' = trace w @ evs \<and> task_end out evs))"
proof (intro conjI impI)
  assume "atexit_fns w = []"
  then show "error message w = Some (Exited 1,
        w\<lparr>trace := trace w @ [Do (Stderr (''ERROR: '' @ message @ ''\<newline>'')), Do (Exit 1)]\<rparr>)"
    by (rule error_plain)
next
  assume "main state (world0 scr) = Some (out, w')"
  from main_fate[OF this] show "process_end out (trace w')"
    by (auto simp: main_end_def process_end_def world0_def)
next
  assume "main_res state (world0 scr) = Some (out, w')"
  from main_res_fate[OF this] show "process_end out (trace w')"
    by (auto simp: main_end_def process_end_def world0_def)
next
  assume "issuer_thread args w = Some (out, w')"
  from fate_of_ends[OF ends_issuer_thread this] show "\<exists>evs. trace w' = trace w @ evs \<and> task_end out evs"
    by (rule fate_task_end)
next
  assume "receiver_thread rargs state w = Some (out, w')"
  from fate_of_ends[OF ends_receiver_thread this] show "\<exists>evs. trace w' = trace w @ evs \<and> task_end out evs"
    by (rule fate_task_end)
next
  assume "issuer_thread_res args' w = Some (out, w')"
  from fate_of_ends[OF ends_issuer_thread_res this] show "\<exists>evs. trace w' = trace w @ evs \<and> task_end out evs"
    by (rule fate_task_end)
next
  assume "receiver_thread_res rargs' state w = Some (out, w')"
  from fate_of_ends[OF ends_receiver_thread_res this] show "\<exists>evs. trace w' = trace w @ evs \<and> task_end out evs"
    by (rule fate_task_end)
qed

text \<open>
  A run of the second program in which every call succeeds exits with status 0; a run of
  \<open>src/gpio2.c\<close> in which the chip cannot be opened prints the diagnostic and exits
  with status 1.
\<close>

theorem exit_status_witness:
  "(\<exists>w'. main_res 0 (world0 script_res_ok) = Some (Exited 0, w') \<and>
          fatal_log (trace w') = [Inr 0] \<and> joins (trace w') = [Issuer_thread, Receiver_thread]) \<and>
   (\<exists>w'. main 0 (world0 [Ptr None 2]) = Some (Exited 1, w') \<and>
          fatal_log (trace w') = [Inl ''ERROR: cannot open the chip\<newline>'', Inr 1] \<and>
          joins (trace w') = [])"
proof -
  have "map_option fst (main_res 0 (world0 script_res_ok)) = Some (Exited 0)"
    by code_simp
  then obtain w1 where r1: "main_res 0 (world0 script_res_ok) = Some (Exited 0, w1)"
    by (cases "main_res 0 (world0 script_res_ok)") auto
  have "map_option (\<lambda>(out, w). (out, fatal_log (trace w), joins (trace w))) (main 0 (world0 [Ptr None 2]))
        = Some (Exited 1, [Inl ''ERROR: cannot open the chip\<newline>'', Inr 1], [])"
    by code_simp
  then obtain w2 where r2: "main 0 (world0 [Ptr None 2]) = Some (Exited 1, w2)"
    and l2: "fatal_log (trace w2) = [Inl ''ERROR: cannot open the chip\<newline>'', Inr 1]" "joins (trace w2) = []"
    by (cases "main 0 (world0 [Ptr None 2])") auto
  from exit_status[of _ _ 0 script_res_ok "Exited 0" w1] r1
  have "process_end (Exited 0) (trace w1)" by blast
  moreover from exit_status[of _ _ 0 "[Ptr None 2]" "Exited 1" w2] r2
  have "process_end (Exited 1) (trace w2)" by blast
  ultimately show ?thesis using r1 r2 l2 by (auto simp: process_end_def)
qed

section \<open>A controller line that is not obtained does not end the run\<close>

text \<open>
  Claim C9 fails on a run in which the receiver does not obtain the controller line.
  \<open>gpiod_chip_get_line\<close> answers \<open>NULL\<close> for line 17 when the receiver asks for it
  the first time, and every other call succeeds: the receiver tests its own handle instead
  of the controller's, goes on with the null handle, and both tasks return. The process
  prints no \<open>ERROR: \<close> line and exits with status 0, in both programs.
\<close>

theorem null_controller_run_exits_0:
  "map_option (\<lambda>(out, w). (out, fatal_log (trace w), joins (trace w),
                  filter (\<lambda>ev. ev = Call (Gpiod_chip_get_line (Some 1) 17) (Ptr None 19)) (trace w)))
     (main 0 (world0
        ([Ptr (Some 1) 0, Ret 0 0, Ret 0 0, Ptr (Some 16) 0, Ret 0 0]
         @ concat (replicate 20 [Ret 0 0, Slept 0 0 (ts 0 0)])
         @ [Ret 0 0, Ptr (Some 16) 0, Ret 0 0]
         @ [Ptr (Some 21) 0, Ptr None 19, Ret 0 0, Ret 0 0]
         @ concat (replicate 10 [Ret 1 0, Ret 0 0, Ret 0 0])
         @ [Ret 0 0, Ptr (Some 17) 0, Ret 0 0])))
   = Some (Exited 0, [Inr 0], [Issuer_thread, Receiver_thread],
       [Call (Gpiod_chip_get_line (Some 1) 17) (Ptr None 19)]) \<and>
   map_option (\<lambda>(out, w). (out, fatal_log (trace w), joins (trace w),
                  filter (\<lambda>ev. ev = Call (Gpiod_chip_get_line (Some 1) 17) (Ptr None 19)) (trace w)))
     (main_res 0 (world0
        ([Ptr (Some 1) 0, Ret 0 0, Ret 0 0, Ptr (Some 16) 0, Ret 0 0]
         @ concat (replicate 5 [Ret 0 0, Slept 0 0 (ts 0 0)])
         @ [Ptr (Some 21) 0, Ptr None 19, Ret 0 0, Ret 0 0]
         @ concat (replicate 3 [Ret 1 0, Ret 0 0, Ret 0 0])
         @ [Ptr (Some 16) 0, Ret 0 0, Ptr (Some 17) 0, Ret 0 0, Ptr (Some 21) 0, Ret 0 0])))
   = Some (Exited 0, [Inr 0], [Issuer_thread, Receiver_thread],
       [Call (Gpiod_chip_get_line (Some 1) 17) (Ptr None 19)])"
  by code_simp

section \<open>The levels written by the issuer\<close>

lemma line_log_simps [simp]:
  "line_log [] = []"
  "line_log (e # es) = line_op_of e @ line_log es"
  "line_log (xs @ ys) = line_log xs @ line_log ys"
  by (simp_all add: line_log_def)
















section \<open>A failed call in the loop of the issuer\<close>

text \<open>
  Claim C1 fails on \<open>src/gpio2.c\<close>. The issuer gets its line and is granted it as an
  output; the first \<open>gpiod_line_set_value\<close> of the loop fails; the process prints the
  diagnostic and exits: \<open>gpiod_line_release\<close> is never called.
\<close>

theorem issuer_leaks_line_on_failed_set_value:
  "map_option (\<lambda>(out, w). (out, trace w))
     (issuer_thread (toggler_args 3) (world0 [Ptr (Some 16) 0, Ret 0 0, Ret (- 1) 5]))
   = Some (Exited 1,
       [Call (Gpiod_chip_get_line (Some 1) 16) (Ptr (Some 16) 0),
        Call (Gpiod_line_request_output (Some 16) ''issuer'' 0) (Ret 0 0),
        Do (Stdout ''I [   0] Set down\<newline>''),
        Call (Gpiod_line_set_value (Some 16) 0) (Ret (- 1) 5),
        Do (Stderr ''ERROR: issuer: cannot change the value of the output\<newline>''),
        Do (Exit 1)])"
  by code_simp

section \<open>The events read and the levels written by the receiver\<close>

lemma flips_from:
  "flips state n = map (\<lambda>i. if even i = (state = 0) then 1 else 0) [0..<n]"
proof (induction n arbitrary: state)
  case 0
  then show ?case by simp
next
  case (Suc n)
  have "[0..<Suc n] = 0 # map Suc [0..<n]"
    by (simp add: upt_conv_Cons map_Suc_upt del: upt_Suc)
  then show ?case by (simp add: Suc.IH comp_def del: upt_Suc)
qed

lemma flips_zero: "flips 0 n = map (\<lambda>i. if even i then 1 else 0) [0..<n]"
  by (simp add: flips_from)

lemma flips_nonzero: "state \<noteq> 0 \<Longrightarrow> flips state n = map (\<lambda>i. if even i then 0 else 1) [0..<n]"
  by (simp add: flips_from)

lemma receiver_loop_Returned:
  "receiver_loop args rl cl cycle state w = Some (Returned (), w') \<Longrightarrow>
     \<exists>evs. trace w' = trace w @ evs \<and>
       set_values evs = flips state (nat (sint (receiver_args_res.count args) - sint cycle)) \<and>
       events_waited evs = replicate (nat (sint (receiver_args_res.count args) - sint cycle)) rl \<and>
       events_read evs = replicate (nat (sint (receiver_args_res.count args) - sint cycle)) rl \<and>
       releases evs = []"
proof (induction n \<equiv> "nat (sint (receiver_args_res.count args) - sint cycle)" arbitrary: cycle state w)
  case 0
  from "0.hyps" have nlt: "\<not> cycle <s receiver_args_res.count args" by (simp add: word_sless_alt)
  then have "receiver_loop args rl cl cycle state w = Some (Returned (), w)"
    by (subst receiver_loop.simps) simp
  with "0.prems"(1) have "w' = w" by simp
  with "0.hyps"[symmetric] show ?case by simp
next
  case (Suc n)
  from Suc.hyps(2) have lt: "cycle <s receiver_args_res.count args" by (simp add: word_sless_alt)
  let ?state = "(if state = 0 then 1 else 0) :: int"
  have "receiver_loop args rl cl cycle state w = do {
        (rc, w) \<leftarrow> gpiod_line_event_wait rl w;
        if rc = - 1 then
          error ''receiver: error while waiting for an event''
            (gpiod_line_release cl (gpiod_line_release rl w))
        else do {
          (rc, w) \<leftarrow> gpiod_line_event_read rl w;
          if rc = - 1 then
            error ''receiver: error while reading the event''
              (gpiod_line_release cl (gpiod_line_release rl w))
          else do {
              (rc, w) \<leftarrow> gpiod_line_set_value cl ?state
                (printf ''Get an event!\<newline>'' w);
              if rc = - 1 then
                error ''contoller: cannot change the value of the output''
                  (gpiod_line_release cl (gpiod_line_release rl w))
              else receiver_loop args rl cl (cycle + 1) ?state w
            }
        }
      }"
    by (subst receiver_loop.simps) (simp only: lt if_True Let_def)
  with Suc.prems(1) obtain rc1 w1 where wt: "gpiod_line_event_wait rl w = Some (rc1, w1)"
    and rest1: "(if rc1 = - 1 then
          error ''receiver: error while waiting for an event''
            (gpiod_line_release cl (gpiod_line_release rl w1))
        else do {
          (rc, w) \<leftarrow> gpiod_line_event_read rl w1;
          if rc = - 1 then
            error ''receiver: error while reading the event''
              (gpiod_line_release cl (gpiod_line_release rl w))
          else do {
              (rc, w) \<leftarrow> gpiod_line_set_value cl ?state
                (printf ''Get an event!\<newline>'' w);
              if rc = - 1 then
                error ''contoller: cannot change the value of the output''
                  (gpiod_line_release cl (gpiod_line_release rl w))
              else receiver_loop args rl cl (cycle + 1) ?state w
            }
        }) = Some (Returned (), w')"
    by (simp only:) (rule bind_pair_SomeE)
  from rest1 have rc1: "rc1 \<noteq> - 1" by (cases "rc1 = - 1") (auto dest: error_Exited)
  from rest1 obtain rc2 w2 where rd: "gpiod_line_event_read rl w1 = Some (rc2, w2)"
    and rest2: "(if rc2 = - 1 then
            error ''receiver: error while reading the event''
              (gpiod_line_release cl (gpiod_line_release rl w2))
          else do {
              (rc, w) \<leftarrow> gpiod_line_set_value cl ?state
                (printf ''Get an event!\<newline>'' w2);
              if rc = - 1 then
                error ''contoller: cannot change the value of the output''
                  (gpiod_line_release cl (gpiod_line_release rl w))
              else receiver_loop args rl cl (cycle + 1) ?state w
            }) = Some (Returned (), w')"
    unfolding if_not_P[OF rc1] by (rule bind_pair_SomeE)
  from rest2 have rc2: "rc2 \<noteq> - 1" by (cases "rc2 = - 1") (auto dest: error_Exited)
  from rest2 obtain rc3 w3 where
    sv: "gpiod_line_set_value cl ?state (printf ''Get an event!\<newline>'' w2) = Some (rc3, w3)"
    and rest3: "(if rc3 = - 1 then
                error ''contoller: cannot change the value of the output''
                  (gpiod_line_release cl (gpiod_line_release rl w3))
              else receiver_loop args rl cl (cycle + 1) ?state w3) = Some (Returned (), w')"
    unfolding if_not_P[OF rc2] by (rule bind_pair_SomeE)
  from rest3 have rc3: "rc3 \<noteq> - 1" by (cases "rc3 = - 1") (auto dest: error_Exited)
  from rest3 have nxt: "receiver_loop args rl cl (cycle + 1) ?state w3 = Some (Returned (), w')"
    unfolding if_not_P[OF rc3] .
  have s1: "sint (cycle + 1) = sint cycle + 1" using lt by (rule sint_succ)
  from wt obtain e1 where t1: "trace w1 = trace w @ [Call (Gpiod_line_event_wait rl) (Ret rc1 e1)]"
    by (auto simp: call_defs call_Some)
  from rd obtain e2 where t2: "trace w2 = trace w1 @ [Call (Gpiod_line_event_read rl) (Ret rc2 e2)]"
    by (auto simp: call_defs call_Some)
  from sv obtain e3 where t3: "trace w3 = trace w2 @ [Do (Stdout ''Get an event!\<newline>''),
      Call (Gpiod_line_set_value cl ?state) (Ret rc3 e3)]"
    by (auto simp: call_defs call_Some)
  have n: "n = nat (sint (receiver_args_res.count args) - sint (cycle + 1))"
    using Suc.hyps(2) s1 by simp
  from Suc.hyps(1)[OF n nxt] obtain evs where
    t4: "trace w' = trace w3 @ evs" "set_values evs = flips ?state n"
      "events_waited evs = replicate n rl" "events_read evs = replicate n rl" "releases evs = []"
    unfolding n[symmetric] by blast
  show ?case
    unfolding Suc.hyps(2)[symmetric] using t1 t2 t3 t4 by simp
qed


lemma receiver_loop_res_Returned:
  "receiver_loop_res args resource cycle state w = Some (Returned (), w') \<Longrightarrow>
     \<exists>evs. trace w' = trace w @ evs \<and>
       set_values evs = flips state (nat (sint (receiver_args_res.count args) - sint cycle)) \<and>
       events_waited evs = replicate (nat (sint (receiver_args_res.count args) - sint cycle)) (receiver resource) \<and>
       events_read evs = replicate (nat (sint (receiver_args_res.count args) - sint cycle)) (receiver resource) \<and>
       releases evs = []"
proof (induction n \<equiv> "nat (sint (receiver_args_res.count args) - sint cycle)" arbitrary: cycle state w)
  case 0
  from "0.hyps" have nlt: "\<not> cycle <s receiver_args_res.count args" by (simp add: word_sless_alt)
  then have "receiver_loop_res args resource cycle state w = Some (Returned (), w)"
    by (subst receiver_loop_res.simps) simp
  with "0.prems"(1) have "w' = w" by simp
  with "0.hyps"[symmetric] show ?case by simp
next
  case (Suc n)
  from Suc.hyps(2) have lt: "cycle <s receiver_args_res.count args" by (simp add: word_sless_alt)
  let ?state = "(if state = 0 then 1 else 0) :: int"
  have "receiver_loop_res args resource cycle state w = do {
        (rc, w) \<leftarrow> gpiod_line_event_wait (receiver resource) w;
        if rc = - 1 then
          error ''receiver: error while waiting for an event''
            (receiver_thread_terminate resource w)
        else do {
          (rc, w) \<leftarrow> gpiod_line_event_read (receiver resource) w;
          if rc = - 1 then
            error ''receiver: error while reading the event''
              (receiver_thread_terminate resource w)
          else do {
              (rc, w) \<leftarrow> gpiod_line_set_value (controller resource) ?state
                (printf ''Get an event!\<newline>'' w);
              if rc = - 1 then
                error ''contoller: cannot change the value of the output''
                  (receiver_thread_terminate resource w)
              else receiver_loop_res args resource (cycle + 1) ?state w
            }
        }
      }"
    by (subst receiver_loop_res.simps) (simp only: lt if_True Let_def)
  with Suc.prems(1) obtain rc1 w1 where wt: "gpiod_line_event_wait (receiver resource) w = Some (rc1, w1)"
    and rest1: "(if rc1 = - 1 then
          error ''receiver: error while waiting for an event''
            (receiver_thread_terminate resource w1)
        else do {
          (rc, w) \<leftarrow> gpiod_line_event_read (receiver resource) w1;
          if rc = - 1 then
            error ''receiver: error while reading the event''
              (receiver_thread_terminate resource w)
          else do {
              (rc, w) \<leftarrow> gpiod_line_set_value (controller resource) ?state
                (printf ''Get an event!\<newline>'' w);
              if rc = - 1 then
                error ''contoller: cannot change the value of the output''
                  (receiver_thread_terminate resource w)
              else receiver_loop_res args resource (cycle + 1) ?state w
            }
        }) = Some (Returned (), w')"
    by (simp only:) (rule bind_pair_SomeE)
  from rest1 have rc1: "rc1 \<noteq> - 1" by (cases "rc1 = - 1") (auto dest: error_Exited)
  from rest1 obtain rc2 w2 where rd: "gpiod_line_event_read (receiver resource) w1 = Some (rc2, w2)"
    and rest2: "(if rc2 = - 1 then
            error ''receiver: error while reading the event''
              (receiver_thread_terminate resource w2)
          else do {
              (rc, w) \<leftarrow> gpiod_line_set_value (controller resource) ?state
                (printf ''Get an event!\<newline>'' w2);
              if rc = - 1 then
                error ''contoller: cannot change the value of the output''
                  (receiver_thread_terminate resource w)
              else receiver_loop_res args resource (cycle + 1) ?state w
            }) = Some (Returned (), w')"
    unfolding if_not_P[OF rc1] by (rule bind_pair_SomeE)
  from rest2 have rc2: "rc2 \<noteq> - 1" by (cases "rc2 = - 1") (auto dest: error_Exited)
  from rest2 obtain rc3 w3 where
    sv: "gpiod_line_set_value (controller resource) ?state (printf ''Get an event!\<newline>'' w2) = Some (rc3, w3)"
    and rest3: "(if rc3 = - 1 then
                error ''contoller: cannot change the value of the output''
                  (receiver_thread_terminate resource w3)
              else receiver_loop_res args resource (cycle + 1) ?state w3) = Some (Returned (), w')"
    unfolding if_not_P[OF rc2] by (rule bind_pair_SomeE)
  from rest3 have rc3: "rc3 \<noteq> - 1" by (cases "rc3 = - 1") (auto dest: error_Exited)
  from rest3 have nxt: "receiver_loop_res args resource (cycle + 1) ?state w3 = Some (Returned (), w')"
    unfolding if_not_P[OF rc3] .
  have s1: "sint (cycle + 1) = sint cycle + 1" using lt by (rule sint_succ)
  from wt obtain e1 where t1: "trace w1 = trace w @ [Call (Gpiod_line_event_wait (receiver resource)) (Ret rc1 e1)]"
    by (auto simp: call_defs call_Some)
  from rd obtain e2 where t2: "trace w2 = trace w1 @ [Call (Gpiod_line_event_read (receiver resource)) (Ret rc2 e2)]"
    by (auto simp: call_defs call_Some)
  from sv obtain e3 where t3: "trace w3 = trace w2 @ [Do (Stdout ''Get an event!\<newline>''),
      Call (Gpiod_line_set_value (controller resource) ?state) (Ret rc3 e3)]"
    by (auto simp: call_defs call_Some)
  have n: "n = nat (sint (receiver_args_res.count args) - sint (cycle + 1))"
    using Suc.hyps(2) s1 by simp
  from Suc.hyps(1)[OF n nxt] obtain evs where
    t4: "trace w' = trace w3 @ evs" "set_values evs = flips ?state n"
      "events_waited evs = replicate n (receiver resource)" "events_read evs = replicate n (receiver resource)" "releases evs = []"
    unfolding n[symmetric] by blast
  show ?case
    unfolding Suc.hyps(2)[symmetric] using t1 t2 t3 t4 by simp
qed


lemma receiver_thread_Returned:
  assumes "receiver_thread args state w = Some (Returned (), w')"
  shows "\<exists>r. r \<noteq> None \<and>
     set_values (trace w') = set_values (trace w)
       @ flips state (nat (sint (receiver_args_res.count args))) @ [0] \<and>
     events_waited (trace w') = events_waited (trace w)
       @ replicate (nat (sint (receiver_args_res.count args))) r \<and>
     events_read (trace w') = events_read (trace w)
       @ replicate (nat (sint (receiver_args_res.count args))) r"
proof -
  let ?chip = "receiver_args.chip args"
  from assms[unfolded receiver_thread_def] obtain r w1 where
    g1: "gpiod_chip_get_line ?chip (receiver_line_id args) w = Some (r, w1)"
    and r1: "(if r = None then
       error ''receiver: cannot get the line used to receive messages from the issuer'' w1
     else do {
       (controller, w) \<leftarrow> gpiod_chip_get_line ?chip (controller_line_id args) w1;
       if r = None then
         error ''receiver: cannot get the line used to control the LED'' w
       else do {
         (rc, w) \<leftarrow> gpiod_line_request_output controller (controller_name args) 0 w;
         if rc = - 1 then
           error ''receiver: cannot set the line's mode to input''
             (gpiod_line_release controller (gpiod_line_release r w))
         else do {
           (rc, w) \<leftarrow> gpiod_line_request_both_edges_events r (receiver_name args) w;
           if rc = - 1 then do {
             (s, w) \<leftarrow> strerror (errno w)
               (printf (''errno: '' @ dec (errno w) @ ''\<newline>'') w);
             error ''receiver: cannot set the line's callbacks''
               (gpiod_line_release controller
                  (gpiod_line_release r (printf (''=> '' @ s @ ''\<newline>'') w)))
           }
           else do {
             (out, w) \<leftarrow> receiver_loop args r controller 0 state w;
             case out of
               Exited status \<Rightarrow> Some (Exited status, w)
             | Returned _ \<Rightarrow> do {
                 (rc, w) \<leftarrow> gpiod_line_set_value controller 0 w;
                 if rc = - 1 then
                   error (''receiver: cannot change the value of the output for the line ''
                            @ ''that controls the LED'') w
                 else do {
                   (controller, w) \<leftarrow>
                     gpiod_chip_get_line ?chip (controller_line_id args)
                       (gpiod_line_release controller (gpiod_line_release r w));
                   if r = None then
                     error ''receiver: cannot get the line used to control the LED'' w
                   else do {
                     (rc, w) \<leftarrow> gpiod_line_request_input controller (controller_name args) w;
                     if rc = - 1 then
                       error ''receiver: cannot set the line's mode to input''
                         (gpiod_line_release controller w)
                     else Some (Returned (), gpiod_line_release controller w)
                   }
                 }
               }
           }
         }
       }
     }) = Some (Returned (), w')"
    by (rule bind_pair_SomeE)
  from r1 have r: "r \<noteq> None" by (cases "r = None") (auto dest: error_Exited)
  from g1 obtain e1 where t1: "trace w1 = trace w @ [Call (Gpiod_chip_get_line ?chip (receiver_line_id args)) (Ptr r e1)]"
    by (auto simp: call_defs call_Some)
  from r1[unfolded if_not_P[OF r]] obtain c w2 where
    g2: "gpiod_chip_get_line ?chip (controller_line_id args) w1 = Some (c, w2)"
    and r2: "(do {
         (rc, w) \<leftarrow> gpiod_line_request_output c (controller_name args) 0 w2;
         if rc = - 1 then
           error ''receiver: cannot set the line's mode to input''
             (gpiod_line_release c (gpiod_line_release r w))
         else do {
           (rc, w) \<leftarrow> gpiod_line_request_both_edges_events r (receiver_name args) w;
           if rc = - 1 then do {
             (s, w) \<leftarrow> strerror (errno w)
               (printf (''errno: '' @ dec (errno w) @ ''\<newline>'') w);
             error ''receiver: cannot set the line's callbacks''
               (gpiod_line_release c
                  (gpiod_line_release r (printf (''=> '' @ s @ ''\<newline>'') w)))
           }
           else do {
             (out, w) \<leftarrow> receiver_loop args r c 0 state w;
             case out of
               Exited status \<Rightarrow> Some (Exited status, w)
             | Returned _ \<Rightarrow> do {
                 (rc, w) \<leftarrow> gpiod_line_set_value c 0 w;
                 if rc = - 1 then
                   error (''receiver: cannot change the value of the output for the line ''
                            @ ''that controls the LED'') w
                 else do {
                   (controller, w) \<leftarrow>
                     gpiod_chip_get_line ?chip (controller_line_id args)
                       (gpiod_line_release c (gpiod_line_release r w));
                   do {
                     (rc, w) \<leftarrow> gpiod_line_request_input controller (controller_name args) w;
                     if rc = - 1 then
                       error ''receiver: cannot set the line's mode to input''
                         (gpiod_line_release controller w)
                     else Some (Returned (), gpiod_line_release controller w)
                   }
                 }
               }
           }
         }
       }) = Some (Returned (), w')"
    by (rule bind_pair_SomeE)
  from g2 obtain e2 where t2: "trace w2 = trace w1 @ [Call (Gpiod_chip_get_line ?chip (controller_line_id args)) (Ptr c e2)]"
    by (auto simp: call_defs call_Some)
  from r2 obtain rc3 w3 where
    ro: "gpiod_line_request_output c (controller_name args) 0 w2 = Some (rc3, w3)"
    and r3: "(if rc3 = - 1 then
           error ''receiver: cannot set the line's mode to input''
             (gpiod_line_release c (gpiod_line_release r w3))
         else do {
           (rc, w) \<leftarrow> gpiod_line_request_both_edges_events r (receiver_name args) w3;
           if rc = - 1 then do {
             (s, w) \<leftarrow> strerror (errno w)
               (printf (''errno: '' @ dec (errno w) @ ''\<newline>'') w);
             error ''receiver: cannot set the line's callbacks''
               (gpiod_line_release c
                  (gpiod_line_release r (printf (''=> '' @ s @ ''\<newline>'') w)))
           }
           else do {
             (out, w) \<leftarrow> receiver_loop args r c 0 state w;
             case out of
               Exited status \<Rightarrow> Some (Exited status, w)
             | Returned _ \<Rightarrow> do {
                 (rc, w) \<leftarrow> gpiod_line_set_value c 0 w;
                 if rc = - 1 then
                   error (''receiver: cannot change the value of the output for the line ''
                            @ ''that controls the LED'') w
                 else do {
                   (controller, w) \<leftarrow>
                     gpiod_chip_get_line ?chip (controller_line_id args)
                       (gpiod_line_release c (gpiod_line_release r w));
                   do {
                     (rc, w) \<leftarrow> gpiod_line_request_input controller (controller_name args) w;
                     if rc = - 1 then
                       error ''receiver: cannot set the line's mode to input''
                         (gpiod_line_release controller w)
                     else Some (Returned (), gpiod_line_release controller w)
                   }
                 }
               }
           }
         }) = Some (Returned (), w')"
    by (rule bind_pair_SomeE)
  from r3 have rc3: "rc3 \<noteq> - 1" by (cases "rc3 = - 1") (auto dest: error_Exited)
  from ro obtain e3 where t3: "trace w3 = trace w2 @ [Call (Gpiod_line_request_output c (controller_name args) 0) (Ret rc3 e3)]"
    by (auto simp: call_defs call_Some)
  from r3[unfolded if_not_P[OF rc3]] obtain rc4 w4 where
    re: "gpiod_line_request_both_edges_events r (receiver_name args) w3 = Some (rc4, w4)"
    and r4: "(if rc4 = - 1 then do {
             (s, w) \<leftarrow> strerror (errno w4)
               (printf (''errno: '' @ dec (errno w4) @ ''\<newline>'') w4);
             error ''receiver: cannot set the line's callbacks''
               (gpiod_line_release c
                  (gpiod_line_release r (printf (''=> '' @ s @ ''\<newline>'') w)))
           }
           else do {
             (out, w) \<leftarrow> receiver_loop args r c 0 state w4;
             case out of
               Exited status \<Rightarrow> Some (Exited status, w)
             | Returned _ \<Rightarrow> do {
                 (rc, w) \<leftarrow> gpiod_line_set_value c 0 w;
                 if rc = - 1 then
                   error (''receiver: cannot change the value of the output for the line ''
                            @ ''that controls the LED'') w
                 else do {
                   (controller, w) \<leftarrow>
                     gpiod_chip_get_line ?chip (controller_line_id args)
                       (gpiod_line_release c (gpiod_line_release r w));
                   do {
                     (rc, w) \<leftarrow> gpiod_line_request_input controller (controller_name args) w;
                     if rc = - 1 then
                       error ''receiver: cannot set the line's mode to input''
                         (gpiod_line_release controller w)
                     else Some (Returned (), gpiod_line_release controller w)
                   }
                 }
               }
           }) = Some (Returned (), w')"
    by (rule bind_pair_SomeE)
  have rc4: "rc4 \<noteq> - 1"
  proof
    assume "rc4 = - 1"
    with r4 obtain s w5 where
      "error ''receiver: cannot set the line's callbacks''
               (gpiod_line_release c
                  (gpiod_line_release r (printf (''=> '' @ s @ ''\<newline>'') w5)))
       = Some (Returned (), w')"
      by (auto elim!: bind_pair_SomeE)
    then show False by (auto dest: error_Exited)
  qed
  from re obtain e4 where t4: "trace w4 = trace w3 @ [Call (Gpiod_line_request_both_edges_events r (receiver_name args)) (Ret rc4 e4)]"
    by (auto simp: call_defs call_Some)
  from r4[unfolded if_not_P[OF rc4]] obtain out w5 where
    lp: "receiver_loop args r c 0 state w4 = Some (out, w5)"
    and r5: "(case out of
               Exited status \<Rightarrow> Some (Exited status, w5)
             | Returned _ \<Rightarrow> do {
                 (rc, w) \<leftarrow> gpiod_line_set_value c 0 w5;
                 if rc = - 1 then
                   error (''receiver: cannot change the value of the output for the line ''
                            @ ''that controls the LED'') w
                 else do {
                   (controller, w) \<leftarrow>
                     gpiod_chip_get_line ?chip (controller_line_id args)
                       (gpiod_line_release c (gpiod_line_release r w));
                   do {
                     (rc, w) \<leftarrow> gpiod_line_request_input controller (controller_name args) w;
                     if rc = - 1 then
                       error ''receiver: cannot set the line's mode to input''
                         (gpiod_line_release controller w)
                     else Some (Returned (), gpiod_line_release controller w)
                   }
                 }
               }) = Some (Returned (), w')"
    by (rule bind_pair_SomeE)
  from r5 have out: "out = Returned ()" by (cases out) auto
  from receiver_loop_Returned[OF lp[unfolded out]] obtain evs where
    t5: "trace w5 = trace w4 @ evs"
      "set_values evs = flips state (nat (sint (receiver_args_res.count args)))"
      "events_waited evs = replicate (nat (sint (receiver_args_res.count args))) r"
      "events_read evs = replicate (nat (sint (receiver_args_res.count args))) r"
    by auto
  from r5[unfolded out] obtain rc6 w6 where
    sv: "gpiod_line_set_value c 0 w5 = Some (rc6, w6)"
    and r6: "(if rc6 = - 1 then
                   error (''receiver: cannot change the value of the output for the line ''
                            @ ''that controls the LED'') w6
                 else do {
                   (controller, w) \<leftarrow>
                     gpiod_chip_get_line ?chip (controller_line_id args)
                       (gpiod_line_release c (gpiod_line_release r w6));
                   do {
                     (rc, w) \<leftarrow> gpiod_line_request_input controller (controller_name args) w;
                     if rc = - 1 then
                       error ''receiver: cannot set the line's mode to input''
                         (gpiod_line_release controller w)
                     else Some (Returned (), gpiod_line_release controller w)
                   }
                 }) = Some (Returned (), w')"
    by (simp only: outcome.case) (rule bind_pair_SomeE)
  from r6 have rc6: "rc6 \<noteq> - 1" by (cases "rc6 = - 1") (auto dest: error_Exited)
  from sv obtain e6 where t6: "trace w6 = trace w5 @ [Call (Gpiod_line_set_value c 0) (Ret rc6 e6)]"
    by (auto simp: call_defs call_Some)
  from r6[unfolded if_not_P[OF rc6]] obtain c' w7 where
    g3: "gpiod_chip_get_line ?chip (controller_line_id args)
           (gpiod_line_release c (gpiod_line_release r w6)) = Some (c', w7)"
    and r7: "(do {
                     (rc, w) \<leftarrow> gpiod_line_request_input c' (controller_name args) w7;
                     if rc = - 1 then
                       error ''receiver: cannot set the line's mode to input''
                         (gpiod_line_release c' w)
                     else Some (Returned (), gpiod_line_release c' w)
                   }) = Some (Returned (), w')"
    by (rule bind_pair_SomeE)
  from g3 obtain e7 where t7: "trace w7 = trace w6 @ [Do (Gpiod_line_release r), Do (Gpiod_line_release c),
      Call (Gpiod_chip_get_line ?chip (controller_line_id args)) (Ptr c' e7)]"
    by (auto simp: call_defs call_Some)
  from r7 obtain rc8 w8 where
    ri: "gpiod_line_request_input c' (controller_name args) w7 = Some (rc8, w8)"
    and r8: "(if rc8 = - 1 then
                       error ''receiver: cannot set the line's mode to input''
                         (gpiod_line_release c' w8)
                     else Some (Returned (), gpiod_line_release c' w8)) = Some (Returned (), w')"
    by (rule bind_pair_SomeE)
  from r8 have rc8: "rc8 \<noteq> - 1" by (cases "rc8 = - 1") (auto dest: error_Exited)
  with r8 have w': "w' = gpiod_line_release c' w8" by simp
  from ri obtain e8 where t8: "trace w8 = trace w7 @ [Call (Gpiod_line_request_input c' (controller_name args)) (Ret rc8 e8)]"
    by (auto simp: call_defs call_Some)
  have "set_values (trace w') = set_values (trace w)
       @ flips state (nat (sint (receiver_args_res.count args))) @ [0] \<and>
     events_waited (trace w') = events_waited (trace w)
       @ replicate (nat (sint (receiver_args_res.count args))) r \<and>
     events_read (trace w') = events_read (trace w)
       @ replicate (nat (sint (receiver_args_res.count args))) r"
    using t1 t2 t3 t4 t5 t6 t7 t8 by (simp add: w' call_defs)
  with r show ?thesis by blast
qed


lemma receiver_thread_res_Returned:
  assumes "receiver_thread_res args state w = Some (Returned (), w')"
  shows "\<exists>r. r \<noteq> None \<and>
     set_values (trace w') = set_values (trace w)
       @ flips state (nat (sint (receiver_args_res.count args))) \<and>
     events_waited (trace w') = events_waited (trace w)
       @ replicate (nat (sint (receiver_args_res.count args))) r \<and>
     events_read (trace w') = events_read (trace w)
       @ replicate (nat (sint (receiver_args_res.count args))) r"
proof -
  have "receiver_thread_res args state w = do {
     (r, w) \<leftarrow> gpiod_chip_get_line (CHIP w) (receiver_line_id args) w;
     if r = None then
       error ''receiver: cannot get the line used to receive messages from the issuer''
         (receiver_thread_terminate \<lparr>receiver = r, controller = None\<rparr> w)
     else do {
       (c, w) \<leftarrow> gpiod_chip_get_line (CHIP w) (controller_line_id args) w;
       if r = None then
         error ''receiver: cannot get the line used to control the LED''
           (receiver_thread_terminate \<lparr>receiver = r, controller = c\<rparr> w)
       else do {
         (rc, w) \<leftarrow> gpiod_line_request_output c ''controller'' 0 w;
         if rc = - 1 then
           error ''receiver: cannot set the line's mode to input''
             (receiver_thread_terminate \<lparr>receiver = r, controller = c\<rparr> w)
         else do {
           (rc, w) \<leftarrow> gpiod_line_request_both_edges_events r ''receiver'' w;
           if rc = - 1 then
             error ''receiver: cannot set the line's callbacks''
               (receiver_thread_terminate \<lparr>receiver = r, controller = c\<rparr> w)
           else do {
             (out, w) \<leftarrow> receiver_loop_res args \<lparr>receiver = r, controller = c\<rparr> 0 state w;
             case out of
               Exited status \<Rightarrow> Some (Exited status, w)
             | Returned _ \<Rightarrow>
                 Some (Returned (), receiver_thread_terminate \<lparr>receiver = r, controller = c\<rparr> w)
           }
         }
       }
     }
   }"
    by (simp add: receiver_thread_res_def Let_def receiver_thread_init_def
        cong: if_cong outcome.case_cong)
  with assms obtain r w1 where
    g1: "gpiod_chip_get_line (CHIP w) (receiver_line_id args) w = Some (r, w1)"
    and r1: "(if r = None then
       error ''receiver: cannot get the line used to receive messages from the issuer''
         (receiver_thread_terminate \<lparr>receiver = r, controller = None\<rparr> w1)
     else do {
       (c, w) \<leftarrow> gpiod_chip_get_line (CHIP w1) (controller_line_id args) w1;
       if r = None then
         error ''receiver: cannot get the line used to control the LED''
           (receiver_thread_terminate \<lparr>receiver = r, controller = c\<rparr> w)
       else do {
         (rc, w) \<leftarrow> gpiod_line_request_output c ''controller'' 0 w;
         if rc = - 1 then
           error ''receiver: cannot set the line's mode to input''
             (receiver_thread_terminate \<lparr>receiver = r, controller = c\<rparr> w)
         else do {
           (rc, w) \<leftarrow> gpiod_line_request_both_edges_events r ''receiver'' w;
           if rc = - 1 then
             error ''receiver: cannot set the line's callbacks''
               (receiver_thread_terminate \<lparr>receiver = r, controller = c\<rparr> w)
           else do {
             (out, w) \<leftarrow> receiver_loop_res args \<lparr>receiver = r, controller = c\<rparr> 0 state w;
             case out of
               Exited status \<Rightarrow> Some (Exited status, w)
             | Returned _ \<Rightarrow>
                 Some (Returned (), receiver_thread_terminate \<lparr>receiver = r, controller = c\<rparr> w)
           }
         }
       }
     }) = Some (Returned (), w')"
    by (simp only:) (rule bind_pair_SomeE)
  from r1 have r: "r \<noteq> None" by (cases "r = None") (auto dest: error_Exited)
  from g1 obtain e1 where t1: "trace w1 = trace w @ [Call (Gpiod_chip_get_line (CHIP w) (receiver_line_id args)) (Ptr r e1)]"
    by (auto simp: call_defs call_Some)
  from r1[unfolded if_not_P[OF r]] obtain c w2 where
    g2: "gpiod_chip_get_line (CHIP w1) (controller_line_id args) w1 = Some (c, w2)"
    and r2: "(do {
         (rc, w) \<leftarrow> gpiod_line_request_output c ''controller'' 0 w2;
         if rc = - 1 then
           error ''receiver: cannot set the line's mode to input''
             (receiver_thread_terminate \<lparr>receiver = r, controller = c\<rparr> w)
         else do {
           (rc, w) \<leftarrow> gpiod_line_request_both_edges_events r ''receiver'' w;
           if rc = - 1 then
             error ''receiver: cannot set the line's callbacks''
               (receiver_thread_terminate \<lparr>receiver = r, controller = c\<rparr> w)
           else do {
             (out, w) \<leftarrow> receiver_loop_res args \<lparr>receiver = r, controller = c\<rparr> 0 state w;
             case out of
               Exited status \<Rightarrow> Some (Exited status, w)
             | Returned _ \<Rightarrow>
                 Some (Returned (), receiver_thread_terminate \<lparr>receiver = r, controller = c\<rparr> w)
           }
         }
       }) = Some (Returned (), w')"
    by (rule bind_pair_SomeE)
  from g2 obtain e2 where t2: "trace w2 = trace w1 @ [Call (Gpiod_chip_get_line (CHIP w1) (controller_line_id args)) (Ptr c e2)]"
    by (auto simp: call_defs call_Some)
  from r2 obtain rc3 w3 where
    ro: "gpiod_line_request_output c ''controller'' 0 w2 = Some (rc3, w3)"
    and r3: "(if rc3 = - 1 then
           error ''receiver: cannot set the line's mode to input''
             (receiver_thread_terminate \<lparr>receiver = r, controller = c\<rparr> w3)
         else do {
           (rc, w) \<leftarrow> gpiod_line_request_both_edges_events r ''receiver'' w3;
           if rc = - 1 then
             error ''receiver: cannot set the line's callbacks''
               (receiver_thread_terminate \<lparr>receiver = r, controller = c\<rparr> w)
           else do {
             (out, w) \<leftarrow> receiver_loop_res args \<lparr>receiver = r, controller = c\<rparr> 0 state w;
             case out of
               Exited status \<Rightarrow> Some (Exited status, w)
             | Returned _ \<Rightarrow>
                 Some (Returned (), receiver_thread_terminate \<lparr>receiver = r, controller = c\<rparr> w)
           }
         }) = Some (Returned (), w')"
    by (rule bind_pair_SomeE)
  from r3 have rc3: "rc3 \<noteq> - 1" by (cases "rc3 = - 1") (auto dest: error_Exited)
  from ro obtain e3 where t3: "trace w3 = trace w2 @ [Call (Gpiod_line_request_output c ''controller'' 0) (Ret rc3 e3)]"
    by (auto simp: call_defs call_Some)
  from r3[unfolded if_not_P[OF rc3]] obtain rc4 w4 where
    re: "gpiod_line_request_both_edges_events r ''receiver'' w3 = Some (rc4, w4)"
    and r4: "(if rc4 = - 1 then
             error ''receiver: cannot set the line's callbacks''
               (receiver_thread_terminate \<lparr>receiver = r, controller = c\<rparr> w4)
           else do {
             (out, w) \<leftarrow> receiver_loop_res args \<lparr>receiver = r, controller = c\<rparr> 0 state w4;
             case out of
               Exited status \<Rightarrow> Some (Exited status, w)
             | Returned _ \<Rightarrow>
                 Some (Returned (), receiver_thread_terminate \<lparr>receiver = r, controller = c\<rparr> w)
           }) = Some (Returned (), w')"
    by (rule bind_pair_SomeE)
  from r4 have rc4: "rc4 \<noteq> - 1" by (cases "rc4 = - 1") (auto dest: error_Exited)
  from re obtain e4 where t4: "trace w4 = trace w3 @ [Call (Gpiod_line_request_both_edges_events r ''receiver'') (Ret rc4 e4)]"
    by (auto simp: call_defs call_Some)
  from r4[unfolded if_not_P[OF rc4]] obtain out w5 where
    lp: "receiver_loop_res args \<lparr>receiver = r, controller = c\<rparr> 0 state w4 = Some (out, w5)"
    and r5: "(case out of
               Exited status \<Rightarrow> Some (Exited status, w5)
             | Returned _ \<Rightarrow>
                 Some (Returned (), receiver_thread_terminate \<lparr>receiver = r, controller = c\<rparr> w5))
          = Some (Returned (), w')"
    by (rule bind_pair_SomeE)
  from r5 have out: "out = Returned ()"
    and w': "w' = receiver_thread_terminate \<lparr>receiver = r, controller = c\<rparr> w5"
    by (cases out; auto)+
  from receiver_loop_res_Returned[OF lp[unfolded out]] obtain evs where
    t5: "trace w5 = trace w4 @ evs"
      "set_values evs = flips state (nat (sint (receiver_args_res.count args)))"
      "events_waited evs = replicate (nat (sint (receiver_args_res.count args))) r"
      "events_read evs = replicate (nat (sint (receiver_args_res.count args))) r"
    by auto
  have "set_values (trace w') = set_values (trace w)
       @ flips state (nat (sint (receiver_args_res.count args))) \<and>
     events_waited (trace w') = events_waited (trace w)
       @ replicate (nat (sint (receiver_args_res.count args))) r \<and>
     events_read (trace w') = events_read (trace w)
       @ replicate (nat (sint (receiver_args_res.count args))) r"
    using t1 t2 t3 t4 t5 by (simp add: w' call_defs receiver_thread_terminate_def Let_def)
  with r show ?thesis by blast
qed

text \<open>
  Claim C3 fails when the uninitialised \<open>state\<close> of the receiver does not hold 0. The
  part on the events holds: the loop waits and reads once per cycle. The levels written are
  \<open>flips state M\<close>, which starts with 1 only when \<open>state\<close> holds 0 at entry. With
  \<open>state\<close> holding 1 and two events, the levels written in the loop are 0, 1: in the
  second program these are all the levels, in \<open>src/gpio2.c\<close> the forced 0 follows. Two
  events are read in both.
\<close>

theorem relay_levels_depend_on_garbage:
  "map_option (\<lambda>(out, w). (out, set_values (trace w), events_read (trace w)))
     (receiver_thread_res (relay_args_res 2) 1
        (world_res ([Ptr (Some 21) 0, Ptr (Some 17) 0, Ret 0 0, Ret 0 0]
                    @ concat (replicate 2 [Ret 1 0, Ret 0 0, Ret 0 0]))))
   = Some (Returned (), [0, 1], [Some 21, Some 21]) \<and>
   map_option (\<lambda>(out, w). (out, set_values (trace w), events_read (trace w)))
     (receiver_thread (relay_args 2) 1
        (world0 ([Ptr (Some 21) 0, Ptr (Some 17) 0, Ret 0 0, Ret 0 0]
                 @ concat (replicate 2 [Ret 1 0, Ret 0 0, Ret 0 0])
                 @ [Ret 0 0, Ptr (Some 17) 0, Ret 0 0])))
   = Some (Returned (), [0, 1, 0], [Some 21, Some 21])"
  by code_simp

section \<open>The cleanup callback invoked more than once\<close>

lemma reset_gpio_closes:
  assumes "reset_gpio w = Some w'"
  shows "CHIP w' = CHIP w \<and> atexit_fns w' = atexit_fns w \<and>
         (\<exists>evs. trace w' = trace w @ evs \<and> cleanup_log evs = [Inl (), Inr (CHIP w)] \<and>
                closes evs = [CHIP w])"
proof -
  from reset_gpio_effect[OF assms] obtain evs where
    e: "CHIP w' = CHIP w" "atexit_fns w' = atexit_fns w" "trace w' = trace w @ evs"
       "cleanup_log evs = [Inl (), Inr (CHIP w)]"
    by blast
  have "closes evs = [CHIP w]"
    by (simp add: closes_cleanup[of evs] e(4))
  with e show ?thesis by blast
qed

lemma main_res_cleanup:
  assumes "main_res state (world0 scr) = Some (out, w')"
  shows "cleanup_log (trace w') = [] \<and> closes (trace w') = [] \<or>
         CHIP w' \<noteq> None \<and> cleanup_log (trace w') = [Inl (), Inr (CHIP w')] \<and>
           closes (trace w') = [CHIP w']"
proof -
  have "atexit_fns (world0 scr) = []" by (simp add: world0_def)
  from main_res_fate[OF assms this] obtain evs where
    t: "trace w' = evs"
    and m: "main_end (world0 scr\<lparr>CHIP := CHIP w', atexit_fns := atexit_fns w'\<rparr>) out [] evs"
    and a: "atexit_fns w' = [] \<and> CHIP w' = None \<or> atexit_fns w' = [Reset_gpio] \<and> CHIP w' \<noteq> None"
    by (auto simp: world0_def)
  from m have c: "cleanup_log evs = concat (map (\<lambda>_. [Inl (), Inr (CHIP w')]) (atexit_fns w'))"
    by (auto simp: main_end_def)
  from a show ?thesis
  proof
    assume "atexit_fns w' = [] \<and> CHIP w' = None"
    with c have "cleanup_log evs = []" by simp
    then show ?thesis by (simp add: closes_cleanup[of evs] t)
  next
    assume h: "atexit_fns w' = [Reset_gpio] \<and> CHIP w' \<noteq> None"
    with c have "cleanup_log evs = [Inl (), Inr (CHIP w')]" by simp
    with h show ?thesis by (simp add: closes_cleanup[of evs] t)
  qed
qed

text \<open>
  Claim C4, as amended. Each invocation of \<open>reset_gpio\<close> prints its banner and closes
  the chip handle held in \<open>CHIP\<close>, whatever happened before, and leaves \<open>CHIP\<close> as it
  is: invoked twice, it closes the same handle twice. The second program registers it
  once, after the chip has been opened, and \<open>exit\<close> invokes it once: in every run of
  \<open>main\<close> the callback is entered at most once and the chip is closed at most once.
\<close>

theorem cleanup_closes_chip_each_time:
  "(reset_gpio w = Some w1 \<longrightarrow>
      CHIP w1 = CHIP w \<and> closes (trace w1) = closes (trace w) @ [CHIP w]) \<and>
   (reset_gpio w = Some w1 \<and> reset_gpio w1 = Some w2 \<longrightarrow>
      closes (trace w2) = closes (trace w) @ [CHIP w, CHIP w]) \<and>
   (main_res state (world0 scr) = Some (out, w') \<longrightarrow>
      cleanup_log (trace w') = [] \<and> closes (trace w') = [] \<or>
      CHIP w' \<noteq> None \<and> cleanup_log (trace w') = [Inl (), Inr (CHIP w')] \<and>
        closes (trace w') = [CHIP w'])"
proof -
  have "CHIP w1 = CHIP w \<and> closes (trace w1) = closes (trace w) @ [CHIP w]"
    if "reset_gpio w = Some w1"
    using reset_gpio_closes[OF that] by auto
  moreover have "closes (trace w2) = closes (trace w) @ [CHIP w, CHIP w]"
    if "reset_gpio w = Some w1 \<and> reset_gpio w1 = Some w2"
  proof -
    from that have a: "reset_gpio w = Some w1" and b: "reset_gpio w1 = Some w2" by simp_all
    from reset_gpio_closes[OF a] reset_gpio_closes[OF b] show ?thesis by auto
  qed
  moreover have "cleanup_log (trace w') = [] \<and> closes (trace w') = [] \<or>
      CHIP w' \<noteq> None \<and> cleanup_log (trace w') = [Inl (), Inr (CHIP w')] \<and>
        closes (trace w') = [CHIP w']"
    if "main_res state (world0 scr) = Some (out, w')"
    using that by (rule main_res_cleanup)
  ultimately show ?thesis by blast
qed

text \<open>
  A run of the second program in which every call succeeds closes the chip once, in the
  callback; the callback invoked once on an open chip closes it once.
\<close>

theorem cleanup_closes_chip_each_time_witness:
  "(\<exists>w'. main_res 0 (world0 script_res_ok) = Some (Exited 0, w') \<and>
          cleanup_log (trace w') = [Inl (), Inr (Some 1)] \<and> closes (trace w') = [Some 1]) \<and>
   (\<exists>w1 w2. reset_gpio (world_res (replicate 12 (Ptr None 0))) = Some w1 \<and>
          reset_gpio w1 = Some w2 \<and> closes (trace w1) = [Some 1] \<and>
          closes (trace w2) = [Some 1, Some 1])"
proof -
  have "map_option (\<lambda>(out, w). (out, CHIP w, cleanup_log (trace w)))
          (main_res 0 (world0 script_res_ok))
        = Some (Exited 0, Some 1, [Inl (), Inr (Some 1)])"
    by code_simp
  then obtain w' where r: "main_res 0 (world0 script_res_ok) = Some (Exited 0, w')"
    and c: "CHIP w' = Some 1" "cleanup_log (trace w') = [Inl (), Inr (Some 1)]"
    by (cases "main_res 0 (world0 script_res_ok)") auto
  from cleanup_closes_chip_each_time[where state = 0 and scr = script_res_ok
      and out = "Exited 0" and w' = w'] r c
  have m: "cleanup_log (trace w') = [Inl (), Inr (Some 1)] \<and> closes (trace w') = [Some 1]"
    by simp
  let ?w = "world_res (replicate 12 (Ptr None 0))"
  have "map_option (\<lambda>w. ()) (Option.bind (reset_gpio ?w) reset_gpio) = Some ()"
    by code_simp
  then obtain w1 w2 where a: "reset_gpio ?w = Some w1" and b: "reset_gpio w1 = Some w2"
    by (auto simp: bind_eq_Some_conv)
  from cleanup_closes_chip_each_time[where w = ?w and ?w1.0 = w1 and ?w2.0 = w2] a b
  have "closes (trace w1) = closes (trace ?w) @ [CHIP ?w]"
    "closes (trace w2) = closes (trace ?w) @ [CHIP ?w, CHIP ?w]"
    by blast+
  then have "closes (trace w1) = [Some 1]" "closes (trace w2) = [Some 1, Some 1]"
    by (simp_all add: world_res_def world0_def)
  with a b m r show ?thesis by blast
qed

text \<open>
  The callback invoked twice, every line being granted: the second invocation closes the
  handle that the first one has closed already.
\<close>

theorem cleanup_twice_closes_chip_twice:
  "map_option (\<lambda>w. (cleanup_log (trace w), closes (trace w)))
     (Option.bind (reset_gpio (world_res
        [Ptr (Some 16) 0, Ret 0 0, Ptr (Some 17) 0, Ret 0 0, Ptr (Some 21) 0, Ret 0 0,
         Ptr (Some 16) 0, Ret 0 0, Ptr (Some 17) 0, Ret 0 0, Ptr (Some 21) 0, Ret 0 0]))
        reset_gpio)
   = Some ([Inl (), Inr (Some 1), Inl (), Inr (Some 1)], [Some 1, Some 1])"
  by code_simp

section \<open>The receiver and a controller line that is not obtained\<close>

lemma ask_ptr_next:
  "script w = Ptr p e # rest \<Longrightarrow>
     ask_ptr c w = Some (p, w\<lparr>script := rest, trace := trace w @ [Call c (Ptr p e)], errno := e\<rparr>)"
  by (simp add: ask_ptr_Some)

lemma ask_int_next:
  "script w = Ret rc e # rest \<Longrightarrow>
     ask_int c w = Some (rc, w\<lparr>script := rest, trace := trace w @ [Call c (Ret rc e)], errno := e\<rparr>)"
  by (simp add: ask_int_Some)

lemma strerror_next:
  "script w = Text s # rest \<Longrightarrow>
     strerror n w = Some (s, w\<lparr>script := rest, trace := trace w @ [Call (Strerror n) (Text s)]\<rparr>)"
  by (simp add: strerror_Some)







text \<open>
  The same test stands at the end of the receiver of \<open>src/gpio2.c\<close>, where the controller
  line is taken again to be set as input. A Relay with one event, the controller line not
  obtained the second time: the task goes on to \<open>gpiod_line_request_input\<close> on the null
  handle. The events after the two releases that follow the loop:
\<close>

lemma null_controller_at_the_end:
  "map_option (\<lambda>(out, w). (out, drop 11 (trace w)))
     (receiver_thread (relay_args 1) 0
        (world0 [Ptr (Some 21) 0, Ptr (Some 17) 0, Ret 0 0, Ret 0 0, Ret 1 0, Ret 0 0, Ret 0 0,
                 Ret 0 0, Ptr None 19, Ret (- 1) 22]))
   = Some (Exited 1,
       [Call (Gpiod_chip_get_line (Some 1) 17) (Ptr None 19),
        Call (Gpiod_line_request_input None ''controller'') (Ret (- 1) 22),
        Do (Gpiod_line_release None),
        Do (Stderr ''ERROR: receiver: cannot set the line's mode to input\<newline>''),
        Do (Exit 1)])"
  by code_simp

section \<open>What the cleanup callback does, and who closes the chip\<close>

lemma reset_gpio_loop_step:
  assumes "reset_gpio_loop (pin # pins) w = Some w'"
  shows "\<exists>w1 a. reset_gpio_loop pins w1 = Some w' \<and> trace w1 = trace w @ a \<and>
           CHIP w1 = CHIP w \<and> reset_attempt (CHIP w) pin a"
proof -
  from assms obtain l w1 where g: "gpiod_chip_get_line (CHIP w) pin w = Some (l, w1)"
    and rest: "(if l = None then
       reset_gpio_loop pins
         (fprintf_stderr (''Warning: error while resetting line #'' @ dec pin
            @ '' (gpiod_chip_get_line() - errno: '' @ dec (errno w1) @ '')\<newline>'') w1)
     else do {
       (rc, w) \<leftarrow> gpiod_line_request_input l ''line'' w1;
       if rc = - 1 then
         reset_gpio_loop pins
           (fprintf_stderr (''Warning: error while resetting line #'' @ dec pin
              @ '' (gpiod_line_request_input() - errno: '' @ dec (errno w) @ '')\<newline>'') w)
       else reset_gpio_loop pins (gpiod_line_release l w)
     }) = Some w'"
    by (auto simp: bind_eq_Some_conv)
  from g obtain e scr where w1: "w1 = w\<lparr>script := scr,
      trace := trace w @ [Call (Gpiod_chip_get_line (CHIP w) pin) (Ptr l e)], errno := e\<rparr>"
    by (auto simp: gpiod_chip_get_line_def ask_ptr_Some)
  show ?thesis
  proof (cases "l = None")
    case True
    let ?w = "fprintf_stderr (''Warning: error while resetting line #'' @ dec pin
            @ '' (gpiod_chip_get_line() - errno: '' @ dec (errno w1) @ '')\<newline>'') w1"
    from rest True have "reset_gpio_loop pins ?w = Some w'" by simp
    moreover have "trace ?w = trace w @ [Call (Gpiod_chip_get_line (CHIP w) pin) (Ptr l e),
        reset_warning pin ''gpiod_chip_get_line'' e]"
      by (simp add: w1 call_defs reset_warning_def)
    moreover have "CHIP ?w = CHIP w" by (simp add: w1 call_defs)
    moreover have "reset_attempt (CHIP w) pin [Call (Gpiod_chip_get_line (CHIP w) pin) (Ptr l e),
        reset_warning pin ''gpiod_chip_get_line'' e]"
      using True by (simp add: reset_attempt_def)
    ultimately show ?thesis by blast
  next
    case False
    with rest obtain rc w2 where r: "gpiod_line_request_input l ''line'' w1 = Some (rc, w2)"
      and rest2: "(if rc = - 1 then
         reset_gpio_loop pins
           (fprintf_stderr (''Warning: error while resetting line #'' @ dec pin
              @ '' (gpiod_line_request_input() - errno: '' @ dec (errno w2) @ '')\<newline>'') w2)
       else reset_gpio_loop pins (gpiod_line_release l w2)) = Some w'"
      by (auto simp: bind_eq_Some_conv)
    from r obtain e' scr' where w2: "w2 = w1\<lparr>script := scr',
        trace := trace w1 @ [Call (Gpiod_line_request_input l ''line'') (Ret rc e')], errno := e'\<rparr>"
      by (auto simp: gpiod_line_request_input_def ask_int_Some)
    let ?ev = "if rc = - 1 then reset_warning pin ''gpiod_line_request_input'' e'
               else Do (Gpiod_line_release l)"
    let ?w = "if rc = - 1 then
           fprintf_stderr (''Warning: error while resetting line #'' @ dec pin
              @ '' (gpiod_line_request_input() - errno: '' @ dec (errno w2) @ '')\<newline>'') w2
         else gpiod_line_release l w2"
    from rest2 have "reset_gpio_loop pins ?w = Some w'" by (simp split: if_splits)
    moreover have "trace ?w = trace w @ [Call (Gpiod_chip_get_line (CHIP w) pin) (Ptr l e),
        Call (Gpiod_line_request_input l ''line'') (Ret rc e'), ?ev]"
      by (simp add: w1 w2 call_defs reset_warning_def)
    moreover have "CHIP ?w = CHIP w" by (simp add: w1 w2 call_defs)
    moreover have "reset_attempt (CHIP w) pin [Call (Gpiod_chip_get_line (CHIP w) pin) (Ptr l e),
        Call (Gpiod_line_request_input l ''line'') (Ret rc e'), ?ev]"
      using False by (auto simp: reset_attempt_def)
    ultimately show ?thesis by blast
  qed
qed

lemma reset_gpio_shape:
  assumes "reset_gpio w = Some w'"
  shows "\<exists>a b c. trace w' = trace w @ [Do (Stdout ''Reset GPIO\<newline>'')] @ a @ b @ c
                     @ [Do (Gpiod_chip_close (CHIP w))] \<and>
           reset_attempt (CHIP w) 16 a \<and> reset_attempt (CHIP w) 17 b \<and>
           reset_attempt (CHIP w) 21 c"
proof -
  let ?w0 = "printf ''Reset GPIO\<newline>'' w"
  from assms obtain w4 where l: "reset_gpio_loop [GPIO_16, GPIO_17, GPIO_21] ?w0 = Some w4"
    and w': "w' = gpiod_chip_close (CHIP w4) w4"
    by (auto simp: reset_gpio_def bind_eq_Some_conv simp del: reset_gpio_loop.simps)
  from reset_gpio_loop_step[OF l] obtain w1 a where
    l1: "reset_gpio_loop [GPIO_17, GPIO_21] w1 = Some w4" and t1: "trace w1 = trace ?w0 @ a"
    and c1: "CHIP w1 = CHIP ?w0" and a: "reset_attempt (CHIP ?w0) GPIO_16 a"
    by blast
  from reset_gpio_loop_step[OF l1] obtain w2 b where
    l2: "reset_gpio_loop [GPIO_21] w2 = Some w4" and t2: "trace w2 = trace w1 @ b"
    and c2: "CHIP w2 = CHIP w1" and b: "reset_attempt (CHIP w1) GPIO_17 b"
    by blast
  from reset_gpio_loop_step[OF l2] obtain w3 c where
    l3: "reset_gpio_loop [] w3 = Some w4" and t3: "trace w3 = trace w2 @ c"
    and c3: "CHIP w3 = CHIP w2" and c: "reset_attempt (CHIP w2) GPIO_21 c"
    by blast
  from l3 have w4: "w4 = w3" by simp
  have c0: "CHIP ?w0 = CHIP w" and t0: "trace ?w0 = trace w @ [Do (Stdout ''Reset GPIO\<newline>'')]"
    by (simp_all add: call_defs)
  have "trace w' = trace w @ [Do (Stdout ''Reset GPIO\<newline>'')] @ a @ b @ c
                     @ [Do (Gpiod_chip_close (CHIP w))]"
    by (simp add: w' w4 t3 t2 t1 t0 c3 c2 c1 c0 gpiod_chip_close_def tell_def)
  moreover from a b c have "reset_attempt (CHIP w) 16 a" "reset_attempt (CHIP w) 17 b"
    "reset_attempt (CHIP w) 21 c"
    by (simp_all add: c2 c1 c0 GPIO_16_def GPIO_17_def GPIO_21_def)
  ultimately show ?thesis by blast
qed

lemma reset_answers_SomeD:
  assumes "reset_answers (pin # pins) (Ptr (Some x) e # scr)"
  shows "\<exists>rc e' scr'. scr = Ret rc e' # scr' \<and> reset_answers pins scr'"
proof (cases scr)
  case Nil
  with assms show ?thesis by simp
next
  case (Cons b scr')
  with assms show ?thesis by (cases b) simp_all
qed

lemma reset_gpio_loop_total:
  "reset_answers pins (script w) \<Longrightarrow> \<exists>w'. reset_gpio_loop pins w = Some w'"
proof (induction pins arbitrary: w)
  case Nil
  then show ?case by simp
next
  case (Cons pin pins)
  from Cons.prems obtain a scr where s: "script w = a # scr"
    by (cases "script w") auto
  show ?case
  proof (cases a)
    case (Ptr l e)
    let ?w1 = "w\<lparr>script := scr, trace := trace w @ [Call (Gpiod_chip_get_line (CHIP w) pin) (Ptr l e)],
                 errno := e\<rparr>"
    have g: "gpiod_chip_get_line (CHIP w) pin w = Some (l, ?w1)"
      by (simp add: gpiod_chip_get_line_def ask_ptr_Some s Ptr)
    show ?thesis
    proof (cases l)
      case None
      let ?w = "fprintf_stderr (''Warning: error while resetting line #'' @ dec pin
            @ '' (gpiod_chip_get_line() - errno: '' @ dec (errno ?w1) @ '')\<newline>'') ?w1"
      from Cons.prems s Ptr None have "reset_answers pins (script ?w)"
        by (simp add: call_defs)
      from Cons.IH[OF this] obtain w' where "reset_gpio_loop pins ?w = Some w'" ..
      then have "reset_gpio_loop (pin # pins) w = Some w'"
        by (simp add: g None)
      then show ?thesis ..
    next
      case (Some x)
      from Cons.prems s Ptr Some have "reset_answers (pin # pins) (Ptr (Some x) e # scr)"
        by simp
      from reset_answers_SomeD[OF this] obtain rc e' scr' where s': "scr = Ret rc e' # scr'"
        and ra: "reset_answers pins scr'"
        by blast
      let ?w2 = "?w1\<lparr>script := scr',
          trace := trace ?w1 @ [Call (Gpiod_line_request_input l ''line'') (Ret rc e')], errno := e'\<rparr>"
      have r: "gpiod_line_request_input l ''line'' ?w1 = Some (rc, ?w2)"
        by (simp add: gpiod_line_request_input_def ask_int_Some s')
      let ?wa = "fprintf_stderr (''Warning: error while resetting line #'' @ dec pin
              @ '' (gpiod_line_request_input() - errno: '' @ dec (errno ?w2) @ '')\<newline>'') ?w2"
      let ?wb = "gpiod_line_release l ?w2"
      have step: "reset_gpio_loop (pin # pins) w =
          (if rc = - 1 then reset_gpio_loop pins ?wa else reset_gpio_loop pins ?wb)"
        by (simp only: reset_gpio_loop.simps g[unfolded Some] r[unfolded Some] bind.bind_lunit
              prod.case Some option.simps if_False)
      show ?thesis
      proof (cases "rc = - 1")
        case True
        from ra have "reset_answers pins (script ?wa)" by (simp add: call_defs)
        from Cons.IH[OF this] obtain w' where "reset_gpio_loop pins ?wa = Some w'" ..
        with step True have "reset_gpio_loop (pin # pins) w = Some w'" by (simp only: if_True simp_thms)
        then show ?thesis ..
      next
        case False
        from ra have "reset_answers pins (script ?wb)" by (simp add: call_defs)
        from Cons.IH[OF this] obtain w' where "reset_gpio_loop pins ?wb = Some w'" ..
        with step False have "reset_gpio_loop (pin # pins) w = Some w'" by (simp only: if_False simp_thms)
        then show ?thesis ..
      qed
    qed
  next
    case (Ret x1 x2)
    with Cons.prems s show ?thesis by simp
  next
    case (Slept x1 x2 x3)
    with Cons.prems s show ?thesis by simp
  next
    case (Text x)
    with Cons.prems s show ?thesis by simp
  qed
qed

lemma reset_gpio_total:
  assumes "reset_answers [GPIO_16, GPIO_17, GPIO_21] (script w)"
  shows "\<exists>w'. reset_gpio w = Some w'"
proof -
  from assms have "reset_answers [GPIO_16, GPIO_17, GPIO_21] (script (printf ''Reset GPIO\<newline>'' w))"
    by (simp add: call_defs)
  from reset_gpio_loop_total[OF this] show ?thesis
    by (auto simp: reset_gpio_def simp del: reset_gpio_loop.simps)
qed

lemma main_cleanup:
  assumes "main state (world0 scr) = Some (out, w')"
  shows "out = Exited 1 \<and> cleanup_log (trace w') = [] \<and> closes (trace w') = [] \<or>
         out = Exited 0 \<and> (\<exists>c. cleanup_log (trace w') = [Inr c] \<and> closes (trace w') = [c])"
proof -
  from main_fate[OF assms] obtain evs c where
    t: "trace w' = evs" and m: "main_end (world0 scr) out [Inr c] evs"
    by (auto simp: world0_def)
  from m have "out = Exited 1 \<and> cleanup_log evs = [] \<or> out = Exited 0 \<and> cleanup_log evs = [Inr c]"
    by (auto simp: main_end_def world0_def)
  then show ?thesis
    by (auto simp: closes_cleanup[of evs] t)
qed

lemma task_res_closes_nothing:
  assumes "fate w (Returned ()) w'"
  shows "closes (trace w') = closes (trace w)"
proof -
  from assms obtain evs where t: "trace w' = trace w @ evs" and c: "cleanup_log evs = []"
    by (auto simp: fate_def)
  from c have "closes evs = []" by (simp add: closes_cleanup[of evs])
  with t show ?thesis by simp
qed

text \<open>
  Claim C8, as amended. When the platform answers its calls, \<open>reset_gpio\<close> returns; and
  when it returns it has printed its banner, made one attempt for line 16, one for line
  17 and one for line 21, in this order and whatever the outcome of the earlier ones, and
  has then closed the chip handle \<open>CHIP\<close>. In the second program this is the only place
  where the chip is closed: a run of \<open>main\<close> closes no chip, or closes the opened chip
  once, inside the callback, and a task that returns has closed nothing. In
  \<open>src/gpio2.c\<close> there is no callback: a run of \<open>main\<close> that ends with status 0 has
  closed the chip once, in \<open>main\<close>, outside any callback, and a run that ends with status
  1 has not closed it.
\<close>

theorem cleanup_resets_lines_then_closes_chip:
  "(reset_answers [GPIO_16, GPIO_17, GPIO_21] (script w) \<longrightarrow> (\<exists>w1. reset_gpio w = Some w1)) \<and>
   (reset_gpio w = Some w1 \<longrightarrow>
      (\<exists>a b c. trace w1 = trace w @ [Do (Stdout ''Reset GPIO\<newline>'')] @ a @ b @ c
                     @ [Do (Gpiod_chip_close (CHIP w))] \<and>
         reset_attempt (CHIP w) 16 a \<and> reset_attempt (CHIP w) 17 b \<and>
         reset_attempt (CHIP w) 21 c)) \<and>
   (main_res state (world0 scr) = Some (out, w') \<longrightarrow>
      cleanup_log (trace w') = [] \<and> closes (trace w') = [] \<or>
      CHIP w' \<noteq> None \<and> cleanup_log (trace w') = [Inl (), Inr (CHIP w')] \<and>
        closes (trace w') = [CHIP w']) \<and>
   (issuer_thread_res args w = Some (Returned (), w2) \<longrightarrow> closes (trace w2) = closes (trace w)) \<and>
   (receiver_thread_res rargs state w = Some (Returned (), w2) \<longrightarrow>
      closes (trace w2) = closes (trace w)) \<and>
   (main state (world0 scr) = Some (out, w') \<longrightarrow>
      out = Exited 1 \<and> cleanup_log (trace w') = [] \<and> closes (trace w') = [] \<or>
      out = Exited 0 \<and> (\<exists>c. cleanup_log (trace w') = [Inr c] \<and> closes (trace w') = [c]))"
proof -
  have "\<exists>w1. reset_gpio w = Some w1" if "reset_answers [GPIO_16, GPIO_17, GPIO_21] (script w)"
    using that by (rule reset_gpio_total)
  moreover have "\<exists>a b c. trace w1 = trace w @ [Do (Stdout ''Reset GPIO\<newline>'')] @ a @ b @ c
                     @ [Do (Gpiod_chip_close (CHIP w))] \<and>
         reset_attempt (CHIP w) 16 a \<and> reset_attempt (CHIP w) 17 b \<and>
         reset_attempt (CHIP w) 21 c"
    if "reset_gpio w = Some w1"
    using that by (rule reset_gpio_shape)
  moreover have "cleanup_log (trace w') = [] \<and> closes (trace w') = [] \<or>
      CHIP w' \<noteq> None \<and> cleanup_log (trace w') = [Inl (), Inr (CHIP w')] \<and>
        closes (trace w') = [CHIP w']"
    if "main_res state (world0 scr) = Some (out, w')"
    using that by (rule main_res_cleanup)
  moreover have "closes (trace w2) = closes (trace w)"
    if "issuer_thread_res args w = Some (Returned (), w2)"
    using fate_of_ends[OF ends_issuer_thread_res that] by (rule task_res_closes_nothing)
  moreover have "closes (trace w2) = closes (trace w)"
    if "receiver_thread_res rargs state w = Some (Returned (), w2)"
    using fate_of_ends[OF ends_receiver_thread_res that] by (rule task_res_closes_nothing)
  moreover have "out = Exited 1 \<and> cleanup_log (trace w') = [] \<and> closes (trace w') = [] \<or>
      out = Exited 0 \<and> (\<exists>c. cleanup_log (trace w') = [Inr c] \<and> closes (trace w') = [c])"
    if "main state (world0 scr) = Some (out, w')"
    using that by (rule main_cleanup)
  ultimately show ?thesis by blast
qed

text \<open>
  The callback facing a platform on which line 16 cannot be obtained, line 17 is refused
  as input and line 21 is granted: two warnings, one release, and the chip closed. The
  runs of the two programs in which every call succeeds.
\<close>

theorem cleanup_resets_lines_then_closes_chip_witness:
  "(\<exists>w1. reset_gpio (world_res [Ptr None 5, Ptr (Some 17) 0, Ret (- 1) 16, Ptr (Some 21) 0, Ret 0 0])
            = Some w1 \<and>
          trace w1 =
            [Do (Stdout ''Reset GPIO\<newline>''),
             Call (Gpiod_chip_get_line (Some 1) 16) (Ptr None 5),
             Do (Stderr ''Warning: error while resetting line #16 (gpiod_chip_get_line() - errno: 5)\<newline>''),
             Call (Gpiod_chip_get_line (Some 1) 17) (Ptr (Some 17) 0),
             Call (Gpiod_line_request_input (Some 17) ''line'') (Ret (- 1) 16),
             Do (Stderr ''Warning: error while resetting line #17 (gpiod_line_request_input() - errno: 16)\<newline>''),
             Call (Gpiod_chip_get_line (Some 1) 21) (Ptr (Some 21) 0),
             Call (Gpiod_line_request_input (Some 21) ''line'') (Ret 0 0),
             Do (Gpiod_line_release (Some 21)),
             Do (Gpiod_chip_close (Some 1))] \<and>
          (\<exists>a b c. trace w1 = [Do (Stdout ''Reset GPIO\<newline>'')] @ a @ b @ c
                       @ [Do (Gpiod_chip_close (Some 1))] \<and>
             reset_attempt (Some 1) 16 a \<and> reset_attempt (Some 1) 17 b \<and>
             reset_attempt (Some 1) 21 c)) \<and>
   (\<exists>w'. main_res 0 (world0 script_res_ok) = Some (Exited 0, w') \<and>
          cleanup_log (trace w') = [Inl (), Inr (Some 1)] \<and> closes (trace w') = [Some 1]) \<and>
   (\<exists>w'. main 0 (world0 script_ok) = Some (Exited 0, w') \<and>
          (\<exists>c. cleanup_log (trace w') = [Inr c] \<and> closes (trace w') = [c]))"
proof -
  let ?w = "world_res [Ptr None 5, Ptr (Some 17) 0, Ret (- 1) 16, Ptr (Some 21) 0, Ret 0 0]"
  have "reset_answers [GPIO_16, GPIO_17, GPIO_21] (script ?w)"
    by (simp add: world_res_def world0_def)
  with cleanup_resets_lines_then_closes_chip[where w = ?w, THEN conjunct1]
  obtain w1 where r: "reset_gpio ?w = Some w1" by blast
  with cleanup_resets_lines_then_closes_chip[where w = ?w and ?w1.0 = w1,
      THEN conjunct2, THEN conjunct1]
  have sh: "\<exists>a b c. trace w1 = trace ?w @ [Do (Stdout ''Reset GPIO\<newline>'')] @ a @ b @ c
                     @ [Do (Gpiod_chip_close (CHIP ?w))] \<and>
         reset_attempt (CHIP ?w) 16 a \<and> reset_attempt (CHIP ?w) 17 b \<and>
         reset_attempt (CHIP ?w) 21 c"
    by blast
  have "map_option trace (reset_gpio ?w) = Some
            [Do (Stdout ''Reset GPIO\<newline>''),
             Call (Gpiod_chip_get_line (Some 1) 16) (Ptr None 5),
             Do (Stderr ''Warning: error while resetting line #16 (gpiod_chip_get_line() - errno: 5)\<newline>''),
             Call (Gpiod_chip_get_line (Some 1) 17) (Ptr (Some 17) 0),
             Call (Gpiod_line_request_input (Some 17) ''line'') (Ret (- 1) 16),
             Do (Stderr ''Warning: error while resetting line #17 (gpiod_line_request_input() - errno: 16)\<newline>''),
             Call (Gpiod_chip_get_line (Some 1) 21) (Ptr (Some 21) 0),
             Call (Gpiod_line_request_input (Some 21) ''line'') (Ret 0 0),
             Do (Gpiod_line_release (Some 21)),
             Do (Gpiod_chip_close (Some 1))]"
    by code_simp
  with r have tr: "trace w1 =
            [Do (Stdout ''Reset GPIO\<newline>''),
             Call (Gpiod_chip_get_line (Some 1) 16) (Ptr None 5),
             Do (Stderr ''Warning: error while resetting line #16 (gpiod_chip_get_line() - errno: 5)\<newline>''),
             Call (Gpiod_chip_get_line (Some 1) 17) (Ptr (Some 17) 0),
             Call (Gpiod_line_request_input (Some 17) ''line'') (Ret (- 1) 16),
             Do (Stderr ''Warning: error while resetting line #17 (gpiod_line_request_input() - errno: 16)\<newline>''),
             Call (Gpiod_chip_get_line (Some 1) 21) (Ptr (Some 21) 0),
             Call (Gpiod_line_request_input (Some 21) ''line'') (Ret 0 0),
             Do (Gpiod_line_release (Some 21)),
             Do (Gpiod_chip_close (Some 1))]"
    by simp
  have w0: "trace ?w = []" "CHIP ?w = Some 1" by (simp_all add: world_res_def world0_def)
  from sh have sh': "\<exists>a b c. trace w1 = [Do (Stdout ''Reset GPIO\<newline>'')] @ a @ b @ c
                       @ [Do (Gpiod_chip_close (Some 1))] \<and>
             reset_attempt (Some 1) 16 a \<and> reset_attempt (Some 1) 17 b \<and>
             reset_attempt (Some 1) 21 c"
    unfolding w0 by simp
  have "map_option (\<lambda>(out, w). (out, CHIP w, cleanup_log (trace w)))
          (main_res 0 (world0 script_res_ok))
        = Some (Exited 0, Some 1, [Inl (), Inr (Some 1)])"
    by code_simp
  then obtain w' where m: "main_res 0 (world0 script_res_ok) = Some (Exited 0, w')"
    and c: "CHIP w' = Some 1" "cleanup_log (trace w') = [Inl (), Inr (Some 1)]"
    by (cases "main_res 0 (world0 script_res_ok)") auto
  from cleanup_resets_lines_then_closes_chip[where state = 0 and scr = script_res_ok
      and out = "Exited 0" and w' = w', THEN conjunct2, THEN conjunct2, THEN conjunct1] m c
  have m': "cleanup_log (trace w') = [Inl (), Inr (Some 1)] \<and> closes (trace w') = [Some 1]"
    by simp
  have "map_option fst (main 0 (world0 script_ok)) = Some (Exited 0)"
    by code_simp
  then obtain w'' where n: "main 0 (world0 script_ok) = Some (Exited 0, w'')"
    by (cases "main 0 (world0 script_ok)") auto
  from cleanup_resets_lines_then_closes_chip[where state = 0 and scr = script_ok
      and out = "Exited 0" and w' = w'', THEN conjunct2, THEN conjunct2, THEN conjunct2,
      THEN conjunct2, THEN conjunct2] n
  have n': "\<exists>c. cleanup_log (trace w'') = [Inr c] \<and> closes (trace w'') = [c]"
    by simp
  from r tr sh' m m' n n' show ?thesis by blast
qed

text \<open>
  The run of \<open>src/gpio2.c\<close> in which every call succeeds: no function is registered with
  \<open>atexit\<close>, \<open>reset_gpio\<close> is not entered, and the chip is closed, by \<open>main\<close>.
\<close>

theorem chip_closed_by_main:
  "map_option (\<lambda>(out, w). (out, atexit_fns w, cleanup_log (trace w), closes (trace w),
                  drop (length (trace w) - 3) (trace w)))
     (main 0 (world0 script_ok))
   = Some (Exited 0, [], [Inr (Some 1)], [Some 1],
       [Do (Pthread_join Receiver_thread), Do (Gpiod_chip_close (Some 1)), Do (Exit 0)])"
  by code_simp

section \<open>The receiver and a watched line that is not acquired\<close>

lemma reset_gpio_loop_releases:
  "reset_gpio_loop pins w = Some w' \<Longrightarrow>
     releases (trace w') = releases (trace w) @ reset_released pins (script w)"
proof (induction pins arbitrary: w)
  case Nil
  then show ?case by simp
next
  case (Cons pin pins)
  from Cons.prems obtain l w1 where g: "gpiod_chip_get_line (CHIP w) pin w = Some (l, w1)"
    and rest: "(if l = None then
       reset_gpio_loop pins
         (fprintf_stderr (''Warning: error while resetting line #'' @ dec pin
            @ '' (gpiod_chip_get_line() - errno: '' @ dec (errno w1) @ '')\<newline>'') w1)
     else do {
       (rc, w) \<leftarrow> gpiod_line_request_input l ''line'' w1;
       if rc = - 1 then
         reset_gpio_loop pins
           (fprintf_stderr (''Warning: error while resetting line #'' @ dec pin
              @ '' (gpiod_line_request_input() - errno: '' @ dec (errno w) @ '')\<newline>'') w)
       else reset_gpio_loop pins (gpiod_line_release l w)
     }) = Some w'"
    by (auto simp: bind_eq_Some_conv)
  from g obtain e scr where s: "script w = Ptr l e # scr" and w1: "w1 = w\<lparr>script := scr,
      trace := trace w @ [Call (Gpiod_chip_get_line (CHIP w) pin) (Ptr l e)], errno := e\<rparr>"
    by (auto simp: gpiod_chip_get_line_def ask_ptr_Some)
  show ?case
  proof (cases "l = None")
    case True
    let ?w = "fprintf_stderr (''Warning: error while resetting line #'' @ dec pin
            @ '' (gpiod_chip_get_line() - errno: '' @ dec (errno w1) @ '')\<newline>'') w1"
    from rest True have "reset_gpio_loop pins ?w = Some w'" by simp
    from Cons.IH[OF this] have "releases (trace w') = releases (trace ?w) @ reset_released pins (script ?w)" .
    moreover have "releases (trace ?w) = releases (trace w)" "script ?w = scr"
      by (simp_all add: w1 call_defs)
    ultimately show ?thesis using True by (simp add: s)
  next
    case False
    then obtain x where x: "l = Some x" by auto
    from rest False obtain rc w2 where r: "gpiod_line_request_input l ''line'' w1 = Some (rc, w2)"
      and rest2: "(if rc = - 1 then
         reset_gpio_loop pins
           (fprintf_stderr (''Warning: error while resetting line #'' @ dec pin
              @ '' (gpiod_line_request_input() - errno: '' @ dec (errno w2) @ '')\<newline>'') w2)
       else reset_gpio_loop pins (gpiod_line_release l w2)) = Some w'"
      by (auto simp: bind_eq_Some_conv)
    from r obtain e' scr' where s': "scr = Ret rc e' # scr'" and w2: "w2 = w1\<lparr>script := scr',
        trace := trace w1 @ [Call (Gpiod_line_request_input l ''line'') (Ret rc e')], errno := e'\<rparr>"
      by (auto simp: gpiod_line_request_input_def ask_int_Some w1)
    let ?w = "if rc = - 1 then
           fprintf_stderr (''Warning: error while resetting line #'' @ dec pin
              @ '' (gpiod_line_request_input() - errno: '' @ dec (errno w2) @ '')\<newline>'') w2
         else gpiod_line_release l w2"
    from rest2 have "reset_gpio_loop pins ?w = Some w'" by (simp split: if_splits)
    from Cons.IH[OF this] have "releases (trace w') = releases (trace ?w) @ reset_released pins (script ?w)" .
    moreover have "releases (trace ?w) = releases (trace w) @ (if rc = - 1 then [] else [l])"
      "script ?w = scr'"
      by (simp_all add: w1 w2 call_defs)
    ultimately show ?thesis by (simp add: s s' x)
  qed
qed

lemma reset_gpio_releases:
  assumes "reset_gpio w = Some w'"
  shows "releases (trace w') = releases (trace w)
           @ reset_released [GPIO_16, GPIO_17, GPIO_21] (script w)"
proof -
  let ?w0 = "printf ''Reset GPIO\<newline>'' w"
  from assms obtain w4 where l: "reset_gpio_loop [GPIO_16, GPIO_17, GPIO_21] ?w0 = Some w4"
    and w': "w' = gpiod_chip_close (CHIP w4) w4"
    by (auto simp: reset_gpio_def bind_eq_Some_conv simp del: reset_gpio_loop.simps)
  from reset_gpio_loop_releases[OF l] show ?thesis
    by (simp add: w' call_defs)
qed

lemma error_with_cleanup:
  assumes "atexit_fns w = [Reset_gpio]"
    and "reset_answers [GPIO_16, GPIO_17, GPIO_21] (script w)"
  shows "\<exists>w' a b c. error msg w = Some (Exited 1, w') \<and>
           trace w' = trace w
             @ [Do (Stderr (''ERROR: '' @ msg @ ''\<newline>'')), Do (Stdout ''Reset GPIO\<newline>'')]
             @ a @ b @ c @ [Do (Gpiod_chip_close (CHIP w)), Do (Exit 1)] \<and>
           reset_attempt (CHIP w) 16 a \<and> reset_attempt (CHIP w) 17 b \<and>
           reset_attempt (CHIP w) 21 c \<and>
           releases (a @ b @ c) = reset_released [GPIO_16, GPIO_17, GPIO_21] (script w)"
proof -
  define line where "line = ''ERROR: '' @ msg @ ''\<newline>''"
  define w1 where "w1 = fprintf_stderr line w"
  have s: "script w1 = script w" and a: "atexit_fns w1 = [Reset_gpio]"
    and c: "CHIP w1 = CHIP w" and t: "trace w1 = trace w @ [Do (Stderr line)]"
    by (simp_all add: w1_def call_defs assms(1))
  from assms(2) s have "reset_answers [GPIO_16, GPIO_17, GPIO_21] (script w1)" by simp
  from reset_gpio_total[OF this] obtain w2 where r: "reset_gpio w1 = Some w2" ..
  from reset_gpio_shape[OF r] obtain a b c where
    e: "trace w2 = trace w1 @ [Do (Stdout ''Reset GPIO\<newline>'')] @ a @ b @ c
                     @ [Do (Gpiod_chip_close (CHIP w1))]"
    and at: "reset_attempt (CHIP w1) 16 a" "reset_attempt (CHIP w1) 17 b"
      "reset_attempt (CHIP w1) 21 c"
    by blast
  from reset_gpio_releases[OF r] e
  have rl: "releases (a @ b @ c) = reset_released [GPIO_16, GPIO_17, GPIO_21] (script w)"
    by (simp add: s)
  have "error msg w = exit 1 w1"
    by (simp only: error_def w1_def line_def)
  also have "\<dots> = Some (Exited 1, tell (Exit 1) w2)"
    by (simp only: exit_def a r run_atexit.simps run_handler.simps bind.bind_lunit)
  finally have "error msg w = Some (Exited 1, tell (Exit 1) w2)" .
  moreover have "trace (tell (Exit 1) w2) = trace w
             @ [Do (Stderr line), Do (Stdout ''Reset GPIO\<newline>'')]
             @ a @ b @ c @ [Do (Gpiod_chip_close (CHIP w)), Do (Exit 1)]"
    by (simp add: tell_def e t c)
  ultimately show ?thesis using at rl unfolding line_def c by blast
qed

lemma receiver_thread_no_line:
  assumes "script w = Ptr None e1 # rest"
  shows "receiver_thread args state w =
           error ''receiver: cannot get the line used to receive messages from the issuer''
             (w\<lparr>script := rest,
                trace := trace w @
                  [Call (Gpiod_chip_get_line (receiver_args.chip args) (receiver_line_id args)) (Ptr None e1)],
                errno := e1\<rparr>)"
proof -
  let ?w1 = "w\<lparr>script := rest,
      trace := trace w @ [Call (Gpiod_chip_get_line (receiver_args.chip args) (receiver_line_id args)) (Ptr None e1)],
      errno := e1\<rparr>"
  have s1: "gpiod_chip_get_line (receiver_args.chip args) (receiver_line_id args) w = Some (None, ?w1)"
    unfolding gpiod_chip_get_line_def by (rule ask_ptr_next) (rule assms(1))
  show ?thesis
    unfolding receiver_thread_def
    by (simp only: s1 bind.bind_lunit prod.case if_True simp_thms)
qed

lemma receiver_thread_res_no_line:
  assumes "script w = Ptr None e1 # rest"
  shows "receiver_thread_res args state w =
           error ''receiver: cannot get the line used to receive messages from the issuer''
             (w\<lparr>script := rest,
                trace := trace w @
                  [Call (Gpiod_chip_get_line (CHIP w) (receiver_line_id args)) (Ptr None e1)],
                errno := e1\<rparr>)"
proof -
  let ?w1 = "w\<lparr>script := rest,
      trace := trace w @ [Call (Gpiod_chip_get_line (CHIP w) (receiver_line_id args)) (Ptr None e1)],
      errno := e1\<rparr>"
  have s1: "gpiod_chip_get_line (CHIP w) (receiver_line_id args) w = Some (None, ?w1)"
    unfolding gpiod_chip_get_line_def by (rule ask_ptr_next) (rule assms(1))
  have sel: "receiver (receiver_thread_init \<lparr>receiver = None, controller = None\<rparr>\<lparr>receiver := None\<rparr>) = None"
    by (simp add: receiver_thread_init_def)
  have t: "receiver_thread_terminate
             (receiver_thread_init \<lparr>receiver = None, controller = None\<rparr>\<lparr>receiver := None\<rparr>) ?w1 = ?w1"
    by (simp add: receiver_thread_terminate_def receiver_thread_init_def Let_def)
  show ?thesis
    unfolding receiver_thread_res_def
    by (simp only: s1 bind.bind_lunit prod.case Let_def sel t if_True simp_thms)
qed

lemma receiver_thread_events_failure:
  assumes "script w = Ptr r e1 # Ptr c e2 # Ret rc e3 # Ret (- 1) e4 # Text s # rest"
    and "r \<noteq> None" and "rc \<noteq> - 1"
  shows "receiver_thread args state w =
           error ''receiver: cannot set the line's callbacks''
             (w\<lparr>script := rest,
                trace := trace w @
                  [Call (Gpiod_chip_get_line (receiver_args.chip args) (receiver_line_id args)) (Ptr r e1),
                   Call (Gpiod_chip_get_line (receiver_args.chip args) (controller_line_id args)) (Ptr c e2),
                   Call (Gpiod_line_request_output c (controller_name args) 0) (Ret rc e3),
                   Call (Gpiod_line_request_both_edges_events r (receiver_name args)) (Ret (- 1) e4),
                   Do (Stdout (''errno: '' @ dec e4 @ ''\<newline>'')),
                   Call (Strerror e4) (Text s),
                   Do (Stdout (''=> '' @ s @ ''\<newline>'')),
                   Do (Gpiod_line_release r), Do (Gpiod_line_release c)],
                errno := e4\<rparr>)"
proof -
  let ?w1 = "w\<lparr>script := Ptr c e2 # Ret rc e3 # Ret (- 1) e4 # Text s # rest,
      trace := trace w @ [Call (Gpiod_chip_get_line (receiver_args.chip args) (receiver_line_id args)) (Ptr r e1)],
      errno := e1\<rparr>"
  let ?w2 = "?w1\<lparr>script := Ret rc e3 # Ret (- 1) e4 # Text s # rest,
      trace := trace ?w1 @ [Call (Gpiod_chip_get_line (receiver_args.chip args) (controller_line_id args)) (Ptr c e2)],
      errno := e2\<rparr>"
  let ?w3 = "?w2\<lparr>script := Ret (- 1) e4 # Text s # rest,
      trace := trace ?w2 @ [Call (Gpiod_line_request_output c (controller_name args) 0) (Ret rc e3)],
      errno := e3\<rparr>"
  let ?w4 = "?w3\<lparr>script := Text s # rest,
      trace := trace ?w3 @ [Call (Gpiod_line_request_both_edges_events r (receiver_name args)) (Ret (- 1) e4)],
      errno := e4\<rparr>"
  let ?w5 = "printf (''errno: '' @ dec (errno ?w4) @ ''\<newline>'') ?w4"
  let ?w6 = "?w5\<lparr>script := rest, trace := trace ?w5 @ [Call (Strerror (errno ?w4)) (Text s)]\<rparr>"
  have s1: "gpiod_chip_get_line (receiver_args.chip args) (receiver_line_id args) w = Some (r, ?w1)"
    unfolding gpiod_chip_get_line_def by (rule ask_ptr_next) (rule assms(1))
  have s2: "gpiod_chip_get_line (receiver_args.chip args) (controller_line_id args) ?w1 = Some (c, ?w2)"
    unfolding gpiod_chip_get_line_def by (rule ask_ptr_next) simp
  have s3: "gpiod_line_request_output c (controller_name args) 0 ?w2 = Some (rc, ?w3)"
    unfolding gpiod_line_request_output_def by (rule ask_int_next) simp
  have s4: "gpiod_line_request_both_edges_events r (receiver_name args) ?w3 = Some (- 1, ?w4)"
    unfolding gpiod_line_request_both_edges_events_def by (rule ask_int_next) simp
  have s5: "strerror (errno ?w4) ?w5 = Some (s, ?w6)"
    by (rule strerror_next) (simp add: call_defs)
  have run: "receiver_thread args state w =
          error ''receiver: cannot set the line's callbacks''
            (gpiod_line_release c (gpiod_line_release r (printf (''=> '' @ s @ ''\<newline>'') ?w6)))"
    unfolding receiver_thread_def
    by (simp only: s1 s2 s3 s4 s5 bind.bind_lunit prod.case assms(2,3) if_False if_True simp_thms)
  have "gpiod_line_release c (gpiod_line_release r (printf (''=> '' @ s @ ''\<newline>'') ?w6)) =
      w\<lparr>script := rest,
                trace := trace w @
                  [Call (Gpiod_chip_get_line (receiver_args.chip args) (receiver_line_id args)) (Ptr r e1),
                   Call (Gpiod_chip_get_line (receiver_args.chip args) (controller_line_id args)) (Ptr c e2),
                   Call (Gpiod_line_request_output c (controller_name args) 0) (Ret rc e3),
                   Call (Gpiod_line_request_both_edges_events r (receiver_name args)) (Ret (- 1) e4),
                   Do (Stdout (''errno: '' @ dec e4 @ ''\<newline>'')),
                   Call (Strerror e4) (Text s),
                   Do (Stdout (''=> '' @ s @ ''\<newline>'')),
                   Do (Gpiod_line_release r), Do (Gpiod_line_release c)],
                errno := e4\<rparr>"
    by (simp add: call_defs)
  then show ?thesis by (simp only: run)
qed

lemma receiver_thread_res_events_failure:
  assumes "script w = Ptr r e1 # Ptr c e2 # Ret rc e3 # Ret (- 1) e4 # rest"
    and "r \<noteq> None" and "rc \<noteq> - 1"
  shows "receiver_thread_res args state w =
           error ''receiver: cannot set the line's callbacks''
             (w\<lparr>script := rest,
                trace := trace w @
                  [Call (Gpiod_chip_get_line (CHIP w) (receiver_line_id args)) (Ptr r e1),
                   Call (Gpiod_chip_get_line (CHIP w) (controller_line_id args)) (Ptr c e2),
                   Call (Gpiod_line_request_output c ''controller'' 0) (Ret rc e3),
                   Call (Gpiod_line_request_both_edges_events r ''receiver'') (Ret (- 1) e4),
                   Do (Gpiod_line_release r)]
                  @ (if c = None then [] else [Do (Gpiod_line_release c)]),
                errno := e4\<rparr>)"
proof -
  let ?w1 = "w\<lparr>script := Ptr c e2 # Ret rc e3 # Ret (- 1) e4 # rest,
      trace := trace w @ [Call (Gpiod_chip_get_line (CHIP w) (receiver_line_id args)) (Ptr r e1)],
      errno := e1\<rparr>"
  let ?w2 = "?w1\<lparr>script := Ret rc e3 # Ret (- 1) e4 # rest,
      trace := trace ?w1 @ [Call (Gpiod_chip_get_line (CHIP w) (controller_line_id args)) (Ptr c e2)],
      errno := e2\<rparr>"
  let ?w3 = "?w2\<lparr>script := Ret (- 1) e4 # rest,
      trace := trace ?w2 @ [Call (Gpiod_line_request_output c ''controller'' 0) (Ret rc e3)],
      errno := e3\<rparr>"
  let ?w4 = "?w3\<lparr>script := rest,
      trace := trace ?w3 @ [Call (Gpiod_line_request_both_edges_events r ''receiver'') (Ret (- 1) e4)],
      errno := e4\<rparr>"
  let ?res = "\<lparr>receiver = r, controller = c\<rparr>"
  have s1: "gpiod_chip_get_line (CHIP w) (receiver_line_id args) w = Some (r, ?w1)"
    unfolding gpiod_chip_get_line_def by (rule ask_ptr_next) (rule assms(1))
  have c1: "CHIP ?w1 = CHIP w" by simp
  have s2: "gpiod_chip_get_line (CHIP w) (controller_line_id args) ?w1 = Some (c, ?w2)"
    unfolding gpiod_chip_get_line_def by (rule ask_ptr_next) simp
  have s3: "gpiod_line_request_output c ''controller'' 0 ?w2 = Some (rc, ?w3)"
    unfolding gpiod_line_request_output_def by (rule ask_int_next) simp
  have s4: "gpiod_line_request_both_edges_events r ''receiver'' ?w3 = Some (- 1, ?w4)"
    unfolding gpiod_line_request_both_edges_events_def by (rule ask_int_next) simp
  have sel: "receiver (receiver_thread_init \<lparr>receiver = None, controller = None\<rparr>\<lparr>receiver := r\<rparr>) = r"
    "receiver_thread_init \<lparr>receiver = None, controller = None\<rparr>\<lparr>receiver := r, controller := c\<rparr> = ?res"
    by (simp_all add: receiver_thread_init_def)
  have run: "receiver_thread_res args state w =
          error ''receiver: cannot set the line's callbacks'' (receiver_thread_terminate ?res ?w4)"
    unfolding receiver_thread_res_def
    by (simp only: s1 c1 s2 s3 s4 bind.bind_lunit prod.case assms(2,3) if_False if_True Let_def sel
          simp_thms receiver_thread_resource.select_convs)
  have "receiver_thread_terminate ?res ?w4 =
      w\<lparr>script := rest,
                trace := trace w @
                  [Call (Gpiod_chip_get_line (CHIP w) (receiver_line_id args)) (Ptr r e1),
                   Call (Gpiod_chip_get_line (CHIP w) (controller_line_id args)) (Ptr c e2),
                   Call (Gpiod_line_request_output c ''controller'' 0) (Ret rc e3),
                   Call (Gpiod_line_request_both_edges_events r ''receiver'') (Ret (- 1) e4),
                   Do (Gpiod_line_release r)]
                  @ (if c = None then [] else [Do (Gpiod_line_release c)]),
                errno := e4\<rparr>"
    using assms(2) by (simp add: receiver_thread_terminate_def call_defs Let_def)
  then show ?thesis by (simp only: run)
qed

text \<open>
  Claim C7, as amended. The watched line of the Relay is acquired in two steps: the handle
  is obtained with \<open>gpiod_chip_get_line\<close>, then the edge events are requested with
  \<open>gpiod_line_request_both_edges_events\<close>. In both programs a failure of either step
  makes the task print a diagnostic that names the step and exit with status 1.

  When the request of the events answers \<open>-1\<close>, the task releases the receiver line and
  then the controller line, each once, before the diagnostic (in the second program a null
  controller handle is not released). When the handle of the watched line is not obtained,
  the task releases nothing. In \<open>src/gpio2.c\<close>, which registers no function with
  \<open>atexit\<close>, these are all the releases of the run. In the second program, where
  \<open>reset_gpio\<close> is registered, the callback runs between the diagnostic and the exit and
  releases every line among 16, 17 and 21 that it obtains and is granted as input: the
  releases of the whole run are those of the task followed by \<open>reset_released\<close> of the
  answers given to the callback, so that the controller line is released a second time
  when the callback is granted it.
\<close>

theorem watched_line_failure_is_fatal:
  "(script w = Ptr r e1 # Ptr c e2 # Ret rc e3 # Ret (- 1) e4 # Text s # rest \<and>
      r \<noteq> None \<and> rc \<noteq> - 1 \<and> atexit_fns w = [] \<longrightarrow>
      receiver_thread args state w = Some (Exited 1,
        w\<lparr>script := rest,
          trace := trace w @
            [Call (Gpiod_chip_get_line (receiver_args.chip args) (receiver_line_id args)) (Ptr r e1),
             Call (Gpiod_chip_get_line (receiver_args.chip args) (controller_line_id args)) (Ptr c e2),
             Call (Gpiod_line_request_output c (controller_name args) 0) (Ret rc e3),
             Call (Gpiod_line_request_both_edges_events r (receiver_name args)) (Ret (- 1) e4),
             Do (Stdout (''errno: '' @ dec e4 @ ''\<newline>'')),
             Call (Strerror e4) (Text s),
             Do (Stdout (''=> '' @ s @ ''\<newline>'')),
             Do (Gpiod_line_release r), Do (Gpiod_line_release c),
             Do (Stderr ''ERROR: receiver: cannot set the line's callbacks\<newline>''),
             Do (Exit 1)],
          errno := e4\<rparr>)) \<and>
   (script w = Ptr r e1 # Ptr c e2 # Ret rc e3 # Ret (- 1) e4 # rest \<and>
      r \<noteq> None \<and> rc \<noteq> - 1 \<and> atexit_fns w = [Reset_gpio] \<and>
      reset_answers [GPIO_16, GPIO_17, GPIO_21] rest \<longrightarrow>
      (\<exists>w' a b d. receiver_thread_res args' state w = Some (Exited 1, w') \<and>
         trace w' = trace w @
            [Call (Gpiod_chip_get_line (CHIP w) (receiver_line_id args')) (Ptr r e1),
             Call (Gpiod_chip_get_line (CHIP w) (controller_line_id args')) (Ptr c e2),
             Call (Gpiod_line_request_output c ''controller'' 0) (Ret rc e3),
             Call (Gpiod_line_request_both_edges_events r ''receiver'') (Ret (- 1) e4),
             Do (Gpiod_line_release r)]
            @ (if c = None then [] else [Do (Gpiod_line_release c)])
            @ [Do (Stderr ''ERROR: receiver: cannot set the line's callbacks\<newline>''),
               Do (Stdout ''Reset GPIO\<newline>'')]
            @ a @ b @ d @ [Do (Gpiod_chip_close (CHIP w)), Do (Exit 1)] \<and>
         reset_attempt (CHIP w) 16 a \<and> reset_attempt (CHIP w) 17 b \<and>
         reset_attempt (CHIP w) 21 d \<and>
         releases (a @ b @ d) = reset_released [GPIO_16, GPIO_17, GPIO_21] rest \<and>
         releases (trace w') = releases (trace w) @ r # (if c = None then [] else [c])
            @ reset_released [GPIO_16, GPIO_17, GPIO_21] rest)) \<and>
   (script w = Ptr None e1 # rest \<and> atexit_fns w = [] \<longrightarrow>
      receiver_thread args state w = Some (Exited 1,
        w\<lparr>script := rest,
          trace := trace w @
            [Call (Gpiod_chip_get_line (receiver_args.chip args) (receiver_line_id args)) (Ptr None e1),
             Do (Stderr (''ERROR: receiver: cannot get the line used to receive messages ''
                         @ ''from the issuer\<newline>'')),
             Do (Exit 1)],
          errno := e1\<rparr>)) \<and>
   (script w = Ptr None e1 # rest \<and> atexit_fns w = [Reset_gpio] \<and>
      reset_answers [GPIO_16, GPIO_17, GPIO_21] rest \<longrightarrow>
      (\<exists>w' a b d. receiver_thread_res args' state w = Some (Exited 1, w') \<and>
         trace w' = trace w @
            [Call (Gpiod_chip_get_line (CHIP w) (receiver_line_id args')) (Ptr None e1),
             Do (Stderr (''ERROR: receiver: cannot get the line used to receive messages ''
                         @ ''from the issuer\<newline>'')),
             Do (Stdout ''Reset GPIO\<newline>'')]
            @ a @ b @ d @ [Do (Gpiod_chip_close (CHIP w)), Do (Exit 1)] \<and>
         reset_attempt (CHIP w) 16 a \<and> reset_attempt (CHIP w) 17 b \<and>
         reset_attempt (CHIP w) 21 d \<and>
         releases (a @ b @ d) = reset_released [GPIO_16, GPIO_17, GPIO_21] rest \<and>
         releases (trace w') = releases (trace w)
            @ reset_released [GPIO_16, GPIO_17, GPIO_21] rest))"
proof -
  have one: "receiver_thread args state w = Some (Exited 1,
        w\<lparr>script := rest,
          trace := trace w @
            [Call (Gpiod_chip_get_line (receiver_args.chip args) (receiver_line_id args)) (Ptr r e1),
             Call (Gpiod_chip_get_line (receiver_args.chip args) (controller_line_id args)) (Ptr c e2),
             Call (Gpiod_line_request_output c (controller_name args) 0) (Ret rc e3),
             Call (Gpiod_line_request_both_edges_events r (receiver_name args)) (Ret (- 1) e4),
             Do (Stdout (''errno: '' @ dec e4 @ ''\<newline>'')),
             Call (Strerror e4) (Text s),
             Do (Stdout (''=> '' @ s @ ''\<newline>'')),
             Do (Gpiod_line_release r), Do (Gpiod_line_release c),
             Do (Stderr ''ERROR: receiver: cannot set the line's callbacks\<newline>''),
             Do (Exit 1)],
          errno := e4\<rparr>)"
    if h: "script w = Ptr r e1 # Ptr c e2 # Ret rc e3 # Ret (- 1) e4 # Text s # rest \<and>
      r \<noteq> None \<and> rc \<noteq> - 1 \<and> atexit_fns w = []"
  proof -
    from h have "receiver_thread args state w =
           error ''receiver: cannot set the line's callbacks''
             (w\<lparr>script := rest,
                trace := trace w @
                  [Call (Gpiod_chip_get_line (receiver_args.chip args) (receiver_line_id args)) (Ptr r e1),
                   Call (Gpiod_chip_get_line (receiver_args.chip args) (controller_line_id args)) (Ptr c e2),
                   Call (Gpiod_line_request_output c (controller_name args) 0) (Ret rc e3),
                   Call (Gpiod_line_request_both_edges_events r (receiver_name args)) (Ret (- 1) e4),
                   Do (Stdout (''errno: '' @ dec e4 @ ''\<newline>'')),
                   Call (Strerror e4) (Text s),
                   Do (Stdout (''=> '' @ s @ ''\<newline>'')),
                   Do (Gpiod_line_release r), Do (Gpiod_line_release c)],
                errno := e4\<rparr>)"
      by (intro receiver_thread_events_failure) simp_all
    then show ?thesis using h by (simp add: error_plain)
  qed
  have two: "\<exists>w' a b d. receiver_thread_res args' state w = Some (Exited 1, w') \<and>
         trace w' = trace w @
            [Call (Gpiod_chip_get_line (CHIP w) (receiver_line_id args')) (Ptr r e1),
             Call (Gpiod_chip_get_line (CHIP w) (controller_line_id args')) (Ptr c e2),
             Call (Gpiod_line_request_output c ''controller'' 0) (Ret rc e3),
             Call (Gpiod_line_request_both_edges_events r ''receiver'') (Ret (- 1) e4),
             Do (Gpiod_line_release r)]
            @ (if c = None then [] else [Do (Gpiod_line_release c)])
            @ [Do (Stderr ''ERROR: receiver: cannot set the line's callbacks\<newline>''),
               Do (Stdout ''Reset GPIO\<newline>'')]
            @ a @ b @ d @ [Do (Gpiod_chip_close (CHIP w)), Do (Exit 1)] \<and>
         reset_attempt (CHIP w) 16 a \<and> reset_attempt (CHIP w) 17 b \<and>
         reset_attempt (CHIP w) 21 d \<and>
         releases (a @ b @ d) = reset_released [GPIO_16, GPIO_17, GPIO_21] rest \<and>
         releases (trace w') = releases (trace w) @ r # (if c = None then [] else [c])
            @ reset_released [GPIO_16, GPIO_17, GPIO_21] rest"
    if h: "script w = Ptr r e1 # Ptr c e2 # Ret rc e3 # Ret (- 1) e4 # rest \<and>
      r \<noteq> None \<and> rc \<noteq> - 1 \<and> atexit_fns w = [Reset_gpio] \<and>
      reset_answers [GPIO_16, GPIO_17, GPIO_21] rest"
  proof -
    define w4 where "w4 = w\<lparr>script := rest,
                trace := trace w @
                  [Call (Gpiod_chip_get_line (CHIP w) (receiver_line_id args')) (Ptr r e1),
                   Call (Gpiod_chip_get_line (CHIP w) (controller_line_id args')) (Ptr c e2),
                   Call (Gpiod_line_request_output c ''controller'' 0) (Ret rc e3),
                   Call (Gpiod_line_request_both_edges_events r ''receiver'') (Ret (- 1) e4),
                   Do (Gpiod_line_release r)]
                  @ (if c = None then [] else [Do (Gpiod_line_release c)]),
                errno := e4\<rparr>"
    from h have run: "receiver_thread_res args' state w =
           error ''receiver: cannot set the line's callbacks'' w4"
      unfolding w4_def by (intro receiver_thread_res_events_failure) simp_all
    have tw: "trace w4 = trace w @
                  [Call (Gpiod_chip_get_line (CHIP w) (receiver_line_id args')) (Ptr r e1),
                   Call (Gpiod_chip_get_line (CHIP w) (controller_line_id args')) (Ptr c e2),
                   Call (Gpiod_line_request_output c ''controller'' 0) (Ret rc e3),
                   Call (Gpiod_line_request_both_edges_events r ''receiver'') (Ret (- 1) e4),
                   Do (Gpiod_line_release r)]
                  @ (if c = None then [] else [Do (Gpiod_line_release c)])"
      and cw: "CHIP w4 = CHIP w" and sw: "script w4 = rest"
      by (simp_all add: w4_def)
    have "atexit_fns w4 = [Reset_gpio]" "reset_answers [GPIO_16, GPIO_17, GPIO_21] (script w4)"
      using h by (simp_all add: w4_def)
    from error_with_cleanup[OF this, of "''receiver: cannot set the line's callbacks''"]
    obtain w' a b d where
      e: "error ''receiver: cannot set the line's callbacks'' w4 = Some (Exited 1 :: unit outcome, w')"
      and t: "trace w' = trace w4
             @ [Do (Stderr (''ERROR: '' @ ''receiver: cannot set the line's callbacks'' @ ''\<newline>'')),
                Do (Stdout ''Reset GPIO\<newline>'')]
             @ a @ b @ d @ [Do (Gpiod_chip_close (CHIP w4)), Do (Exit 1)]"
      and at: "reset_attempt (CHIP w4) 16 a" "reset_attempt (CHIP w4) 17 b"
        "reset_attempt (CHIP w4) 21 d"
      and rl: "releases (a @ b @ d) = reset_released [GPIO_16, GPIO_17, GPIO_21] (script w4)"
      by blast
    from run e have "receiver_thread_res args' state w = Some (Exited 1, w')" by (rule trans)
    moreover from t have "trace w' = trace w @
            [Call (Gpiod_chip_get_line (CHIP w) (receiver_line_id args')) (Ptr r e1),
             Call (Gpiod_chip_get_line (CHIP w) (controller_line_id args')) (Ptr c e2),
             Call (Gpiod_line_request_output c ''controller'' 0) (Ret rc e3),
             Call (Gpiod_line_request_both_edges_events r ''receiver'') (Ret (- 1) e4),
             Do (Gpiod_line_release r)]
            @ (if c = None then [] else [Do (Gpiod_line_release c)])
            @ [Do (Stderr ''ERROR: receiver: cannot set the line's callbacks\<newline>''),
               Do (Stdout ''Reset GPIO\<newline>'')]
            @ a @ b @ d @ [Do (Gpiod_chip_close (CHIP w)), Do (Exit 1)]"
      unfolding tw cw by simp
    moreover note at[unfolded cw] rl[unfolded sw]
    moreover have "releases (trace w') = releases (trace w) @ r # (if c = None then [] else [c])
            @ reset_released [GPIO_16, GPIO_17, GPIO_21] rest"
      using rl[unfolded sw] unfolding t tw by simp
    ultimately show ?thesis by blast
  qed
  have three: "receiver_thread args state w = Some (Exited 1,
        w\<lparr>script := rest,
          trace := trace w @
            [Call (Gpiod_chip_get_line (receiver_args.chip args) (receiver_line_id args)) (Ptr None e1),
             Do (Stderr (''ERROR: receiver: cannot get the line used to receive messages ''
                         @ ''from the issuer\<newline>'')),
             Do (Exit 1)],
          errno := e1\<rparr>)"
    if h: "script w = Ptr None e1 # rest \<and> atexit_fns w = []"
  proof -
    from h have "receiver_thread args state w =
           error ''receiver: cannot get the line used to receive messages from the issuer''
             (w\<lparr>script := rest,
                trace := trace w @
                  [Call (Gpiod_chip_get_line (receiver_args.chip args) (receiver_line_id args)) (Ptr None e1)],
                errno := e1\<rparr>)"
      by (intro receiver_thread_no_line) simp
    then show ?thesis using h by (simp add: error_plain)
  qed
  have four: "\<exists>w' a b d. receiver_thread_res args' state w = Some (Exited 1, w') \<and>
         trace w' = trace w @
            [Call (Gpiod_chip_get_line (CHIP w) (receiver_line_id args')) (Ptr None e1),
             Do (Stderr (''ERROR: receiver: cannot get the line used to receive messages ''
                         @ ''from the issuer\<newline>'')),
             Do (Stdout ''Reset GPIO\<newline>'')]
            @ a @ b @ d @ [Do (Gpiod_chip_close (CHIP w)), Do (Exit 1)] \<and>
         reset_attempt (CHIP w) 16 a \<and> reset_attempt (CHIP w) 17 b \<and>
         reset_attempt (CHIP w) 21 d \<and>
         releases (a @ b @ d) = reset_released [GPIO_16, GPIO_17, GPIO_21] rest \<and>
         releases (trace w') = releases (trace w)
            @ reset_released [GPIO_16, GPIO_17, GPIO_21] rest"
    if h: "script w = Ptr None e1 # rest \<and> atexit_fns w = [Reset_gpio] \<and>
      reset_answers [GPIO_16, GPIO_17, GPIO_21] rest"
  proof -
    define w1 where "w1 = w\<lparr>script := rest,
                trace := trace w @
                  [Call (Gpiod_chip_get_line (CHIP w) (receiver_line_id args')) (Ptr None e1)],
                errno := e1\<rparr>"
    from h have run: "receiver_thread_res args' state w =
           error ''receiver: cannot get the line used to receive messages from the issuer'' w1"
      unfolding w1_def by (intro receiver_thread_res_no_line) simp
    have tw: "trace w1 = trace w @
                  [Call (Gpiod_chip_get_line (CHIP w) (receiver_line_id args')) (Ptr None e1)]"
      and cw: "CHIP w1 = CHIP w" and sw: "script w1 = rest"
      by (simp_all add: w1_def)
    have "atexit_fns w1 = [Reset_gpio]" "reset_answers [GPIO_16, GPIO_17, GPIO_21] (script w1)"
      using h by (simp_all add: w1_def)
    from error_with_cleanup[OF this,
        of "''receiver: cannot get the line used to receive messages from the issuer''"]
    obtain w' a b d where
      e: "error ''receiver: cannot get the line used to receive messages from the issuer'' w1
            = Some (Exited 1 :: unit outcome, w')"
      and t: "trace w' = trace w1
             @ [Do (Stderr (''ERROR: ''
                  @ ''receiver: cannot get the line used to receive messages from the issuer''
                  @ ''\<newline>'')),
                Do (Stdout ''Reset GPIO\<newline>'')]
             @ a @ b @ d @ [Do (Gpiod_chip_close (CHIP w1)), Do (Exit 1)]"
      and at: "reset_attempt (CHIP w1) 16 a" "reset_attempt (CHIP w1) 17 b"
        "reset_attempt (CHIP w1) 21 d"
      and rl: "releases (a @ b @ d) = reset_released [GPIO_16, GPIO_17, GPIO_21] (script w1)"
      by blast
    from run e have "receiver_thread_res args' state w = Some (Exited 1, w')" by (rule trans)
    moreover from t have "trace w' = trace w @
            [Call (Gpiod_chip_get_line (CHIP w) (receiver_line_id args')) (Ptr None e1),
             Do (Stderr (''ERROR: receiver: cannot get the line used to receive messages ''
                         @ ''from the issuer\<newline>'')),
             Do (Stdout ''Reset GPIO\<newline>'')]
            @ a @ b @ d @ [Do (Gpiod_chip_close (CHIP w)), Do (Exit 1)]"
      unfolding tw cw by simp
    moreover note at[unfolded cw] rl[unfolded sw]
    moreover have "releases (trace w') = releases (trace w)
            @ reset_released [GPIO_16, GPIO_17, GPIO_21] rest"
      using rl[unfolded sw] unfolding t tw by simp
    ultimately show ?thesis by blast
  qed
  from one two three four show ?thesis by blast
qed


text \<open>
  The Relay from line 21 to line 17 on a platform that refuses the edge events with
  \<open>errno\<close> 16: the run of the task of \<open>src/gpio2.c\<close>, and the run of the task of the
  second program when the callback is then granted lines 16 and 21 but not line 17, so that
  line 17 is released once. The same Relay when line 21 is not obtained: the run of
  \<open>src/gpio2.c\<close>, and the releases of the second program, all made by the callback.
\<close>

theorem watched_line_failure_is_fatal_witness:
  "receiver_thread (relay_args 2) 0
     (world0 [Ptr (Some 21) 0, Ptr (Some 17) 0, Ret 0 0, Ret (- 1) 16,
              Text ''Device or resource busy''])
   = Some (Exited 1,
       (world0 [])\<lparr>trace :=
          [Call (Gpiod_chip_get_line (Some 1) 21) (Ptr (Some 21) 0),
           Call (Gpiod_chip_get_line (Some 1) 17) (Ptr (Some 17) 0),
           Call (Gpiod_line_request_output (Some 17) ''controller'' 0) (Ret 0 0),
           Call (Gpiod_line_request_both_edges_events (Some 21) ''receiver'') (Ret (- 1) 16),
           Do (Stdout ''errno: 16\<newline>''),
           Call (Strerror 16) (Text ''Device or resource busy''),
           Do (Stdout ''=> Device or resource busy\<newline>''),
           Do (Gpiod_line_release (Some 21)), Do (Gpiod_line_release (Some 17)),
           Do (Stderr ''ERROR: receiver: cannot set the line's callbacks\<newline>''),
           Do (Exit 1)],
         errno := 16\<rparr>) \<and>
   (\<exists>w'. receiver_thread_res (relay_args_res 2) 0
        (world_res [Ptr (Some 21) 0, Ptr (Some 17) 0, Ret 0 0, Ret (- 1) 16,
                    Ptr (Some 16) 0, Ret 0 0, Ptr (Some 17) 0, Ret (- 1) 16,
                    Ptr (Some 21) 0, Ret 0 0])
        = Some (Exited 1, w') \<and>
      releases (trace w') = [Some 21, Some 17, Some 16, Some 21]) \<and>
   receiver_thread (relay_args 2) 0 (world0 [Ptr None 19])
   = Some (Exited 1,
       (world0 [])\<lparr>trace :=
          [Call (Gpiod_chip_get_line (Some 1) 21) (Ptr None 19),
           Do (Stderr (''ERROR: receiver: cannot get the line used to receive messages ''
                       @ ''from the issuer\<newline>'')),
           Do (Exit 1)],
         errno := 19\<rparr>) \<and>
   (\<exists>w'. receiver_thread_res (relay_args_res 2) 0
        (world_res [Ptr None 19, Ptr (Some 16) 0, Ret 0 0, Ptr (Some 17) 0, Ret 0 0,
                    Ptr (Some 21) 0, Ret 0 0])
        = Some (Exited 1, w') \<and>
      releases (trace w') = [Some 16, Some 17, Some 21])"
proof -
  let ?w1 = "world0 [Ptr (Some 21) 0, Ptr (Some 17) 0, Ret 0 0, Ret (- 1) 16,
              Text ''Device or resource busy'']"
  let ?r2 = "[Ptr (Some 16) 0, Ret 0 0, Ptr (Some 17) 0, Ret (- 1) 16, Ptr (Some 21) 0, Ret 0 0]"
  let ?w2 = "world_res (Ptr (Some 21) 0 # Ptr (Some 17) 0 # Ret 0 0 # Ret (- 1) 16 # ?r2)"
  let ?w3 = "world0 [Ptr None 19]"
  let ?r4 = "[Ptr (Some 16) 0, Ret 0 0, Ptr (Some 17) 0, Ret 0 0, Ptr (Some 21) 0, Ret 0 0]"
  let ?w4 = "world_res (Ptr None 19 # ?r4)"
  have d16: "dec 16 = ''16''" by code_simp
  have "script ?w1 = Ptr (Some 21) 0 # Ptr (Some 17) 0 # Ret 0 0 # Ret (- 1) 16 #
          Text ''Device or resource busy'' # [] \<and>
        Some (21::nat) \<noteq> None \<and> (0::int) \<noteq> - 1 \<and> atexit_fns ?w1 = []"
    by (simp add: world0_def)
  with watched_line_failure_is_fatal[where w = ?w1 and r = "Some 21" and ?e1.0 = 0
      and c = "Some 17" and ?e2.0 = 0 and rc = 0 and ?e3.0 = 0 and ?e4.0 = 16
      and s = "''Device or resource busy''" and rest = "[]" and args = "relay_args 2"
      and state = 0, THEN conjunct1]
  have one: "receiver_thread (relay_args 2) 0 ?w1 = Some (Exited 1,
        ?w1\<lparr>script := [],
          trace := trace ?w1 @
            [Call (Gpiod_chip_get_line (receiver_args.chip (relay_args 2))
                     (receiver_line_id (relay_args 2))) (Ptr (Some 21) 0),
             Call (Gpiod_chip_get_line (receiver_args.chip (relay_args 2))
                     (controller_line_id (relay_args 2))) (Ptr (Some 17) 0),
             Call (Gpiod_line_request_output (Some 17) (controller_name (relay_args 2)) 0)
               (Ret 0 0),
             Call (Gpiod_line_request_both_edges_events (Some 21) (receiver_name (relay_args 2)))
               (Ret (- 1) 16),
             Do (Stdout (''errno: '' @ dec 16 @ ''\<newline>'')),
             Call (Strerror 16) (Text ''Device or resource busy''),
             Do (Stdout (''=> '' @ ''Device or resource busy'' @ ''\<newline>'')),
             Do (Gpiod_line_release (Some 21)), Do (Gpiod_line_release (Some 17)),
             Do (Stderr ''ERROR: receiver: cannot set the line's callbacks\<newline>''),
             Do (Exit 1)],
          errno := 16\<rparr>)"
    by (rule mp)
  have "script ?w2 = Ptr (Some 21) 0 # Ptr (Some 17) 0 # Ret 0 0 # Ret (- 1) 16 # ?r2 \<and>
        Some (21::nat) \<noteq> None \<and> (0::int) \<noteq> - 1 \<and> atexit_fns ?w2 = [Reset_gpio] \<and>
        reset_answers [GPIO_16, GPIO_17, GPIO_21] ?r2"
    by (simp add: world_res_def world0_def)
  with watched_line_failure_is_fatal[where w = ?w2 and r = "Some 21" and ?e1.0 = 0
      and c = "Some 17" and ?e2.0 = 0 and rc = 0 and ?e3.0 = 0 and ?e4.0 = 16
      and rest = ?r2 and args' = "relay_args_res 2" and state = 0,
      THEN conjunct2, THEN conjunct1]
  have "\<exists>w'. receiver_thread_res (relay_args_res 2) 0 ?w2 = Some (Exited 1, w') \<and>
         releases (trace w') = releases (trace ?w2)
            @ Some 21 # (if Some (17::nat) = None then [] else [Some 17])
            @ reset_released [GPIO_16, GPIO_17, GPIO_21] ?r2"
    by blast
  then have two: "\<exists>w'. receiver_thread_res (relay_args_res 2) 0 ?w2 = Some (Exited 1, w') \<and>
      releases (trace w') = [Some 21, Some 17, Some 16, Some 21]"
    by (simp add: world_res_def world0_def)
  have "script ?w3 = Ptr None 19 # [] \<and> atexit_fns ?w3 = []"
    by (simp add: world0_def)
  with watched_line_failure_is_fatal[where w = ?w3 and ?e1.0 = 19 and rest = "[]"
      and args = "relay_args 2" and state = 0,
      THEN conjunct2, THEN conjunct2, THEN conjunct1]
  have three: "receiver_thread (relay_args 2) 0 ?w3 = Some (Exited 1,
        ?w3\<lparr>script := [],
          trace := trace ?w3 @
            [Call (Gpiod_chip_get_line (receiver_args.chip (relay_args 2))
                     (receiver_line_id (relay_args 2))) (Ptr None 19),
             Do (Stderr (''ERROR: receiver: cannot get the line used to receive messages ''
                         @ ''from the issuer\<newline>'')),
             Do (Exit 1)],
          errno := 19\<rparr>)"
    by (rule mp)
  have "script ?w4 = Ptr None 19 # ?r4 \<and> atexit_fns ?w4 = [Reset_gpio] \<and>
        reset_answers [GPIO_16, GPIO_17, GPIO_21] ?r4"
    by (simp add: world_res_def world0_def)
  with watched_line_failure_is_fatal[where w = ?w4 and ?e1.0 = 19 and rest = ?r4
      and args' = "relay_args_res 2" and state = 0,
      THEN conjunct2, THEN conjunct2, THEN conjunct2]
  have "\<exists>w'. receiver_thread_res (relay_args_res 2) 0 ?w4 = Some (Exited 1, w') \<and>
         releases (trace w') = releases (trace ?w4)
            @ reset_released [GPIO_16, GPIO_17, GPIO_21] ?r4"
    by blast
  then have four: "\<exists>w'. receiver_thread_res (relay_args_res 2) 0 ?w4 = Some (Exited 1, w') \<and>
      releases (trace w') = [Some 16, Some 17, Some 21]"
    by (simp add: world_res_def world0_def)
  from one two three four show ?thesis
    by (simp add: world0_def relay_args_def GPIO_21_def GPIO_17_def d16)
qed

text \<open>
  The run of the task of the second program when the edge events are refused and the
  callback is then granted the three lines: \<open>gpiod_line_release\<close> is called on line 17 by
  the task and again by the callback.
\<close>

theorem controller_line_released_again_by_cleanup:
  "map_option (\<lambda>(out, w). (out, releases (trace w)))
     (receiver_thread_res (relay_args_res 2) 0
        (world_res [Ptr (Some 21) 0, Ptr (Some 17) 0, Ret 0 0, Ret (- 1) 16,
                    Ptr (Some 16) 0, Ret 0 0, Ptr (Some 17) 0, Ret 0 0, Ptr (Some 21) 0, Ret 0 0]))
   = Some (Exited 1, [Some 21, Some 17, Some 16, Some 17, Some 21])"
  by code_simp

end
